theory Spec2Isabelle
  imports Complex_Main "HOL-Library.Stream"
begin

section \<open>JavaScript numbers and the random source\<close>

text \<open>
  The repository holds five near-duplicate variants of one dungeon shooter:
  \<^verbatim>\<open>src/n.mjs\<close> (suffix \<open>_m\<close> below), \<^verbatim>\<open>src/n.js\<close> (\<open>_j\<close>),
  \<^verbatim>\<open>src/unnamed/part_000\<close> (\<open>_c\<close>), and the two programs concatenated in
  \<^verbatim>\<open>src/unnamed/part_001\<close>: FREEDOM (lines 1-2318, \<open>_f\<close>) and the full-window
  variant with heal and armory rooms (lines 2319-3760, \<open>_h\<close>).  Every definition keeps
  the name of the source function it embeds, followed by the variant's suffix.

  Numbers are IEEE doubles in the source.  Room coordinates, depths, keys and counters
  only ever hold small integers and are modelled as \<open>int\<close>; positions, velocities, timers
  and hit points are modelled as \<open>real\<close> (rounding is not modelled).  A room id is the
  string \<^verbatim>\<open>x + "," + y\<close> built by \<^verbatim>\<open>roomKey\<close> and read back by \<^verbatim>\<open>parseRoom\<close>;
  it is modelled as the pair \<open>(x, y)\<close>.
\<close>

type_synonym room_id = "int \<times> int"

definition roomKey :: "int \<Rightarrow> int \<Rightarrow> room_id" where
  "roomKey x y = (x, y)"

text \<open>JavaScript's \<^verbatim>\<open>%\<close> on integers: the remainder has the sign of the dividend.\<close>

definition js_rem :: "int \<Rightarrow> int \<Rightarrow> int" where
  "js_rem a b = sgn a * (\<bar>a\<bar> mod \<bar>b\<bar>)"

text \<open>\<^verbatim>\<open>v | 0\<close>: truncate toward zero, then wrap to a signed 32-bit integer.\<close>

definition js_trunc :: "real \<Rightarrow> int" where
  "js_trunc v = (if 0 \<le> v then \<lfloor>v\<rfloor> else \<lceil>v\<rceil>)"

definition js_int32 :: "real \<Rightarrow> int" where
  "js_int32 v = (let m = js_trunc v mod 4294967296 in if 2147483648 \<le> m then m - 4294967296 else m)"

definition clamp :: "real \<Rightarrow> real \<Rightarrow> real \<Rightarrow> real" where
  "clamp v a b = (if v < a then a else (if v > b then b else v))"

definition lerp :: "real \<Rightarrow> real \<Rightarrow> real \<Rightarrow> real" where
  "lerp a b t = a + (b - a) * t"

definition dist2 :: "real \<Rightarrow> real \<Rightarrow> real \<Rightarrow> real \<Rightarrow> real" where
  "dist2 ax ay bx by = (let dx = ax - bx; dy = ay - by in dx * dx + dy * dy)"

text \<open>
  \<^verbatim>\<open>Math.random()\<close> is the only source of nondeterminism.  A run is given the stream of
  the values it will return, each in \<open>[0, 1)\<close>; a function that draws takes the stream
  and returns what is left of it.
\<close>

type_synonym rng = "real stream"

definition randi :: "int \<Rightarrow> real \<Rightarrow> int" where
  \<comment> \<open>\<^verbatim>\<open>randi(n)\<close> of the \<open>n.*\<close> variants, on the value \<open>u\<close> drawn\<close>
  "randi n u = js_int32 (u * real_of_int n)"

definition chance :: "real \<Rightarrow> real \<Rightarrow> bool" where
  \<comment> \<open>\<^verbatim>\<open>chance(p)\<close>, on the value \<open>u\<close> drawn\<close>
  "chance p u = (u < p)"

datatype dir = DirN | DirS | DirW | DirE

datatype room_kind = KStart | KCombat | KShop | KHeal | KArmory | KTreasure | KBoss

section \<open>Deterministic special rooms (part_001, full-window variant)\<close>

text \<open>A node as \<^verbatim>\<open>ensureNode\<close> creates it (part_001 lines 2449-2463).\<close>

record node_h =
  h_id :: room_id
  h_x :: int
  h_y :: int
  h_depth :: int
  h_kind :: room_kind
  h_seen :: bool
  h_cleared :: bool
  h_flags :: "string set"

definition newNode_h :: "room_id \<Rightarrow> node_h" where
  "newNode_h i = \<lparr> h_id = i, h_x = fst i, h_y = snd i, h_depth = \<bar>fst i\<bar> + \<bar>snd i\<bar>,
     h_kind = KCombat, h_seen = False, h_cleared = False, h_flags = {} \<rparr>"

definition isShopCoord :: "int \<Rightarrow> int \<Rightarrow> bool" where
  "isShopCoord x y =
    (let d = \<bar>x\<bar> + \<bar>y\<bar> in
     if d < 1 then False
     else let m = js_rem d 4 in
       if m = 0 then (x = d \<and> y = 0)
       else if m = 1 then (x = 0 \<and> y = d)
       else if m = 2 then (x = - d \<and> y = 0)
       else (x = 0 \<and> y = - d))"

definition isHealCoord :: "int \<Rightarrow> int \<Rightarrow> bool" where
  "isHealCoord x y =
    (let d = \<bar>x\<bar> + \<bar>y\<bar> in
     if d < 2 then False
     else if x \<ge> 0 \<and> y \<ge> 0 then (x = d - 1 \<and> y = 1)
     else if x \<le> 0 \<and> y \<ge> 0 then (x = - 1 \<and> y = d - 1)
     else if x \<le> 0 \<and> y \<le> 0 then (x = - (d - 1) \<and> y = - 1)
     else (x = 1 \<and> y = - (d - 1)))"

definition isArmoryCoord :: "int \<Rightarrow> int \<Rightarrow> bool" where
  "isArmoryCoord x y =
    (let d = \<bar>x\<bar> + \<bar>y\<bar> in
     if d < 3 then False
     else let h = x * 31 + y * 17 + d * 13;
              h' = js_rem (js_rem h 11 + 11) 11 in
       if h' \<noteq> 0 then False
       else if isShopCoord x y \<or> isHealCoord x y then False
       else True)"

definition assignRoomKind_h :: "node_h \<Rightarrow> room_kind" where
  "assignRoomKind_h node =
    (if h_id node = (0, 0) then KStart
     else if isShopCoord (h_x node) (h_y node) then KShop
     else if isHealCoord (h_x node) (h_y node) then KHeal
     else if isArmoryCoord (h_x node) (h_y node) then KArmory
     else KCombat)"

text \<open>The classification of a coordinate: the kind of the node created for it.\<close>

definition classify_h :: "int \<Rightarrow> int \<Rightarrow> room_kind" where
  "classify_h x y = assignRoomKind_h (newNode_h (roomKey x y))"


subsection \<open>Facts about the classification\<close>

lemma js_rem_nonneg: "0 \<le> a \<Longrightarrow> js_rem a b = a mod \<bar>b\<bar>"
  unfolding js_rem_def by (cases "a = 0") (simp_all add: sgn_if)



text \<open>The one cell of ring \<open>d\<close> that \<^verbatim>\<open>isShopCoord\<close> accepts.\<close>

definition shop_slot :: "int \<Rightarrow> int \<times> int" where
  "shop_slot d = (if d mod 4 = 0 then (d, 0) else if d mod 4 = 1 then (0, d)
                  else if d mod 4 = 2 then (- d, 0) else (0, - d))"

lemma isShopCoord_slot:
  "isShopCoord x y \<longleftrightarrow> (1 \<le> \<bar>x\<bar> + \<bar>y\<bar> \<and> (x, y) = shop_slot (\<bar>x\<bar> + \<bar>y\<bar>))"
proof -
  have "0 \<le> \<bar>x\<bar> + \<bar>y\<bar>" by simp
  then have r: "js_rem (\<bar>x\<bar> + \<bar>y\<bar>) 4 = (\<bar>x\<bar> + \<bar>y\<bar>) mod 4"
    by (simp add: js_rem_nonneg)
  show ?thesis
    unfolding isShopCoord_def Let_def r shop_slot_def by auto
qed



lemma classify_h_unfold:
  "classify_h x y =
    (if (x, y) = (0, 0) then KStart
     else if isShopCoord x y then KShop
     else if isHealCoord x y then KHeal
     else if isArmoryCoord x y then KArmory
     else KCombat)"
  by (simp add: classify_h_def assignRoomKind_h_def newNode_h_def roomKey_def)


text \<open>
  At most one Shop per ring, and Start only at the origin: both hold of the code.
\<close>

lemma shop_unique_on_ring:
  assumes "classify_h x y = KShop" "classify_h x' y' = KShop" "\<bar>x\<bar> + \<bar>y\<bar> = \<bar>x'\<bar> + \<bar>y'\<bar>"
  shows "x = x' \<and> y = y'"
proof -
  have "isShopCoord x y" "isShopCoord x' y'"
    using assms(1,2) unfolding classify_h_unfold by (auto split: if_splits)
  then show ?thesis
    using assms(3) unfolding isShopCoord_slot by (metis prod.inject)
qed

lemma start_only_origin: "classify_h x y = KStart \<longleftrightarrow> (x, y) = (0, 0)"
  unfolding classify_h_unfold by simp

text \<open>
  Claim C7 (at most one Shop and at most one Heal per depth ring; Start only at the
  origin).  The Shop and Start parts hold (\<open>shop_unique_on_ring\<close>, \<open>start_only_origin\<close>).
  The Heal part fails on the code: \<^verbatim>\<open>isHealCoord\<close>, commented "Heal: one per depth ring",
  selects its cell by the quadrant of the coordinate tested and so accepts one cell in
  each of the four quadrants.  On ring 2 the cells \<open>(1,1)\<close>, \<open>(-1,1)\<close>, \<open>(-1,-1)\<close> and
  \<open>(1,-1)\<close> are all classified Heal.
\<close>

theorem C7_four_heal_rooms_on_ring_two:
  "classify_h 1 1 = KHeal \<and> classify_h (- 1) 1 = KHeal
   \<and> classify_h (- 1) (- 1) = KHeal \<and> classify_h 1 (- 1) = KHeal
   \<and> \<bar>1::int\<bar> + \<bar>1\<bar> = 2 \<and> \<bar>- 1::int\<bar> + \<bar>1\<bar> = 2 \<and> \<bar>- 1::int\<bar> + \<bar>- 1\<bar> = 2 \<and> \<bar>1::int\<bar> + \<bar>- 1\<bar> = 2"
  by (simp add: classify_h_unfold isShopCoord_def isHealCoord_def js_rem_def)





section \<open>The n.mjs variant: world state\<close>

text \<open>
  The globals of \<^verbatim>\<open>src/n.mjs\<close> (\<^verbatim>\<open>state\<close>, \<^verbatim>\<open>player\<close>, \<^verbatim>\<open>WEAPONS\<close>, the view
  size and offsets) are the fields of one record, passed through every function that reads
  or writes them.  The keyboard and mouse are the tick's input.  The objects of
  \<^verbatim>\<open>state.map\<close> and \<^verbatim>\<open>state.rooms\<close> are only ever reached through their id, so a
  write to \<^verbatim>\<open>node.kind\<close> or \<^verbatim>\<open>room.doorsOpen.N\<close> is an update of the map at that id.
\<close>

datatype enemy_type = Shooter | Chaser | BossT

datatype owner = FromPlayer | FromEnemy

record node_m =
  mn_id :: room_id
  mn_x :: int
  mn_y :: int
  mn_depth :: int
  mn_kind :: room_kind
  mn_seen :: bool
  mn_cleared :: bool
  mn_flags :: "string set"

record room_m =
  mr_id :: room_id
  mr_g :: "int list option"  \<comment> \<open>the tile grid; \<open>None\<close> is \<^verbatim>\<open>null\<close>, before generation\<close>
  mr_doorsOpen :: "dir \<Rightarrow> bool"
  mr_neighbors :: "dir \<Rightarrow> bool"

record boss_m =
  mo_phase :: int
  mo_patternId :: int
  mo_patternName :: string
  mo_spinA :: real

record enemy_m =
  me_type :: enemy_type
  me_x :: real
  me_y :: real
  me_r :: real
  me_hp :: real
  me_vx :: real
  me_vy :: real
  me_t :: real
  me_fireCD :: real
  me_boss :: "boss_m option"  \<comment> \<open>the four extra fields of a boss object\<close>

record bullet_m =
  mb_x :: real
  mb_y :: real
  mb_vx :: real
  mb_vy :: real
  mb_r :: real
  mb_t :: real
  mb_dmg :: real
  mb_from :: owner
  mb_kind :: string

record pickup_m =
  mk_x :: real
  mk_y :: real
  mk_t :: string
  mk_v :: int
  mk_r :: real

record fx_m =
  mf_x :: real
  mf_y :: real
  mf_vx :: real
  mf_vy :: real
  mf_t :: real

record weapon_m =
  wp_id :: int
  wp_name :: string
  wp_unlocked :: bool
  wp_dmg :: real
  wp_fire :: real
  wp_speed :: real
  wp_spread :: real
  wp_pellets :: int
  wp_burstStep :: "real option"

record player_m =
  mp_x :: real
  mp_y :: real
  mp_r :: real
  mp_hp :: real
  mp_hpMax :: real
  mp_invT :: real
  mp_dashT :: real
  mp_dashCD :: real
  mp_vx :: real
  mp_vy :: real
  mp_speed :: real
  mp_weapon :: int
  mp_fireCD :: real
  mp_burstQ :: int
  mp_burstCD :: real

record cam_m =
  mc_x :: real
  mc_y :: real
  mc_shake :: real
  mc_shakeT :: real

record world_m =
  mw_running :: bool
  mw_paused :: bool
  mw_shopOpen :: bool
  mw_msg :: string
  mw_msgT :: real
  mw_coins :: int
  mw_roomId :: room_id
  mw_cam :: cam_m
  mw_map :: "room_id \<rightharpoonup> node_m"
  mw_rooms :: "room_id \<rightharpoonup> room_m"
  mw_enemies :: "enemy_m list"
  mw_bullets :: "bullet_m list"
  mw_pickups :: "pickup_m list"
  mw_fx :: "fx_m list"
  mw_player :: player_m
  mw_WEAPONS :: "weapon_m list"
  mw_VIEW_W :: real
  mw_VIEW_H :: real
  mw_VIEW_OX :: real
  mw_VIEW_OY :: real

record input_m =
  in_keys :: "int \<Rightarrow> bool"         \<comment> \<open>\<^verbatim>\<open>keys[code]\<close>: held\<close>
  in_keysPressed :: "int \<Rightarrow> bool"  \<comment> \<open>\<^verbatim>\<open>keysPressed[code]\<close>: pressed since the last frame\<close>
  in_mouse_x :: real
  in_mouse_y :: real
  in_mouse_down :: bool

definition TAU :: real where "TAU = pi * 2"

definition TILE_m :: real where "TILE_m = 40"
definition ROOM_TW :: int where "ROOM_TW = 21"
definition ROOM_TH :: int where "ROOM_TH = 13"
definition ROOM_W_m :: real where "ROOM_W_m = real_of_int ROOM_TW * TILE_m"
definition ROOM_H_m :: real where "ROOM_H_m = real_of_int ROOM_TH * TILE_m"
definition DOOR_SPAN_m :: real where "DOOR_SPAN_m = 44"
definition DOOR_THICK_m :: real where "DOOR_THICK_m = 26"
definition MAX_DEPTH_m :: int where "MAX_DEPTH_m = 40"

definition KEY_LEFT :: int where "KEY_LEFT = 37"
definition KEY_UP :: int where "KEY_UP = 38"
definition KEY_RIGHT :: int where "KEY_RIGHT = 39"
definition KEY_DOWN :: int where "KEY_DOWN = 40"
definition KEY_A :: int where "KEY_A = 65"
definition KEY_W :: int where "KEY_W = 87"
definition KEY_D :: int where "KEY_D = 68"
definition KEY_S :: int where "KEY_S = 83"
definition KEY_SPACE :: int where "KEY_SPACE = 32"
definition KEY_SHIFT :: int where "KEY_SHIFT = 16"
definition KEY_ESC :: int where "KEY_ESC = 27"
definition KEY_F :: int where "KEY_F = 70"
definition KEY_Q :: int where "KEY_Q = 81"
definition KEY_E :: int where "KEY_E = 69"
definition KEY_R :: int where "KEY_R = 82"
definition KEY_ONE :: int where "KEY_ONE = 49"
definition KEY_TWO :: int where "KEY_TWO = 50"
definition KEY_THREE :: int where "KEY_THREE = 51"
definition KEY_FOUR :: int where "KEY_FOUR = 52"
definition KEY_FIVE :: int where "KEY_FIVE = 53"
definition KEY_SIX :: int where "KEY_SIX = 54"
definition KEY_SEVEN :: int where "KEY_SEVEN = 55"

definition wasPressed :: "input_m \<Rightarrow> int \<Rightarrow> bool" where
  "wasPressed inp code = in_keysPressed inp code"

text \<open>\<^verbatim>\<open>norm(x, y)\<close>: the length \<^verbatim>\<open>Math.sqrt(x*x + y*y) || 1\<close> is 1 when it is 0.\<close>

definition norm_js :: "real \<Rightarrow> real \<Rightarrow> real \<times> real" where
  "norm_js x y = (let l0 = sqrt (x * x + y * y); l = (if l0 = 0 then 1 else l0) in (x / l, y / l))"

text \<open>\<^verbatim>\<open>Math.atan2(y, x)\<close> on reals.\<close>

definition atan2_js :: "real \<Rightarrow> real \<Rightarrow> real" where
  "atan2_js y x =
    (if 0 < x then arctan (y / x)
     else if x < 0 then (if 0 \<le> y then arctan (y / x) + pi else arctan (y / x) - pi)
     else if 0 < y then pi / 2 else if y < 0 then - (pi / 2) else 0)"

text \<open>\<^verbatim>\<open>arr.splice(i, 1)\<close>.\<close>

definition splice1 :: "'a list \<Rightarrow> nat \<Rightarrow> 'a list" where
  "splice1 xs i = take i xs @ drop (Suc i) xs"

definition WEAPONS_m :: "weapon_m list" where
  "WEAPONS_m =
    [\<lparr>wp_id = 0, wp_name = ''Pistol'', wp_unlocked = True, wp_dmg = 3, wp_fire = 0.18, wp_speed = 520,
       wp_spread = 0, wp_pellets = 1, wp_burstStep = None\<rparr>,
     \<lparr>wp_id = 1, wp_name = ''Shotgun'', wp_unlocked = False, wp_dmg = 2, wp_fire = 0.55, wp_speed = 460,
       wp_spread = 0.40, wp_pellets = 6, wp_burstStep = None\<rparr>,
     \<lparr>wp_id = 2, wp_name = ''Rifle'', wp_unlocked = False, wp_dmg = 4, wp_fire = 0.12, wp_speed = 620,
       wp_spread = 0.02, wp_pellets = 1, wp_burstStep = None\<rparr>,
     \<lparr>wp_id = 3, wp_name = ''SMG'', wp_unlocked = False, wp_dmg = 2, wp_fire = 0.07, wp_speed = 560,
       wp_spread = 0.08, wp_pellets = 1, wp_burstStep = None\<rparr>,
     \<lparr>wp_id = 4, wp_name = ''Sniper'', wp_unlocked = False, wp_dmg = 10, wp_fire = 0.65, wp_speed = 860,
       wp_spread = 0, wp_pellets = 1, wp_burstStep = None\<rparr>,
     \<lparr>wp_id = 5, wp_name = ''Burst'', wp_unlocked = False, wp_dmg = 3, wp_fire = 0.22, wp_speed = 640,
       wp_spread = 0.03, wp_pellets = 3, wp_burstStep = Some 0.03\<rparr>,
     \<lparr>wp_id = 6, wp_name = ''Laser'', wp_unlocked = False, wp_dmg = 5, wp_fire = 0.30, wp_speed = 900,
       wp_spread = 0, wp_pellets = 1, wp_burstStep = None\<rparr>]"

subsection \<open>Room nodes and rooms (n.mjs lines 148-201, 308-340)\<close>

definition newNode_m :: "room_id \<Rightarrow> node_m" where
  "newNode_m i = \<lparr> mn_id = i, mn_x = fst i, mn_y = snd i, mn_depth = \<bar>fst i\<bar> + \<bar>snd i\<bar>,
     mn_kind = KCombat, mn_seen = False, mn_cleared = False, mn_flags = {} \<rparr>"

definition ensureNode_m :: "room_id \<Rightarrow> world_m \<Rightarrow> world_m" where
  "ensureNode_m i w =
    (case mw_map w i of None \<Rightarrow> w\<lparr>mw_map := (mw_map w)(i \<mapsto> newNode_m i)\<rparr> | Some n \<Rightarrow> w)"

text \<open>The node \<^verbatim>\<open>ensureNode(id)\<close> returns.\<close>

definition getNode_m :: "world_m \<Rightarrow> room_id \<Rightarrow> node_m" where
  "getNode_m w i = (case mw_map w i of None \<Rightarrow> newNode_m i | Some n \<Rightarrow> n)"

definition setNode_m :: "room_id \<Rightarrow> (node_m \<Rightarrow> node_m) \<Rightarrow> world_m \<Rightarrow> world_m" where
  "setNode_m i f w = w\<lparr>mw_map := (mw_map w)(i \<mapsto> f (getNode_m w i))\<rparr>"

definition newRoom_m :: "room_id \<Rightarrow> room_m" where
  "newRoom_m i = \<lparr> mr_id = i, mr_g = None, mr_doorsOpen = (\<lambda>d. True), mr_neighbors = (\<lambda>d. False) \<rparr>"

definition ensureRoom_m :: "room_id \<Rightarrow> world_m \<Rightarrow> world_m" where
  "ensureRoom_m i w =
    (case mw_rooms w i of None \<Rightarrow> w\<lparr>mw_rooms := (mw_rooms w)(i \<mapsto> newRoom_m i)\<rparr> | Some r \<Rightarrow> w)"

text \<open>The room \<^verbatim>\<open>ensureRoom(id)\<close> returns.\<close>

definition getRoom_m :: "world_m \<Rightarrow> room_id \<Rightarrow> room_m" where
  "getRoom_m w i = (case mw_rooms w i of None \<Rightarrow> newRoom_m i | Some r \<Rightarrow> r)"

definition setRoom_m :: "room_id \<Rightarrow> (room_m \<Rightarrow> room_m) \<Rightarrow> world_m \<Rightarrow> world_m" where
  "setRoom_m i f w = w\<lparr>mw_rooms := (mw_rooms w)(i \<mapsto> f (getRoom_m w i))\<rparr>"

definition assignRoomKind_m :: "node_m \<Rightarrow> room_kind" where
  "assignRoomKind_m node =
    (if mn_id node = (0, 0) then KStart
     else if isShopCoord (mn_x node) (mn_y node) then KShop
     else KCombat)"

definition shouldSpawnBoss :: "node_m \<Rightarrow> bool" where
  "shouldSpawnBoss node =
    (if mn_kind node \<noteq> KCombat then False
     else if mn_depth node \<le> 0 then False
     else if js_rem (mn_depth node) 10 \<noteq> 0 then False
     else True)"

definition lockDoors_m :: "bool \<Rightarrow> room_m \<Rightarrow> room_m" where
  "lockDoors_m locked room =
    room\<lparr>mr_doorsOpen := (((((mr_doorsOpen room)(DirN := \<not> locked))(DirS := \<not> locked))
        (DirW := \<not> locked))(DirE := \<not> locked))\<rparr>"


subsection \<open>Tile generation and collision (n.mjs lines 211-306)\<close>

definition tileIndex :: "int \<Rightarrow> int \<Rightarrow> int" where
  "tileIndex tx ty = ty * ROOM_TW + tx"

text \<open>
  \<^verbatim>\<open>g[tileIndex(tx, ty)] = v\<close> and \<^verbatim>\<open>g[tileIndex(tx, ty)]\<close>.  Every index the generator
  writes is inside the grid when the draws are in \<open>[0, 1)\<close>; a read outside the array is
  \<^verbatim>\<open>undefined\<close> in the source, which equals no tile code, and is \<open>-1\<close> here.
\<close>

definition grid_set :: "int list \<Rightarrow> int \<Rightarrow> int \<Rightarrow> int \<Rightarrow> int list" where
  "grid_set g tx ty v =
    (let i = tileIndex tx ty in if 0 \<le> i \<and> nat i < length g then g[nat i := v] else g)"

definition grid_get :: "int list \<Rightarrow> int \<Rightarrow> int \<Rightarrow> int" where
  "grid_get g tx ty =
    (let i = tileIndex tx ty in if 0 \<le> i \<and> nat i < length g then g ! nat i else - 1)"

definition fill_grid :: "int list" where
  "fill_grid =
    fold (\<lambda>y g. fold (\<lambda>x g.
        grid_set g x y (if x = 0 \<or> y = 0 \<or> x = ROOM_TW - 1 \<or> y = ROOM_TH - 1 then 0 else 1))
      [0..ROOM_TW - 1] g) [0..ROOM_TH - 1] (replicate (nat (ROOM_TW * ROOM_TH)) (- 1))"

text \<open>One round of the scatter loops: two \<^verbatim>\<open>randi\<close> draws, then a \<^verbatim>\<open>chance\<close> draw.\<close>

definition scatter_step :: "real \<Rightarrow> int \<Rightarrow> nat \<Rightarrow> int list \<times> rng \<Rightarrow> int list \<times> rng" where
  "scatter_step p v i st =
    (let g = fst st; rs = snd st;
         px = 2 + randi (ROOM_TW - 4) (shd rs); rs1 = stl rs;
         py = 2 + randi (ROOM_TH - 4) (shd rs1); rs2 = stl rs1;
         c = chance p (shd rs2); rs3 = stl rs2
     in (if c then grid_set g px py v else g, rs3))"

definition pillar_step :: "real \<Rightarrow> int \<Rightarrow> int \<Rightarrow> int list \<times> rng \<Rightarrow> int list \<times> rng" where
  "pillar_step density y x st =
    (let g = fst st; rs = snd st in
     if grid_get g x y \<noteq> 1 then (g, rs)
     else (if chance density (shd rs) then grid_set g x y 4 else g, stl rs))"

definition clear_center :: "int list \<Rightarrow> int list" where
  "clear_center g =
    (let cx = js_int32 (real_of_int ROOM_TW / 2); cy = js_int32 (real_of_int ROOM_TH / 2) in
     fold (\<lambda>y g. fold (\<lambda>x g. grid_set g x y 1) [cx - 1..cx + 1] g) [cy - 1..cy + 1] g)"

definition carveDoor :: "dir \<Rightarrow> int list \<Rightarrow> int list" where
  "carveDoor d g =
    (let mx = js_int32 (real_of_int ROOM_TW / 2); my = js_int32 (real_of_int ROOM_TH / 2) in
     case d of
       DirN \<Rightarrow> grid_set (grid_set g mx 0 1) mx 1 3
     | DirS \<Rightarrow> grid_set (grid_set g mx (ROOM_TH - 1) 1) mx (ROOM_TH - 2) 3
     | DirW \<Rightarrow> grid_set (grid_set g 0 my 1) 1 my 3
     | DirE \<Rightarrow> grid_set (grid_set g (ROOM_TW - 1) my 1) (ROOM_TW - 2) my 3)"

definition carve_doors :: "(dir \<Rightarrow> bool) \<Rightarrow> int list \<Rightarrow> int list" where
  "carve_doors nb g =
    (let g1 = (if nb DirN then carveDoor DirN g else g);
         g2 = (if nb DirS then carveDoor DirS g1 else g1);
         g3 = (if nb DirW then carveDoor DirW g2 else g2)
     in (if nb DirE then carveDoor DirE g3 else g3))"

definition genRoomTiles_m :: "room_id \<Rightarrow> rng \<Rightarrow> world_m \<Rightarrow> world_m \<times> rng" where
  "genRoomTiles_m i rs w =
    (let node = getNode_m w i;
         w1 = ensureRoom_m i w;
         room = getRoom_m w1 i;
         st1 = (if mn_kind node = KCombat
                then fold (scatter_step 0.22 2) [0..<18] (fill_grid, rs)
                else fold (scatter_step 0.35 5) [0..<16] (fill_grid, rs));
         density = (if mn_kind node = KCombat then 0.045 else 0.020);
         st2 = fold (\<lambda>y st. fold (pillar_step density y) [2..ROOM_TW - 3] st) [2..ROOM_TH - 3] st1;
         g = carve_doors (mr_neighbors room) (clear_center (fst st2))
     in (setRoom_m i (\<lambda>r. r\<lparr>mr_g := Some g\<rparr>) w1, snd st2))"

text \<open>
  \<^verbatim>\<open>isSolidAtPoint\<close> (lines 278-295) reads \<^verbatim>\<open>room.g[tileIndex(tx, ty)]\<close> with no test of
  \<^verbatim>\<open>room.g\<close>.  A room that \<^verbatim>\<open>ensureRoom\<close> has made and \<^verbatim>\<open>genRoomTiles\<close> has not yet
  filled has \<^verbatim>\<open>g: null\<close>, and the read throws a \<^verbatim>\<open>TypeError\<close>; a point outside the room
  is solid before the grid is looked at.  Nothing in the simulation catches the error: it
  ends the tick.
\<close>

datatype js_error = TypeError

definition isSolidAtPoint_m :: "real \<Rightarrow> real \<Rightarrow> room_m \<Rightarrow> js_error + bool" where
  "isSolidAtPoint_m wx wy room =
    (let tx = js_int32 (wx / TILE_m); ty = js_int32 (wy / TILE_m) in
     if tx < 0 \<or> ty < 0 \<or> tx \<ge> ROOM_TW \<or> ty \<ge> ROOM_TH then Inr True
     else case mr_g room of
       None \<Rightarrow> Inl TypeError
     | Some g \<Rightarrow>
        (let t = grid_get g tx ty in
         if t = 0 \<or> t = 2 then Inr True
         else if t = 4 then
           (let cx = real_of_int tx * TILE_m + TILE_m * 0.5;
                cy = real_of_int ty * TILE_m + TILE_m * 0.5;
                dx = wx - cx; dy = wy - cy;
                rad = TILE_m * 0.30
            in Inr (dx * dx + dy * dy \<le> rad * rad))
         else Inr False))"

text \<open>
  \<^verbatim>\<open>collideCircle\<close> (lines 297-306): the samples are tried in order; the first one that is
  solid ends the loop, and so does the first one that throws.
\<close>

primrec collide_samples :: "real \<Rightarrow> real \<Rightarrow> real \<Rightarrow> room_m \<Rightarrow> nat list \<Rightarrow> js_error + bool" where
  "collide_samples x y r room [] = Inr False"
| "collide_samples x y r room (i # rest) =
    (let a = (real i / 14) * TAU;
         px = x + cos a * r;
         py = y + sin a * r
     in case isSolidAtPoint_m px py room of
          Inl err \<Rightarrow> Inl err
        | Inr solid \<Rightarrow> if solid then Inr True else collide_samples x y r room rest)"

definition collideCircle_m :: "real \<Rightarrow> real \<Rightarrow> real \<Rightarrow> room_m \<Rightarrow> js_error + bool" where
  "collideCircle_m x y r room = collide_samples x y r room [0..<14]"

text \<open>A step that returns, as a result that may also be an error.\<close>

definition ok :: "'a \<times> rng \<Rightarrow> (js_error + 'a) \<times> rng" where
  "ok st = (Inr (fst st), snd st)"

subsection \<open>Neighbours (n.mjs lines 308-333)\<close>

definition link_m :: "room_id \<Rightarrow> int \<Rightarrow> int \<Rightarrow> dir \<Rightarrow> dir \<Rightarrow> world_m \<Rightarrow> world_m" where
  "link_m i nx ny dirA dirB w =
    (if \<bar>nx\<bar> + \<bar>ny\<bar> > MAX_DEPTH_m then w
     else let w1 = setRoom_m i (\<lambda>r. r\<lparr>mr_neighbors := (mr_neighbors r)(dirA := True)\<rparr>) w;
              nid = roomKey nx ny;
              w2 = ensureRoom_m nid (ensureNode_m nid w1)
          in setRoom_m nid (\<lambda>r. r\<lparr>mr_neighbors := (mr_neighbors r)(dirB := True)\<rparr>) w2)"

definition buildNeighborsAround_m :: "room_id \<Rightarrow> rng \<Rightarrow> world_m \<Rightarrow> world_m \<times> rng" where
  "buildNeighborsAround_m i rs w =
    (let w0 = ensureRoom_m i (ensureNode_m i w);
         node = getNode_m w0 i;
         x = mn_x node; y = mn_y node;
         w1 = link_m i x (y - 1) DirN DirS w0;
         w2 = link_m i x (y + 1) DirS DirN w1;
         w3 = link_m i (x - 1) y DirW DirE w2;
         w4 = link_m i (x + 1) y DirE DirW w3;
         w5 = setNode_m i (\<lambda>n. n\<lparr>mn_kind := assignRoomKind_m n\<rparr>) w4
     in genRoomTiles_m i rs w5)"


subsection \<open>Entities (n.mjs lines 342-409)\<close>

definition spawnEnemy_m :: "enemy_type \<Rightarrow> real \<Rightarrow> real \<Rightarrow> int \<Rightarrow> world_m \<Rightarrow> world_m" where
  "spawnEnemy_m ty x y depth w =
    (let hpBase = (if ty = Shooter then 10 else 9);
         e = \<lparr> me_type = ty, me_x = x, me_y = y,
               me_r = (if ty = Shooter then 18 else 19),
               me_hp = hpBase + real_of_int (js_int32 (real_of_int depth / 3)),
               me_vx = 0, me_vy = 0, me_t = 0, me_fireCD = 0, me_boss = None \<rparr>
     in w\<lparr>mw_enemies := mw_enemies w @ [e]\<rparr>)"

definition shake_m :: "real \<Rightarrow> real \<Rightarrow> world_m \<Rightarrow> world_m" where
  "shake_m amount time w =
    w\<lparr>mw_cam := (mw_cam w)\<lparr>mc_shake := max (mc_shake (mw_cam w)) amount,
                              mc_shakeT := max (mc_shakeT (mw_cam w)) time\<rparr>\<rparr>"

text \<open>\<^verbatim>\<open>BOSS_PATTERNS[i]\<close> as \<open>(id, name)\<close>; \<open>i\<close> is \<^verbatim>\<open>randi(4)\<close>, in \<open>0..3\<close>.\<close>

definition BOSS_PATTERNS :: "int \<Rightarrow> int \<times> string" where
  "BOSS_PATTERNS i =
    (if i = 0 then (0, ''Boss Shotcone'')
     else if i = 1 then (1, ''Boss Burst'')
     else if i = 2 then (2, ''Boss Spiral'')
     else (3, ''Boss LaserSweep''))"

definition spawnBoss_m :: "real \<Rightarrow> real \<Rightarrow> int \<Rightarrow> rng \<Rightarrow> world_m \<Rightarrow> world_m \<times> rng" where
  "spawnBoss_m x y depth rs w =
    (let pat = BOSS_PATTERNS (randi 4 (shd rs)); rs1 = stl rs;
         e = \<lparr> me_type = BossT, me_x = x, me_y = y, me_r = 30,
               me_hp = 140 + real_of_int depth * 6,
               me_vx = 0, me_vy = 0, me_t = 0, me_fireCD = 0,
               me_boss = Some \<lparr> mo_phase = 0, mo_patternId = fst pat, mo_patternName = snd pat,
                                mo_spinA = shd rs1 * TAU \<rparr> \<rparr>;
         w1 = w\<lparr>mw_enemies := mw_enemies w @ [e]\<rparr>;
         w2 = w1\<lparr>mw_msg := ''BOSS: '' @ snd pat, mw_msgT := 1.2\<rparr>
     in (shake_m 10 0.22 w2, stl rs1))"

definition spawnBullet_m ::
  "real \<Rightarrow> real \<Rightarrow> real \<Rightarrow> real \<Rightarrow> real \<Rightarrow> owner \<Rightarrow> string \<Rightarrow> real option \<Rightarrow> world_m \<Rightarrow> world_m" where
  "spawnBullet_m x y vx vy dmg from kind life w =
    w\<lparr>mw_bullets := mw_bullets w @
      [\<lparr> mb_x = x, mb_y = y, mb_vx = vx, mb_vy = vy,
         mb_r = (if from = FromPlayer then 4 else 5),
         mb_t = (case life of Some l \<Rightarrow> l | None \<Rightarrow> (if from = FromPlayer then 1.2 else 1.8)),
         mb_dmg = dmg, mb_from = from, mb_kind = kind \<rparr>]\<rparr>"

definition dropCoin_step :: "real \<Rightarrow> real \<Rightarrow> nat \<Rightarrow> world_m \<times> rng \<Rightarrow> world_m \<times> rng" where
  "dropCoin_step x y i st =
    (let w = fst st; rs = snd st;
         a = shd rs * TAU; rs1 = stl rs;
         r = 18 + shd rs1 * 22; rs2 = stl rs1
     in (w\<lparr>mw_pickups := mw_pickups w @
           [\<lparr> mk_x = x + cos a * r, mk_y = y + sin a * r, mk_t = ''coin'', mk_v = 1, mk_r = 9 \<rparr>]\<rparr>,
         rs2))"

definition dropCoins_m :: "real \<Rightarrow> real \<Rightarrow> int \<Rightarrow> rng \<Rightarrow> world_m \<Rightarrow> world_m \<times> rng" where
  "dropCoins_m x y amount rs w = fold (dropCoin_step x y) [0..<nat amount] (w, rs)"

subsection \<open>Doors and room content (n.mjs lines 411-507)\<close>

definition inDoorBand_m :: "dir \<Rightarrow> real \<Rightarrow> real \<Rightarrow> bool" where
  "inDoorBand_m d x y =
    (let cx = ROOM_W_m * 0.5; cy = ROOM_H_m * 0.5 in
     if d = DirN then \<bar>x - cx\<bar> \<le> DOOR_SPAN_m \<and> y \<le> DOOR_THICK_m
     else if d = DirS then \<bar>x - cx\<bar> \<le> DOOR_SPAN_m \<and> y \<ge> ROOM_H_m - DOOR_THICK_m
     else if d = DirW then \<bar>y - cy\<bar> \<le> DOOR_SPAN_m \<and> x \<le> DOOR_THICK_m
     else \<bar>y - cy\<bar> \<le> DOOR_SPAN_m \<and> x \<ge> ROOM_W_m - DOOR_THICK_m)"

definition snapCameraToPlayer_m :: "world_m \<Rightarrow> world_m" where
  "snapCameraToPlayer_m w =
    (let maxX = max 0 (ROOM_W_m - mw_VIEW_W w);
         maxY = max 0 (ROOM_H_m - mw_VIEW_H w);
         w1 = w\<lparr>mw_cam := (mw_cam w)\<lparr>mc_x := clamp (mp_x (mw_player w) - mw_VIEW_W w / 2) 0 maxX,
                                       mc_y := clamp (mp_y (mw_player w) - mw_VIEW_H w / 2) 0 maxY\<rparr>\<rparr>
     in w1\<lparr>mw_VIEW_OX := (if ROOM_W_m < mw_VIEW_W w then (mw_VIEW_W w - ROOM_W_m) * 0.5 else 0),
           mw_VIEW_OY := (if ROOM_H_m < mw_VIEW_H w then (mw_VIEW_H w - ROOM_H_m) * 0.5 else 0)\<rparr>)"

definition spawn_step :: "int \<Rightarrow> nat \<Rightarrow> world_m \<times> rng \<Rightarrow> world_m \<times> rng" where
  "spawn_step depth i st =
    (let w = fst st; rs = snd st;
         px = 80 + shd rs * (ROOM_W_m - 160); rs1 = stl rs;
         py = 80 + shd rs1 * (ROOM_H_m - 160); rs2 = stl rs1;
         ty = (if chance 0.30 (shd rs2) then Shooter else Chaser); rs3 = stl rs2
     in (spawnEnemy_m ty px py depth w, rs3))"

definition spawnRoomContents_m :: "room_id \<Rightarrow> rng \<Rightarrow> world_m \<Rightarrow> world_m \<times> rng" where
  "spawnRoomContents_m i rs w =
    (let w0 = ensureRoom_m i (ensureNode_m i w);
         w1 = setNode_m i (\<lambda>n. n\<lparr>mn_kind := assignRoomKind_m n\<rparr>) w0;
         w2 = w1\<lparr>mw_enemies := [], mw_bullets := [], mw_pickups := [], mw_fx := []\<rparr>;
         node = getNode_m w2 i
     in if mn_kind node = KStart \<or> mn_kind node = KShop then
          (let w3 = setNode_m i (\<lambda>n. n\<lparr>mn_cleared := True\<rparr>) w2;
               w4 = setRoom_m i (lockDoors_m False) w3
           in (if mn_kind node = KStart
               then w4\<lparr>mw_pickups := mw_pickups w4 @
                      [\<lparr> mk_x = ROOM_W_m / 2 + 60, mk_y = ROOM_H_m / 2, mk_t = ''coin'', mk_v = 6, mk_r = 10 \<rparr>]\<rparr>
               else w4, rs))
        else if \<not> mn_cleared node then
          (let st = (if shouldSpawnBoss node
                     then spawnBoss_m (ROOM_W_m * 0.5) (ROOM_H_m * 0.5) (mn_depth node) rs w2
                     else (let n = 4 + randi 4 (shd rs) + js_int32 (real_of_int (mn_depth node) / 4)
                           in fold (spawn_step (mn_depth node)) [0..<nat n] (w2, stl rs)))
           in (setRoom_m i (lockDoors_m True) (fst st), snd st))
        else (setRoom_m i (lockDoors_m False) w2, rs))"

definition loadRoom_m :: "room_id \<Rightarrow> rng \<Rightarrow> world_m \<Rightarrow> world_m \<times> rng" where
  "loadRoom_m i rs w =
    (let w0 = ensureNode_m i w;
         w1 = setNode_m i (\<lambda>n. n\<lparr>mn_kind := assignRoomKind_m n\<rparr>) w0;
         st2 = buildNeighborsAround_m i rs w1;
         st3 = genRoomTiles_m i (snd st2) (fst st2);
         st4 = spawnRoomContents_m i (snd st3) (fst st3);
         w5 = setNode_m i (\<lambda>n. n\<lparr>mn_seen := True\<rparr>) (ensureNode_m i (fst st4));
         w6 = w5\<lparr>mw_shopOpen := False\<rparr>
     in (snapCameraToPlayer_m w6, snd st4))"

definition dir_dx :: "dir \<Rightarrow> int" where
  "dir_dx d = (if d = DirN then 0 else if d = DirS then 0 else if d = DirW then - 1 else 1)"

definition dir_dy :: "dir \<Rightarrow> int" where
  "dir_dy d = (if d = DirN then - 1 else if d = DirS then 1 else 0)"

definition place_player_m :: "dir \<Rightarrow> player_m \<Rightarrow> player_m" where
  "place_player_m d p =
    (let p1 = (if d = DirN then p\<lparr>mp_y := ROOM_H_m - 24, mp_x := clamp (mp_x p) 24 (ROOM_W_m - 24)\<rparr> else p);
         p2 = (if d = DirS then p1\<lparr>mp_y := 24, mp_x := clamp (mp_x p1) 24 (ROOM_W_m - 24)\<rparr> else p1);
         p3 = (if d = DirW then p2\<lparr>mp_x := ROOM_W_m - 24, mp_y := clamp (mp_y p2) 24 (ROOM_H_m - 24)\<rparr> else p2)
     in (if d = DirE then p3\<lparr>mp_x := 24, mp_y := clamp (mp_y p3) 24 (ROOM_H_m - 24)\<rparr> else p3))"

text \<open>The result pairs the new world with the function's return value.\<close>

definition tryDoorTransitionByIntent_m :: "dir \<Rightarrow> rng \<Rightarrow> world_m \<Rightarrow> (world_m \<times> bool) \<times> rng" where
  "tryDoorTransitionByIntent_m d rs w =
    (let w0 = ensureRoom_m (mw_roomId w) (ensureNode_m (mw_roomId w) w);
         node = getNode_m w0 (mw_roomId w0);
         room = getRoom_m w0 (mw_roomId w0)
     in if \<not> mr_neighbors room d then ((w0, False), rs)
        else if \<not> mr_doorsOpen room d then
          ((if inDoorBand_m d (mp_x (mw_player w0)) (mp_y (mw_player w0))
            then w0\<lparr>mw_msg := ''DOOR LOCKED'', mw_msgT := 0.7\<rparr> else w0, False), rs)
        else
          (let nid = roomKey (mn_x node + dir_dx d) (mn_y node + dir_dy d);
               w1 = ensureRoom_m nid (ensureNode_m nid w0);
               w2 = w1\<lparr>mw_roomId := nid\<rparr>;
               st3 = loadRoom_m (mw_roomId w2) rs w2;
               w4 = (fst st3)\<lparr>mw_player := place_player_m d (mw_player (fst st3))\<rparr>
           in ((snapCameraToPlayer_m w4, True), snd st3)))"


subsection \<open>Shop and combat (n.mjs lines 509-669)\<close>

definition nearShopCounter_m :: "world_m \<Rightarrow> bool" where
  "nearShopCounter_m w =
    (let cx = ROOM_W_m * 0.5; cy = TILE_m * 2.7 in
     dist2 (mp_x (mw_player w)) (mp_y (mw_player w)) cx cy < 60 * 60)"

definition tryOpenShop_m :: "world_m \<Rightarrow> world_m" where
  "tryOpenShop_m w =
    (let w0 = ensureNode_m (mw_roomId w) w;
         node = getNode_m w0 (mw_roomId w0)
     in if mn_kind node \<noteq> KShop then w0
        else if \<not> nearShopCounter_m w0 then w0\<lparr>mw_msg := ''STEP TO COUNTER'', mw_msgT := 0.8\<rparr>
        else w0\<lparr>mw_shopOpen := \<not> mw_shopOpen w0\<rparr>)"

datatype shop_item = ItemUnlock int int | ItemHeal int real
  \<comment> \<open>\<open>ItemUnlock cost weaponId\<close>, \<open>ItemHeal cost amount\<close>; key, label and desc are display only\<close>

definition SHOP_ITEMS_m :: "shop_item list" where
  "SHOP_ITEMS_m = [ItemUnlock 10 1, ItemUnlock 16 2, ItemUnlock 18 3, ItemUnlock 22 4,
                   ItemUnlock 20 5, ItemUnlock 26 6, ItemHeal 6 3]"

definition item_cost :: "shop_item \<Rightarrow> int" where
  "item_cost it = (case it of ItemUnlock c _ \<Rightarrow> c | ItemHeal c _ \<Rightarrow> c)"

text \<open>
  \<^verbatim>\<open>WEAPONS[i]\<close>.  The index is \<^verbatim>\<open>player.weapon\<close>, a shop item's \<^verbatim>\<open>weaponId\<close> or the
  constant 5, all inside the table; outside it the source would throw, and the model
  leaves the world as it is.
\<close>

definition weapon_at :: "weapon_m list \<Rightarrow> int \<Rightarrow> weapon_m option" where
  "weapon_at ws i = (if 0 \<le> i \<and> nat i < length ws then Some (ws ! nat i) else None)"

definition unlock_weapon :: "int \<Rightarrow> world_m \<Rightarrow> world_m" where
  "unlock_weapon i w =
    w\<lparr>mw_WEAPONS := (mw_WEAPONS w)[nat i := (mw_WEAPONS w ! nat i)\<lparr>wp_unlocked := True\<rparr>]\<rparr>"

definition buyShopItem_m :: "shop_item \<Rightarrow> world_m \<Rightarrow> world_m" where
  "buyShopItem_m item w =
    (if mw_coins w < item_cost item then
       shake_m 2 0.08 (w\<lparr>mw_msg := ''NOT ENOUGH COINS'', mw_msgT := 0.8\<rparr>)
     else case item of
       ItemUnlock cost weaponId \<Rightarrow>
         (case weapon_at (mw_WEAPONS w) weaponId of
            None \<Rightarrow> w
          | Some wp \<Rightarrow>
              if wp_unlocked wp then w\<lparr>mw_msg := ''ALREADY OWNED'', mw_msgT := 0.7\<rparr>
              else (unlock_weapon weaponId w)
                     \<lparr>mw_coins := mw_coins w - cost, mw_msg := ''UNLOCKED: '' @ wp_name wp, mw_msgT := 1.0\<rparr>)
     | ItemHeal cost amount \<Rightarrow>
         if mp_hp (mw_player w) \<ge> mp_hpMax (mw_player w) then w\<lparr>mw_msg := ''HP FULL'', mw_msgT := 0.7\<rparr>
         else w\<lparr>mw_coins := mw_coins w - cost,
                mw_player := (mw_player w)\<lparr>mp_hp := clamp (mp_hp (mw_player w) + amount) 0 (mp_hpMax (mw_player w))\<rparr>,
                mw_msg := ''HEALED'', mw_msgT := 0.9\<rparr>)"

definition aim_angle_m :: "input_m \<Rightarrow> world_m \<Rightarrow> real" where
  \<comment> \<open>\<^verbatim>\<open>baseA\<close> of \<^verbatim>\<open>shoot\<close> and \<^verbatim>\<open>updateBurst\<close>\<close>
  "aim_angle_m inp w =
    (let wx = mc_x (mw_cam w) + (in_mouse_x inp - mw_VIEW_OX w);
         wy = mc_y (mw_cam w) + (in_mouse_y inp - mw_VIEW_OY w);
         n = norm_js (wx - mp_x (mw_player w)) (wy - mp_y (mw_player w))
     in atan2_js (snd n) (fst n))"

definition pellet_step :: "weapon_m \<Rightarrow> real \<Rightarrow> nat \<Rightarrow> world_m \<times> rng \<Rightarrow> world_m \<times> rng" where
  "pellet_step wp baseA i st =
    (let w = fst st; rs = snd st;
         a = baseA + wp_spread wp * (shd rs - 0.5); rs1 = stl rs;
         sp = wp_speed wp * (0.92 + shd rs1 * 0.16); rs2 = stl rs1
     in (spawnBullet_m (mp_x (mw_player w)) (mp_y (mw_player w)) (cos a * sp) (sin a * sp)
           (wp_dmg wp) FromPlayer ''p'' (Some 1.1) w, rs2))"

definition shoot_m :: "input_m \<Rightarrow> rng \<Rightarrow> world_m \<Rightarrow> world_m \<times> rng" where
  "shoot_m inp rs w =
    (if mp_fireCD (mw_player w) > 0 then (w, rs)
     else case weapon_at (mw_WEAPONS w) (mp_weapon (mw_player w)) of
       None \<Rightarrow> (w, rs)
     | Some wp \<Rightarrow>
        if \<not> wp_unlocked wp then (w, rs)
        else let baseA = aim_angle_m inp w in
          if wp_id wp = 5 then
            (w\<lparr>mw_player := (mw_player w)\<lparr>mp_burstQ := wp_pellets wp, mp_burstCD := 0,
                                            mp_fireCD := wp_fire wp\<rparr>\<rparr>, rs)
          else if wp_id wp = 6 then
            (let spL = wp_speed wp;
                 w1 = spawnBullet_m (mp_x (mw_player w)) (mp_y (mw_player w))
                        (cos baseA * spL) (sin baseA * spL) (wp_dmg wp) FromPlayer ''pl'' (Some 0.9) w;
                 w2 = w1\<lparr>mw_player := (mw_player w1)\<lparr>mp_fireCD := wp_fire wp\<rparr>\<rparr>
             in (shake_m 3 0.07 w2, rs))
          else
            (let st = fold (pellet_step wp baseA) [0..<nat (wp_pellets wp)] (w, rs);
                 w1 = fst st;
                 w2 = w1\<lparr>mw_player := (mw_player w1)\<lparr>mp_fireCD := wp_fire wp\<rparr>\<rparr>
             in (shake_m (2 + (if wp_pellets wp > 1 then 2 else 0)) 0.08 w2, snd st)))"

definition updateBurst_m :: "real \<Rightarrow> input_m \<Rightarrow> rng \<Rightarrow> world_m \<Rightarrow> world_m \<times> rng" where
  "updateBurst_m dt inp rs w =
    (if mp_burstQ (mw_player w) \<le> 0 then (w, rs)
     else let w1 = w\<lparr>mw_player := (mw_player w)\<lparr>mp_burstCD := mp_burstCD (mw_player w) - dt\<rparr>\<rparr> in
       if mp_burstCD (mw_player w1) > 0 then (w1, rs)
       else case weapon_at (mw_WEAPONS w1) 5 of
         None \<Rightarrow> (w1, rs)
       | Some wp \<Rightarrow>
          (let baseA = aim_angle_m inp w1;
               a = baseA + wp_spread wp * (shd rs - 0.5);
               w2 = spawnBullet_m (mp_x (mw_player w1)) (mp_y (mw_player w1))
                      (cos a * wp_speed wp) (sin a * wp_speed wp) (wp_dmg wp) FromPlayer ''pb'' (Some 1.0) w1;
               w3 = w2\<lparr>mw_player := (mw_player w2)
                      \<lparr>mp_burstQ := mp_burstQ (mw_player w2) - 1,
                       mp_burstCD := (case wp_burstStep wp of Some v \<Rightarrow> v | None \<Rightarrow> 0)\<rparr>\<rparr>
           in (shake_m 1.5 0.04 w3, stl rs)))"

text \<open>The em dash of the death message, as its UTF-8 bytes.\<close>

definition EM_DASH :: string where
  "EM_DASH = [CHR 0xE2, CHR 0x80, CHR 0x94]"

definition hurtPlayer_m :: "real \<Rightarrow> world_m \<Rightarrow> world_m" where
  "hurtPlayer_m dmg w =
    (if mp_invT (mw_player w) > 0 then w
     else let w1 = w\<lparr>mw_player := (mw_player w)\<lparr>mp_hp := mp_hp (mw_player w) - dmg, mp_invT := 0.7\<rparr>\<rparr>;
              w2 = shake_m 9 0.18 w1
          in if mp_hp (mw_player w2) \<le> 0
             then w2\<lparr>mw_player := (mw_player w2)\<lparr>mp_hp := 0\<rparr>,
                     mw_msg := ''YOU DIED '' @ EM_DASH @ '' PRESS R'', mw_msgT := 999, mw_paused := True\<rparr>
             else w2)"


subsection \<open>Boss attacks (n.mjs lines 623-669)\<close>

text \<open>The extra fields of a boss object; only objects made by \<^verbatim>\<open>spawnBoss\<close> are read.\<close>

definition boss_part :: "enemy_m \<Rightarrow> boss_m" where
  "boss_part e = (case me_boss e of Some b \<Rightarrow> b
     | None \<Rightarrow> \<lparr> mo_phase = 0, mo_patternId = 3, mo_patternName = [], mo_spinA = 0 \<rparr>)"

definition bossAttack_m :: "real \<Rightarrow> rng \<Rightarrow> enemy_m \<times> world_m \<Rightarrow> (enemy_m \<times> world_m) \<times> rng" where
  "bossAttack_m dt rs ew =
    (let boss0 = fst ew; w = snd ew;
         boss = boss0\<lparr>me_fireCD := me_fireCD boss0 - dt\<rparr>
     in if me_fireCD boss > 0 then ((boss, w), rs)
        else
         (let dx = mp_x (mw_player w) - me_x boss;
              dy = mp_y (mw_player w) - me_y boss;
              aToP = atan2_js dy dx;
              w0 = ensureNode_m (mw_roomId w) w;
              depth = mn_depth (getNode_m w0 (mw_roomId w0));
              spBase = 260 + real_of_int depth * 3;
              bp = boss_part boss;
              res =
               (if mo_patternId bp = 0 then
                  ((boss\<lparr>me_fireCD := 0.95\<rparr>,
                    fold (\<lambda>i w. let a = aToP + 0.75 * (real i / 8 - 0.5) in
                            spawnBullet_m (me_x boss) (me_y boss) (cos a * spBase) (sin a * spBase)
                              1 FromEnemy ''be'' (Some 2.2) w) [0..<9] w0), rs)
                else if mo_patternId bp = 1 then
                  (let st = fold (\<lambda>j st. let aj = aToP + 0.10 * (shd (snd st) - 0.5) in
                            (spawnBullet_m (me_x boss) (me_y boss) (cos aj * (spBase + 120))
                               (sin aj * (spBase + 120)) 1 FromEnemy ''be'' (Some 2.0) (fst st),
                             stl (snd st))) [0..<3::nat] (w0, rs)
                   in ((boss\<lparr>me_fireCD := 0.45\<rparr>, fst st), snd st))
                else if mo_patternId bp = 2 then
                  (let spin = mo_spinA bp + 0.55 in
                   ((boss\<lparr>me_boss := Some (bp\<lparr>mo_spinA := spin\<rparr>), me_fireCD := 0.70\<rparr>,
                     fold (\<lambda>k w. let ak = spin + real k * (TAU / 6) in
                            spawnBullet_m (me_x boss) (me_y boss) (cos ak * (spBase + 60))
                              (sin ak * (spBase + 60)) 1 FromEnemy ''be'' (Some 2.4) w) [0..<6] w0), rs))
                else
                  (let sweep = js_rem (mo_phase bp) 7 - 3;
                       al = aToP + real_of_int sweep * 0.08
                   in ((boss\<lparr>me_boss := Some (bp\<lparr>mo_phase := mo_phase bp + 1\<rparr>), me_fireCD := 0.18\<rparr>,
                        spawnBullet_m (me_x boss) (me_y boss) (cos al * (spBase + 300))
                          (sin al * (spBase + 300)) 2 FromEnemy ''beL'' (Some 1.2) w0), rs)))
          in ((fst (fst res), shake_m 6 0.10 (snd (fst res))), snd res)))"

subsection \<open>The simulation loops (n.mjs lines 806-989)\<close>

fun cycle_loop :: "nat \<Rightarrow> int \<Rightarrow> int \<Rightarrow> world_m \<Rightarrow> world_m" where
  "cycle_loop 0 i dir w = w"
| "cycle_loop (Suc fuel) i dir w =
    (let n = int (length (mw_WEAPONS w));
         i' = js_rem (i + dir + n) n
     in case weapon_at (mw_WEAPONS w) i' of
          None \<Rightarrow> w
        | Some wp \<Rightarrow> if wp_unlocked wp then w\<lparr>mw_player := (mw_player w)\<lparr>mp_weapon := i'\<rparr>\<rparr>
                     else cycle_loop fuel i' dir w)"

definition cycleWeapon_m :: "int \<Rightarrow> world_m \<Rightarrow> world_m" where
  \<comment> \<open>the loop runs while \<^verbatim>\<open>count < WEAPONS.length\<close>\<close>
  "cycleWeapon_m dir w = cycle_loop (length (mw_WEAPONS w)) (mp_weapon (mw_player w)) dir w"

definition updateCamera_m :: "real \<Rightarrow> world_m \<Rightarrow> world_m" where
  "updateCamera_m dt w =
    (let maxX = max 0 (ROOM_W_m - mw_VIEW_W w);
         maxY = max 0 (ROOM_H_m - mw_VIEW_H w);
         tx = clamp (mp_x (mw_player w) - mw_VIEW_W w / 2) 0 maxX;
         ty = clamp (mp_y (mw_player w) - mw_VIEW_H w / 2) 0 maxY;
         w1 = w\<lparr>mw_cam := (mw_cam w)\<lparr>mc_x := lerp (mc_x (mw_cam w)) tx (10 * dt),
                                       mc_y := lerp (mc_y (mw_cam w)) ty (10 * dt)\<rparr>\<rparr>
     in w1\<lparr>mw_VIEW_OX := (if ROOM_W_m < mw_VIEW_W w then (mw_VIEW_W w - ROOM_W_m) * 0.5 else 0),
           mw_VIEW_OY := (if ROOM_H_m < mw_VIEW_H w then (mw_VIEW_H w - ROOM_H_m) * 0.5 else 0)\<rparr>)"

definition unlockRandomWeapon_m :: "rng \<Rightarrow> world_m \<Rightarrow> world_m \<times> rng" where
  "unlockRandomWeapon_m rs w =
    (let locked = filter (\<lambda>i. \<not> wp_unlocked (mw_WEAPONS w ! i)) [0..<length (mw_WEAPONS w)] in
     if length locked = 0 then (w, rs)
     else let k = randi (int (length locked)) (shd rs) in
       if 0 \<le> k \<and> nat k < length locked then
         (let i = locked ! nat k; wp = mw_WEAPONS w ! i in
          ((unlock_weapon (int i) w)\<lparr>mw_msg := ''FOUND: '' @ wp_name wp, mw_msgT := 1.1\<rparr>, stl rs))
       else (w, stl rs))"

text \<open>
  The loops run \<^verbatim>\<open>i\<close> from \<^verbatim>\<open>length - 1\<close> down to 0 over an array that only loses
  elements at or above \<^verbatim>\<open>i\<close>; the body for index \<open>i\<close> is a step of a fold over the indices.
\<close>

definition put_enemy :: "nat \<Rightarrow> enemy_m \<Rightarrow> world_m \<Rightarrow> world_m" where
  "put_enemy i e w = w\<lparr>mw_enemies := (mw_enemies w)[i := e]\<rparr>"

definition move_enemy_m :: "real \<Rightarrow> room_m \<Rightarrow> enemy_m \<Rightarrow> js_error + enemy_m" where
  "move_enemy_m dt room e =
    (let nx = me_x e + me_vx e * dt;
         ny = me_y e + me_vy e * dt
     in case collideCircle_m nx (me_y e) (me_r e) room of
          Inl err \<Rightarrow> Inl err
        | Inr cx \<Rightarrow>
           (let e1 = (if \<not> cx then e\<lparr>me_x := nx\<rparr> else e) in
            case collideCircle_m (me_x e1) ny (me_r e1) room of
              Inl err \<Rightarrow> Inl err
            | Inr cy \<Rightarrow> Inr (if \<not> cy then e1\<lparr>me_y := ny\<rparr> else e1)))"

definition touches_player_m :: "enemy_m \<Rightarrow> world_m \<Rightarrow> bool" where
  "touches_player_m e w =
    (dist2 (me_x e) (me_y e) (mp_x (mw_player w)) (mp_y (mw_player w))
       < (me_r e + mp_r (mw_player w)) * (me_r e + mp_r (mw_player w)))"

text \<open>
  The body of the loop of \<^verbatim>\<open>updateEnemies\<close> for the enemy \<open>e\<close> at index \<open>i\<close>, in the
  order of the source: the boss branch (lines 853-881) and the branch of the other enemies
  (lines 883-918), each ending with the contact damage and the death of the enemy.
\<close>

definition touch_m :: "real \<Rightarrow> enemy_m \<Rightarrow> world_m \<Rightarrow> world_m" where
  "touch_m dmg e w = (if touches_player_m e w then hurtPlayer_m dmg w else w)"

definition boss_death_m :: "nat \<Rightarrow> enemy_m \<Rightarrow> rng \<Rightarrow> world_m \<Rightarrow> world_m \<times> rng" where
  "boss_death_m i e rs w =
    (let dc = dropCoins_m (me_x e) (me_y e) 30 rs w;
         ul = (if chance 0.80 (shd (snd dc)) then unlockRandomWeapon_m (stl (snd dc)) (fst dc)
               else (fst dc, stl (snd dc)));
         w5 = (fst ul)\<lparr>mw_enemies := splice1 (mw_enemies (fst ul)) i\<rparr>;
         w6 = shake_m 14 0.25 w5
     in (w6\<lparr>mw_msg := ''BOSS DOWN!'', mw_msgT := 1.2\<rparr>, snd ul))"

definition boss_step_m :: "real \<Rightarrow> room_m \<Rightarrow> nat \<Rightarrow> enemy_m \<Rightarrow> rng \<Rightarrow> world_m
    \<Rightarrow> (js_error + world_m) \<times> rng" where
  "boss_step_m dt room i e rs w =
    (let dxB = ROOM_W_m * 0.5 - me_x e;
         dyB = ROOM_H_m * 0.5 - me_y e;
         e1 = e\<lparr>me_vx := lerp (me_vx e) (dxB * 0.25) (1.8 * dt),
                me_vy := lerp (me_vy e) (dyB * 0.25) (1.8 * dt)\<rparr>
     in case move_enemy_m dt room e1 of
          Inl err \<Rightarrow> (Inl err, rs)
        | Inr e2 \<Rightarrow>
           (let ba = bossAttack_m dt rs (e2, w);
                e3 = fst (fst ba);
                w4 = touch_m 2 e3 (put_enemy i e3 (snd (fst ba)))
            in if me_hp e3 \<le> 0 then ok (boss_death_m i e3 (snd ba) w4) else (Inr w4, snd ba)))"

definition shooter_ai_m :: "real \<Rightarrow> int \<Rightarrow> real \<Rightarrow> real \<Rightarrow> real \<Rightarrow> rng \<Rightarrow> enemy_m \<times> world_m
    \<Rightarrow> (enemy_m \<times> world_m) \<times> rng" where
  "shooter_ai_m dt depth dx dy d rs ew =
    (let e = fst ew; w = snd ew;
         sp2 = 95 + real_of_int depth * 1.5;
         desired = 210;
         mv = (if d < desired
               then (e\<lparr>me_vx := - (dx / d) * sp2, me_vy := - (dy / d) * sp2\<rparr>, rs)
               else (e\<lparr>me_vx := (shd rs - 0.5) * 40, me_vy := (shd (stl rs) - 0.5) * 40\<rparr>,
                     stl (stl rs)));
         e1 = fst mv; rs1 = snd mv;
         e2 = (if me_fireCD e1 > 0 then e1\<lparr>me_fireCD := me_fireCD e1 - dt\<rparr> else e1)
     in if me_fireCD e2 \<le> 0 \<and> d < 480 then
          (let n = norm_js dx dy;
               w1 = spawnBullet_m (me_x e2) (me_y e2)
                      (fst n * (320 + real_of_int depth * 4)) (snd n * (320 + real_of_int depth * 4))
                      1 FromEnemy ''e'' (Some 2.0) w
           in ((e2\<lparr>me_fireCD := 0.9 + shd rs1 * 0.6\<rparr>, w1), stl rs1))
        else ((e2, w), rs1))"

definition enemy_death_m :: "int \<Rightarrow> nat \<Rightarrow> enemy_m \<Rightarrow> rng \<Rightarrow> world_m \<Rightarrow> world_m \<times> rng" where
  "enemy_death_m depth i e rs w =
    (let coins = 2 + randi 3 (shd rs) + js_int32 (real_of_int depth / 4);
         dc = dropCoins_m (me_x e) (me_y e) coins (stl rs) w;
         w5 = (if chance 0.10 (shd (snd dc))
               then (fst dc)\<lparr>mw_pickups := mw_pickups (fst dc) @
                      [\<lparr> mk_x = me_x e, mk_y = me_y e, mk_t = ''heart'', mk_v = 2, mk_r = 10 \<rparr>]\<rparr>
               else fst dc)
     in (w5\<lparr>mw_enemies := splice1 (mw_enemies w5) i\<rparr>, stl (snd dc)))"

definition normal_step_m :: "real \<Rightarrow> room_m \<Rightarrow> int \<Rightarrow> nat \<Rightarrow> enemy_m \<Rightarrow> rng \<Rightarrow> world_m
    \<Rightarrow> (js_error + world_m) \<times> rng" where
  "normal_step_m dt room depth i e rs w =
    (let dx = mp_x (mw_player w) - me_x e;
         dy = mp_y (mw_player w) - me_y e;
         d0 = sqrt (dx * dx + dy * dy);
         d = (if d0 = 0 then 1 else d0);
         ai = (if me_type e = Chaser then
                 (let sp = 105 + real_of_int depth * 2 in
                  ((e\<lparr>me_vx := (dx / d) * sp, me_vy := (dy / d) * sp\<rparr>, w), rs))
               else shooter_ai_m dt depth dx dy d rs (e, w))
     in case move_enemy_m dt room (fst (fst ai)) of
          Inl err \<Rightarrow> (Inl err, snd ai)
        | Inr e3 \<Rightarrow>
           (let w4 = touch_m 1 e3 (put_enemy i e3 (snd (fst ai)))
            in if me_hp e3 \<le> 0 then ok (enemy_death_m depth i e3 (snd ai) w4) else (Inr w4, snd ai)))"

text \<open>Once an enemy's step has thrown, the loop runs no further step.\<close>

definition enemy_step_m :: "real \<Rightarrow> room_m \<Rightarrow> int \<Rightarrow> nat \<Rightarrow> (js_error + world_m) \<times> rng
    \<Rightarrow> (js_error + world_m) \<times> rng" where
  "enemy_step_m dt room depth i st =
    (case fst st of
       Inl err \<Rightarrow> st
     | Inr w \<Rightarrow>
        (let rs = snd st in
         if \<not> i < length (mw_enemies w) then (Inr w, rs)
         else let e0 = mw_enemies w ! i; e = e0\<lparr>me_t := me_t e0 + dt\<rparr> in
          if me_type e = BossT then boss_step_m dt room i e rs w
          else normal_step_m dt room depth i e rs w))"

definition updateEnemies_m :: "real \<Rightarrow> rng \<Rightarrow> world_m \<Rightarrow> (js_error + world_m) \<times> rng" where
  "updateEnemies_m dt rs w =
    (let w0 = ensureNode_m (mw_roomId w) (ensureRoom_m (mw_roomId w) w);
         room = getRoom_m w0 (mw_roomId w0);
         depth = mn_depth (getNode_m w0 (mw_roomId w0))
     in fold (enemy_step_m dt room depth) (rev [0..<length (mw_enemies w0)]) (Inr w0, rs))"


fun last_index :: "('a \<Rightarrow> bool) \<Rightarrow> 'a list \<Rightarrow> nat option" where
  "last_index P [] = None"
| "last_index P (x # xs) =
    (case last_index P xs of Some j \<Rightarrow> Some (Suc j) | None \<Rightarrow> (if P x then Some 0 else None))"

definition bullet_hits_enemy_m :: "bullet_m \<Rightarrow> enemy_m \<Rightarrow> bool" where
  "bullet_hits_enemy_m b en =
    (dist2 (mb_x b) (mb_y b) (me_x en) (me_y en) < (mb_r b + me_r en) * (mb_r b + me_r en))"

definition bullet_hits_player_m :: "bullet_m \<Rightarrow> world_m \<Rightarrow> bool" where
  "bullet_hits_player_m b w =
    (dist2 (mb_x b) (mb_y b) (mp_x (mw_player w)) (mp_y (mw_player w))
       < (mb_r b + mp_r (mw_player w)) * (mb_r b + mp_r (mw_player w)))"

text \<open>
  The body of the loop of \<^verbatim>\<open>updateBullets\<close>.  After a player bullet hits an enemy the
  source leaves the inner loop with \<^verbatim>\<open>break\<close> and still runs the final
  \<^verbatim>\<open>if (b.t <= 0) state.bullets.splice(i, 1)\<close>, which then removes a second element.
\<close>

definition bullet_flight_m :: "nat \<Rightarrow> bullet_m \<Rightarrow> real \<Rightarrow> real \<Rightarrow> world_m \<Rightarrow> world_m" where
  \<comment> \<open>the body once the bullet's next point is not solid (lines 944-985)\<close>
  "bullet_flight_m i b nx ny w =
         (let b1 = b\<lparr>mb_x := nx, mb_y := ny\<rparr>;
                  w1 = w\<lparr>mw_bullets := (mw_bullets w)[i := b1]\<rparr>
          in if mb_from b1 = FromPlayer then
               (let w2 = (case last_index (bullet_hits_enemy_m b1) (mw_enemies w1) of
                            None \<Rightarrow> w1
                          | Some j \<Rightarrow>
                             (let en = mw_enemies w1 ! j;
                                  w' = w1\<lparr>mw_enemies := (mw_enemies w1)[j := en\<lparr>me_hp := me_hp en - mb_dmg b1\<rparr>]\<rparr>;
                                  w'' = shake_m 2 0.05 w'
                              in w''\<lparr>mw_bullets := splice1 (mw_bullets w'') i\<rparr>))
                in if mb_t b1 \<le> 0 then w2\<lparr>mw_bullets := splice1 (mw_bullets w2) i\<rparr> else w2)
             else if bullet_hits_player_m b1 w1 then
               (let w2 = hurtPlayer_m (mb_dmg b1) w1 in w2\<lparr>mw_bullets := splice1 (mw_bullets w2) i\<rparr>)
             else if mb_t b1 \<le> 0 then w1\<lparr>mw_bullets := splice1 (mw_bullets w1) i\<rparr>
             else w1)"

definition bullet_step_m :: "real \<Rightarrow> room_m \<Rightarrow> nat \<Rightarrow> js_error + world_m \<Rightarrow> js_error + world_m" where
  "bullet_step_m dt room i res =
    (case res of
       Inl err \<Rightarrow> Inl err
     | Inr w \<Rightarrow>
        if \<not> i < length (mw_bullets w) then Inr w
        else let b0 = mw_bullets w ! i;
                 b = b0\<lparr>mb_t := mb_t b0 - dt\<rparr>;
                 nx = mb_x b + mb_vx b * dt;
                 ny = mb_y b + mb_vy b * dt
         in case isSolidAtPoint_m nx ny room of
              Inl err \<Rightarrow> Inl err
            | Inr solid \<Rightarrow>
               if solid then Inr (w\<lparr>mw_bullets := splice1 (mw_bullets w) i\<rparr>)
               else Inr (bullet_flight_m i b nx ny w))"

definition updateBullets_m :: "real \<Rightarrow> world_m \<Rightarrow> js_error + world_m" where
  "updateBullets_m dt w =
    (let w0 = ensureRoom_m (mw_roomId w) w;
         room = getRoom_m w0 (mw_roomId w0)
     in fold (bullet_step_m dt room) (rev [0..<length (mw_bullets w0)]) (Inr w0))"

definition pickup_step_m :: "nat \<Rightarrow> world_m \<Rightarrow> world_m" where
  "pickup_step_m i w =
    (if \<not> i < length (mw_pickups w) then w
     else let p = mw_pickups w ! i; pl = mw_player w in
      if dist2 (mk_x p) (mk_y p) (mp_x pl) (mp_y pl)
           < (mk_r p + mp_r pl + 10) * (mk_r p + mp_r pl + 10) then
        (let w1 = (if mk_t p = ''coin''
                   then w\<lparr>mw_coins := mw_coins w + mk_v p, mw_msg := ''+COIN'', mw_msgT := 0.30\<rparr>
                   else if mk_t p = ''heart''
                   then w\<lparr>mw_player := pl\<lparr>mp_hp := clamp (mp_hp pl + real_of_int (mk_v p)) 0 (mp_hpMax pl)\<rparr>,
                          mw_msg := ''+HP'', mw_msgT := 0.45\<rparr>
                   else w)
         in w1\<lparr>mw_pickups := splice1 (mw_pickups w1) i\<rparr>)
      else w)"

definition updatePickups_m :: "real \<Rightarrow> world_m \<Rightarrow> world_m" where
  "updatePickups_m dt w = fold pickup_step_m (rev [0..<length (mw_pickups w)]) w"

definition fx_step_m :: "real \<Rightarrow> nat \<Rightarrow> world_m \<Rightarrow> world_m" where
  "fx_step_m dt i w =
    (if \<not> i < length (mw_fx w) then w
     else let p0 = mw_fx w ! i;
              p1 = p0\<lparr>mf_t := mf_t p0 - dt\<rparr>;
              p2 = p1\<lparr>mf_x := mf_x p1 + mf_vx p1 * dt\<rparr>;
              p3 = p2\<lparr>mf_y := mf_y p2 + mf_vy p2 * dt\<rparr>;
              p4 = p3\<lparr>mf_vx := mf_vx p3 * (0.002 powr dt)\<rparr>;
              p5 = p4\<lparr>mf_vy := mf_vy p4 * (0.002 powr dt)\<rparr>
      in if mf_t p5 \<le> 0 then w\<lparr>mw_fx := splice1 (mw_fx w) i\<rparr>
         else w\<lparr>mw_fx := (mw_fx w)[i := p5]\<rparr>)"

definition updateParticles_m :: "real \<Rightarrow> world_m \<Rightarrow> world_m" where
  "updateParticles_m dt w = fold (fx_step_m dt) (rev [0..<length (mw_fx w)]) w"

subsection \<open>Reset (n.mjs lines 1364-1398)\<close>

definition resetGame_m :: "rng \<Rightarrow> world_m \<Rightarrow> world_m \<times> rng" where
  "resetGame_m rs w =
    (let w1 = w\<lparr>mw_msg := [], mw_msgT := 0, mw_coins := 0, mw_roomId := (0, 0),
                mw_map := Map.empty, mw_rooms := Map.empty,
                mw_enemies := [], mw_bullets := [], mw_pickups := [], mw_fx := [],
                mw_paused := False, mw_shopOpen := False\<rparr>;
         w2 = w1\<lparr>mw_WEAPONS := map (\<lambda>wp. wp\<lparr>wp_unlocked := (wp_id wp = 0)\<rparr>) (mw_WEAPONS w1)\<rparr>;
         w3 = w2\<lparr>mw_player := (mw_player w2)
                \<lparr>mp_x := ROOM_W_m / 2, mp_y := ROOM_H_m / 2, mp_hpMax := 8, mp_hp := 8,
                 mp_invT := 0, mp_dashT := 0, mp_dashCD := 0, mp_vx := 0, mp_vy := 0,
                 mp_weapon := 0, mp_fireCD := 0, mp_burstQ := 0, mp_burstCD := 0\<rparr>\<rparr>;
         w4 = ensureRoom_m (0, 0) (ensureNode_m (0, 0) w3);
         st = loadRoom_m (0, 0) rs w4
     in (snapCameraToPlayer_m (fst st), snd st))"


subsection \<open>The tick (n.mjs lines 671-804)\<close>

definition timers_m :: "real \<Rightarrow> world_m \<Rightarrow> world_m" where
  \<comment> \<open>lines 685-695\<close>
  "timers_m dt w =
    (let w1 = (if mw_msgT w > 0 then w\<lparr>mw_msgT := mw_msgT w - dt\<rparr> else w);
         p = mw_player w1;
         p1 = (if mp_invT p > 0 then p\<lparr>mp_invT := mp_invT p - dt\<rparr> else p);
         p2 = (if mp_fireCD p1 > 0 then p1\<lparr>mp_fireCD := mp_fireCD p1 - dt\<rparr> else p1);
         p3 = (if mp_dashT p2 > 0 then p2\<lparr>mp_dashT := mp_dashT p2 - dt\<rparr> else p2);
         p4 = (if mp_dashCD p3 > 0 then p3\<lparr>mp_dashCD := mp_dashCD p3 - dt\<rparr> else p3);
         p5 = (if mp_burstCD p4 > 0 then p4\<lparr>mp_burstCD := mp_burstCD p4 - dt\<rparr> else p4);
         w2 = w1\<lparr>mw_player := p5\<rparr>;
         c = mw_cam w2
     in if mc_shakeT c > 0
        then w2\<lparr>mw_cam := c\<lparr>mc_shakeT := mc_shakeT c - dt, mc_shake := lerp (mc_shake c) 0 (10 * dt)\<rparr>\<rparr>
        else w2\<lparr>mw_cam := c\<lparr>mc_shake := 0\<rparr>\<rparr>)"

definition shop_buys_m :: "input_m \<Rightarrow> world_m \<Rightarrow> world_m" where
  \<comment> \<open>lines 704-710\<close>
  "shop_buys_m inp w =
    (let buy = (\<lambda>code k w. if wasPressed inp code then buyShopItem_m (SHOP_ITEMS_m ! k) w else w)
     in buy KEY_SEVEN 6 (buy KEY_SIX 5 (buy KEY_FIVE 4 (buy KEY_FOUR 3
          (buy KEY_THREE 2 (buy KEY_TWO 1 (buy KEY_ONE 0 w)))))))"

definition move_axis_x :: "input_m \<Rightarrow> real" where
  "move_axis_x inp =
    (let m0 = (if in_keys inp KEY_A \<or> in_keys inp KEY_LEFT then - 1 else 0)
     in (if in_keys inp KEY_D \<or> in_keys inp KEY_RIGHT then m0 + 1 else m0))"

definition move_axis_y :: "input_m \<Rightarrow> real" where
  "move_axis_y inp =
    (let m0 = (if in_keys inp KEY_W \<or> in_keys inp KEY_UP then - 1 else 0)
     in (if in_keys inp KEY_S \<or> in_keys inp KEY_DOWN then m0 + 1 else m0))"

definition dash_m :: "input_m \<Rightarrow> world_m \<Rightarrow> world_m" where
  \<comment> \<open>lines 719-742\<close>
  "dash_m inp w =
    (if (wasPressed inp KEY_SPACE \<or> wasPressed inp KEY_SHIFT) \<and> mp_dashCD (mw_player w) \<le> 0 then
       (let mx = move_axis_x inp; my = move_axis_y inp;
            dn = (if mx = 0 \<and> my = 0
                  then (let awx = mc_x (mw_cam w) + (in_mouse_x inp - mw_VIEW_OX w);
                            awy = mc_y (mw_cam w) + (in_mouse_y inp - mw_VIEW_OY w)
                        in norm_js (awx - mp_x (mw_player w)) (awy - mp_y (mw_player w)))
                  else norm_js mx my);
            w1 = w\<lparr>mw_player := (mw_player w)\<lparr>mp_dashT := 0.14, mp_dashCD := 0.80,
                                           mp_vx := fst dn * 820, mp_vy := snd dn * 820\<rparr>\<rparr>
        in shake_m 5 0.10 w1)
     else w)"

definition movement_m :: "real \<Rightarrow> input_m \<Rightarrow> world_m \<Rightarrow> world_m" where
  \<comment> \<open>lines 744-764\<close>
  "movement_m dt inp w =
    (let p = mw_player w in
     if mp_dashT p \<le> 0 then
       (let ax = move_axis_x inp; ay = move_axis_y inp; sp = mp_speed p in
        if ax \<noteq> 0 \<or> ay \<noteq> 0 then
          (let nn = norm_js ax ay in w\<lparr>mw_player := p\<lparr>mp_vx := fst nn * sp, mp_vy := snd nn * sp\<rparr>\<rparr>)
        else w\<lparr>mw_player := p\<lparr>mp_vx := lerp (mp_vx p) 0 (10 * dt), mp_vy := lerp (mp_vy p) 0 (10 * dt)\<rparr>\<rparr>)
     else w\<lparr>mw_player := p\<lparr>mp_vx := lerp (mp_vx p) 0 (5 * dt), mp_vy := lerp (mp_vy p) 0 (5 * dt)\<rparr>\<rparr>)"

text \<open>
  The test in front of each call of \<^verbatim>\<open>tryDoorTransitionByIntent\<close> (lines 776-779):
  the velocity points out of the room, the player is in the door's band, and the
  projected position \<open>(nxp, nyp)\<close> is within 2 units of the wall line or beyond it.
\<close>

definition door_intent_m :: "dir \<Rightarrow> player_m \<Rightarrow> real \<Rightarrow> real \<Rightarrow> bool" where
  "door_intent_m d p nxp nyp =
    (case d of
       DirN \<Rightarrow> mp_vy p < 0 \<and> inDoorBand_m DirN (mp_x p) (mp_y p) \<and> nyp \<le> 2
     | DirS \<Rightarrow> mp_vy p > 0 \<and> inDoorBand_m DirS (mp_x p) (mp_y p) \<and> nyp \<ge> ROOM_H_m - 2
     | DirW \<Rightarrow> mp_vx p < 0 \<and> inDoorBand_m DirW (mp_x p) (mp_y p) \<and> nxp \<le> 2
     | DirE \<Rightarrow> mp_vx p > 0 \<and> inDoorBand_m DirE (mp_x p) (mp_y p) \<and> nxp \<ge> ROOM_W_m - 2)"

text \<open>
  One of the four lines 776-779.  The flag says that an earlier line has already made
  \<^verbatim>\<open>update\<close> return; the tick then does nothing more.
\<close>

definition door_try_m :: "dir \<Rightarrow> real \<Rightarrow> real \<Rightarrow> (world_m \<times> bool) \<times> rng \<Rightarrow> (world_m \<times> bool) \<times> rng" where
  "door_try_m d nxp nyp st =
    (if snd (fst st) then st
     else if door_intent_m d (mw_player (fst (fst st))) nxp nyp
          then tryDoorTransitionByIntent_m d (snd st) (fst (fst st))
          else st)"

definition door_phase_m :: "real \<Rightarrow> real \<Rightarrow> rng \<Rightarrow> world_m \<Rightarrow> (world_m \<times> bool) \<times> rng" where
  "door_phase_m nxp nyp rs w =
    door_try_m DirE nxp nyp (door_try_m DirW nxp nyp (door_try_m DirS nxp nyp
      (door_try_m DirN nxp nyp ((w, False), rs))))"

definition player_move_m :: "real \<Rightarrow> real \<Rightarrow> room_m \<Rightarrow> world_m \<Rightarrow> js_error + world_m" where
  \<comment> \<open>lines 781-782\<close>
  "player_move_m nxp nyp room w =
    (let p = mw_player w in
     case collideCircle_m nxp (mp_y p) (mp_r p) room of
       Inl err \<Rightarrow> Inl err
     | Inr cx \<Rightarrow>
        (let p1 = (if \<not> cx then p\<lparr>mp_x := nxp\<rparr> else p\<lparr>mp_vx := 0\<rparr>) in
         case collideCircle_m (mp_x p1) nyp (mp_r p1) room of
           Inl err \<Rightarrow> Inl err
         | Inr cy \<Rightarrow>
            Inr (w\<lparr>mw_player := (if \<not> cy then p1\<lparr>mp_y := nyp\<rparr> else p1\<lparr>mp_vy := 0\<rparr>)\<rparr>)))"

definition clear_check_m :: "world_m \<Rightarrow> world_m" where
  \<comment> \<open>lines 793-803; \<^verbatim>\<open>node\<close> and \<^verbatim>\<open>room\<close> are those of \<^verbatim>\<open>state.roomId\<close>\<close>
  "clear_check_m w =
    (let i = mw_roomId w; node = getNode_m w i in
     if \<not> mn_cleared node \<and> mn_kind node = KCombat then
       (if length (mw_enemies w) = 0 then
          (let w1 = setNode_m i (\<lambda>n. n\<lparr>mn_cleared := True\<rparr>) w;
               w2 = setRoom_m i (lockDoors_m False) w1;
               w3 = w2\<lparr>mw_msg := ''CLEARED'', mw_msgT := 0.9\<rparr>
           in w3\<lparr>mw_pickups := mw_pickups w3 @
                 [\<lparr> mk_x = ROOM_W_m / 2, mk_y = ROOM_H_m / 2, mk_t = ''coin'', mk_v = 6, mk_r = 10 \<rparr>]\<rparr>)
        else w)
     else w)"

text \<open>
  The rest of the tick once no door transition has fired: the player's move, the camera
  and the enemies (lines 781-788), then bullets, pickups, particles and the clear check
  (lines 789-803).  A \<^verbatim>\<open>TypeError\<close> thrown by a collision test leaves \<^verbatim>\<open>update\<close> at once:
  nothing after it runs, the clear check included.  The result then is the error; the
  half-updated world that the interrupted tick leaves is not described.
\<close>

definition tick_move_m :: "real \<Rightarrow> real \<Rightarrow> real \<Rightarrow> rng \<Rightarrow> world_m \<Rightarrow> (js_error + world_m) \<times> rng" where
  "tick_move_m dt nxp nyp rs w =
    (case player_move_m nxp nyp (getRoom_m w (mw_roomId w)) w of
       Inl err \<Rightarrow> (Inl err, rs)
     | Inr w1 \<Rightarrow> updateEnemies_m dt rs (updateCamera_m dt w1))"

definition tick_tail_m :: "real \<Rightarrow> real \<Rightarrow> real \<Rightarrow> rng \<Rightarrow> world_m \<Rightarrow> (js_error + world_m) \<times> rng" where
  "tick_tail_m dt nxp nyp rs w =
    (let st3 = tick_move_m dt nxp nyp rs w in
     case fst st3 of
       Inl err \<Rightarrow> (Inl err, snd st3)
     | Inr w3 \<Rightarrow>
        (case updateBullets_m dt w3 of
           Inl err \<Rightarrow> (Inl err, snd st3)
         | Inr w4 \<Rightarrow>
            (let w5 = updatePickups_m dt w4;
                 w6 = updateParticles_m dt w5
             in (Inr (clear_check_m w6), snd st3))))"

text \<open>
  \<^verbatim>\<open>update(dt)\<close>.  The result is the world the tick leaves, or the error that ended it,
  and what is left of the random source.
\<close>

definition update_m :: "real \<Rightarrow> input_m \<Rightarrow> rng \<Rightarrow> world_m \<Rightarrow> (js_error + world_m) \<times> rng" where
  "update_m dt inp rs w =
    (if mw_paused w then
       (let w1 = (if wasPressed inp KEY_ESC then w\<lparr>mw_paused := False\<rparr> else w)
        in (if wasPressed inp KEY_R then ok (resetGame_m rs w1) else (Inr w1, rs)))
     else
       (let w1 = (if wasPressed inp KEY_ESC
                  then (if mw_shopOpen w then w\<lparr>mw_shopOpen := False\<rparr> else w\<lparr>mw_paused := True\<rparr>)
                  else w);
            st2 = (if wasPressed inp KEY_R then resetGame_m rs w1 else (w1, rs));
            w3 = timers_m dt (fst st2);
            w4 = ensureNode_m (mw_roomId w3) w3;
            shop = (mn_kind (getNode_m w4 (mw_roomId w4)) = KShop);
            w5 = (if wasPressed inp KEY_F \<and> shop then tryOpenShop_m w4 else w4)
        in if shop \<and> mw_shopOpen w5 then (Inr (updateParticles_m dt (shop_buys_m inp w5)), snd st2)
           else
            (let w6 = (if wasPressed inp KEY_Q then cycleWeapon_m (- 1) w5 else w5);
                 w7 = (if wasPressed inp KEY_E then cycleWeapon_m 1 w6 else w6);
                 w8 = movement_m dt inp (dash_m inp w7);
                 st9 = (if in_mouse_down inp then shoot_m inp (snd st2) w8 else (w8, snd st2));
                 st10 = updateBurst_m dt inp (snd st9) (fst st9);
                 w11 = ensureRoom_m (mw_roomId (fst st10)) (fst st10);
                 nxp = mp_x (mw_player w11) + mp_vx (mw_player w11) * dt;
                 nyp = mp_y (mw_player w11) + mp_vy (mw_player w11) * dt;
                 dp = door_phase_m nxp nyp (snd st10) w11
             in if snd (fst dp) then (Inr (fst (fst dp)), snd dp)
                else tick_tail_m dt nxp nyp (snd dp) (fst (fst dp)))))"


subsection \<open>Initial and example worlds\<close>

text \<open>The initial values of \<^verbatim>\<open>player\<close> and \<^verbatim>\<open>state\<close> (n.mjs lines 90-105, 131-146).\<close>

definition init_player_m :: player_m where
  "init_player_m = \<lparr> mp_x = ROOM_W_m / 2, mp_y = ROOM_H_m / 2, mp_r = 13, mp_hp = 8, mp_hpMax = 8,
     mp_invT = 0, mp_dashT = 0, mp_dashCD = 0, mp_vx = 0, mp_vy = 0, mp_speed = 190, mp_weapon = 0,
     mp_fireCD = 0, mp_burstQ = 0, mp_burstCD = 0 \<rparr>"

definition init_world_m :: world_m where
  "init_world_m = \<lparr> mw_running = False, mw_paused = False, mw_shopOpen = False, mw_msg = [], mw_msgT = 0,
     mw_coins = 0, mw_roomId = (0, 0), mw_cam = \<lparr> mc_x = 0, mc_y = 0, mc_shake = 0, mc_shakeT = 0 \<rparr>,
     mw_map = Map.empty, mw_rooms = Map.empty, mw_enemies = [], mw_bullets = [], mw_pickups = [],
     mw_fx = [], mw_player = init_player_m, mw_WEAPONS = WEAPONS_m, mw_VIEW_W = 960, mw_VIEW_H = 540,
     mw_VIEW_OX = 0, mw_VIEW_OY = 0 \<rparr>"


text \<open>
  The state of a door, read as \<^verbatim>\<open>tryDoorTransitionByIntent\<close> and \<^verbatim>\<open>drawDoorBars\<close>
  read it: absent without a neighbour, closed with a neighbour and \<^verbatim>\<open>doorsOpen\<close> false.
\<close>

datatype door_state = Open | Closed | Absent

definition door_state_m :: "room_m \<Rightarrow> dir \<Rightarrow> door_state" where
  "door_state_m room d =
    (if \<not> mr_neighbors room d then Absent else if \<not> mr_doorsOpen room d then Closed else Open)"


text \<open>
  The origin room with a neighbour on every side: all doors open, or all doors closed, and
  the player in the north door's band moving north, or standing still.
\<close>

definition example_room_m :: "bool \<Rightarrow> room_m" where
  "example_room_m opened =
    \<lparr> mr_id = (0, 0), mr_g = None, mr_doorsOpen = (\<lambda>d. opened), mr_neighbors = (\<lambda>d. True) \<rparr>"

definition example_world_m :: "bool \<Rightarrow> real \<Rightarrow> world_m" where
  "example_world_m opened vy =
    init_world_m\<lparr> mw_rooms := [(0, 0) \<mapsto> example_room_m opened],
                   mw_player := init_player_m\<lparr> mp_x := 420, mp_y := 20, mp_vy := vy \<rparr> \<rparr>"

section \<open>The n.mjs variant: doors and transitions\<close>

subsection \<open>What the getters see\<close>

lemma getRoom_ensureRoom [simp]: "getRoom_m (ensureRoom_m i w) j = getRoom_m w j"
  by (simp add: getRoom_m_def ensureRoom_m_def split: option.splits)

lemma getNode_ensureNode [simp]: "getNode_m (ensureNode_m i w) j = getNode_m w j"
  by (simp add: getNode_m_def ensureNode_m_def split: option.splits)

lemma getRoom_ensureNode [simp]: "getRoom_m (ensureNode_m i w) j = getRoom_m w j"
  by (simp add: getRoom_m_def ensureNode_m_def split: option.splits)

lemma getNode_ensureRoom [simp]: "getNode_m (ensureRoom_m i w) j = getNode_m w j"
  by (simp add: getNode_m_def ensureRoom_m_def split: option.splits)

lemma roomId_ensureNode [simp]: "mw_roomId (ensureNode_m i w) = mw_roomId w"
  by (simp add: ensureNode_m_def split: option.splits)

lemma roomId_ensureRoom [simp]: "mw_roomId (ensureRoom_m i w) = mw_roomId w"
  by (simp add: ensureRoom_m_def split: option.splits)

lemma player_ensureNode [simp]: "mw_player (ensureNode_m i w) = mw_player w"
  by (simp add: ensureNode_m_def split: option.splits)

lemma player_ensureRoom [simp]: "mw_player (ensureRoom_m i w) = mw_player w"
  by (simp add: ensureRoom_m_def split: option.splits)

lemma getRoom_m_update [simp]:
  "getRoom_m (mw_running_update f1 w) = getRoom_m w"
  "getRoom_m (mw_paused_update f2 w) = getRoom_m w"
  "getRoom_m (mw_shopOpen_update f3 w) = getRoom_m w"
  "getRoom_m (mw_msg_update f4 w) = getRoom_m w"
  "getRoom_m (mw_msgT_update f5 w) = getRoom_m w"
  "getRoom_m (mw_coins_update f6 w) = getRoom_m w"
  "getRoom_m (mw_roomId_update f7 w) = getRoom_m w"
  "getRoom_m (mw_cam_update f8 w) = getRoom_m w"
  "getRoom_m (mw_map_update f9 w) = getRoom_m w"
  "getRoom_m (mw_enemies_update f10 w) = getRoom_m w"
  "getRoom_m (mw_bullets_update f11 w) = getRoom_m w"
  "getRoom_m (mw_pickups_update f12 w) = getRoom_m w"
  "getRoom_m (mw_fx_update f13 w) = getRoom_m w"
  "getRoom_m (mw_player_update f14 w) = getRoom_m w"
  "getRoom_m (mw_WEAPONS_update f15 w) = getRoom_m w"
  "getRoom_m (mw_VIEW_W_update f16 w) = getRoom_m w"
  "getRoom_m (mw_VIEW_H_update f17 w) = getRoom_m w"
  "getRoom_m (mw_VIEW_OX_update f18 w) = getRoom_m w"
  "getRoom_m (mw_VIEW_OY_update f19 w) = getRoom_m w"
  by (simp_all add: getRoom_m_def fun_eq_iff)

lemma getNode_m_update [simp]:
  "getNode_m (mw_running_update f20 w) = getNode_m w"
  "getNode_m (mw_paused_update f21 w) = getNode_m w"
  "getNode_m (mw_shopOpen_update f22 w) = getNode_m w"
  "getNode_m (mw_msg_update f23 w) = getNode_m w"
  "getNode_m (mw_msgT_update f24 w) = getNode_m w"
  "getNode_m (mw_coins_update f25 w) = getNode_m w"
  "getNode_m (mw_roomId_update f26 w) = getNode_m w"
  "getNode_m (mw_cam_update f27 w) = getNode_m w"
  "getNode_m (mw_rooms_update f28 w) = getNode_m w"
  "getNode_m (mw_enemies_update f29 w) = getNode_m w"
  "getNode_m (mw_bullets_update f30 w) = getNode_m w"
  "getNode_m (mw_pickups_update f31 w) = getNode_m w"
  "getNode_m (mw_fx_update f32 w) = getNode_m w"
  "getNode_m (mw_player_update f33 w) = getNode_m w"
  "getNode_m (mw_WEAPONS_update f34 w) = getNode_m w"
  "getNode_m (mw_VIEW_W_update f35 w) = getNode_m w"
  "getNode_m (mw_VIEW_H_update f36 w) = getNode_m w"
  "getNode_m (mw_VIEW_OX_update f37 w) = getNode_m w"
  "getNode_m (mw_VIEW_OY_update f38 w) = getNode_m w"
  by (simp_all add: getNode_m_def fun_eq_iff)

lemma lockDoors_open: "mr_doorsOpen (lockDoors_m locked r) d = (\<not> locked)"
  by (cases d) (simp_all add: lockDoors_m_def)

lemma lockDoors_neighbors: "mr_neighbors (lockDoors_m locked r) = mr_neighbors r"
  by (simp add: lockDoors_m_def)

lemma try_fires:
  "snd (fst (tryDoorTransitionByIntent_m d rs w)) \<Longrightarrow>
     mr_neighbors (getRoom_m w (mw_roomId w)) d \<and> mr_doorsOpen (getRoom_m w (mw_roomId w)) d"
  by (simp add: tryDoorTransitionByIntent_m_def Let_def split: if_splits)


lemma band_exclusive:
  "inDoorBand_m d x y \<Longrightarrow> d' \<noteq> d \<Longrightarrow> \<not> inDoorBand_m d' x y"
  by (cases d; cases d')
     (auto simp: inDoorBand_m_def ROOM_W_m_def ROOM_H_m_def ROOM_TW_def ROOM_TH_def TILE_m_def
        DOOR_SPAN_m_def DOOR_THICK_m_def)

lemma intent_band: "door_intent_m d p nxp nyp \<Longrightarrow> inDoorBand_m d (mp_x p) (mp_y p)"
  by (cases d) (simp_all add: door_intent_m_def)

lemma try_fail:
  assumes "\<not> (mr_neighbors (getRoom_m w (mw_roomId w)) d \<and> mr_doorsOpen (getRoom_m w (mw_roomId w)) d)"
  shows "\<exists>w'. tryDoorTransitionByIntent_m d rs w = ((w', False), rs)
      \<and> mw_player w' = mw_player w \<and> mw_roomId w' = mw_roomId w
      \<and> getRoom_m w' = getRoom_m w \<and> getNode_m w' = getNode_m w"
  using assms
  by (auto simp: tryDoorTransitionByIntent_m_def Let_def)

lemma fold_inv:
  assumes "\<And>x s. g (f x s) = g s"
  shows "g (fold f xs s) = g s"
  using assms by (induction xs arbitrary: s) simp_all

lemma roomId_setNode [simp]: "mw_roomId (setNode_m i f w) = mw_roomId w"
  by (simp add: setNode_m_def)

lemma roomId_setRoom [simp]: "mw_roomId (setRoom_m i f w) = mw_roomId w"
  by (simp add: setRoom_m_def)

lemma roomId_shake [simp]: "mw_roomId (shake_m a t w) = mw_roomId w"
  by (simp add: shake_m_def)

lemma roomId_link [simp]: "mw_roomId (link_m i nx ny a b w) = mw_roomId w"
  by (simp add: link_m_def Let_def)

lemma roomId_genRoomTiles [simp]: "mw_roomId (fst (genRoomTiles_m i rs w)) = mw_roomId w"
  by (simp add: genRoomTiles_m_def Let_def)

lemma roomId_buildNeighbors [simp]: "mw_roomId (fst (buildNeighborsAround_m i rs w)) = mw_roomId w"
  by (simp add: buildNeighborsAround_m_def Let_def)

lemma roomId_spawnEnemy [simp]: "mw_roomId (spawnEnemy_m ty x y d w) = mw_roomId w"
  by (simp add: spawnEnemy_m_def Let_def)

lemma roomId_spawn_step [simp]: "mw_roomId (fst (spawn_step d i st)) = mw_roomId (fst st)"
  by (simp add: spawn_step_def Let_def)

lemma roomId_spawn_fold [simp]: "mw_roomId (fst (fold (spawn_step d) xs st)) = mw_roomId (fst st)"
  by (rule fold_inv [where g = "\<lambda>st. mw_roomId (fst st)"]) simp

lemma roomId_spawnBoss [simp]: "mw_roomId (fst (spawnBoss_m x y d rs w)) = mw_roomId w"
  by (simp add: spawnBoss_m_def Let_def)

lemma roomId_spawnRoomContents [simp]: "mw_roomId (fst (spawnRoomContents_m i rs w)) = mw_roomId w"
  by (simp add: spawnRoomContents_m_def Let_def)

lemma roomId_snap [simp]: "mw_roomId (snapCameraToPlayer_m w) = mw_roomId w"
  by (simp add: snapCameraToPlayer_m_def Let_def)

lemma roomId_loadRoom [simp]: "mw_roomId (fst (loadRoom_m i rs w)) = mw_roomId w"
  by (simp add: loadRoom_m_def Let_def)

lemma try_success:
  assumes "mr_neighbors (getRoom_m w (mw_roomId w)) d" "mr_doorsOpen (getRoom_m w (mw_roomId w)) d"
  shows "snd (fst (tryDoorTransitionByIntent_m d rs w))
     \<and> mw_roomId (fst (fst (tryDoorTransitionByIntent_m d rs w)))
         = roomKey (mn_x (getNode_m w (mw_roomId w)) + dir_dx d) (mn_y (getNode_m w (mw_roomId w)) + dir_dy d)"
  using assms by (simp add: tryDoorTransitionByIntent_m_def Let_def)

lemma intent_exclusive:
  "door_intent_m d p nxp nyp \<Longrightarrow> d' \<noteq> d \<Longrightarrow> \<not> door_intent_m d' p nxp nyp"
  using band_exclusive intent_band by blast

lemma try_closed:
  assumes "door_state_m (getRoom_m w (mw_roomId w)) d = Closed"
  shows "tryDoorTransitionByIntent_m d rs w =
     ((if inDoorBand_m d (mp_x (mw_player w)) (mp_y (mw_player w))
       then (ensureRoom_m (mw_roomId w) (ensureNode_m (mw_roomId w) w))\<lparr>mw_msg := ''DOOR LOCKED'', mw_msgT := 0.7\<rparr>
       else ensureRoom_m (mw_roomId w) (ensureNode_m (mw_roomId w) w), False), rs)"
  using assms
  by (simp add: tryDoorTransitionByIntent_m_def Let_def door_state_m_def split: if_splits)

lemma door_try_absorb:
  assumes "\<not> door_intent_m d' (mw_player w) nxp nyp"
  shows "door_try_m d' nxp nyp (tryDoorTransitionByIntent_m d rs w) = tryDoorTransitionByIntent_m d rs w"
proof (cases "mr_neighbors (getRoom_m w (mw_roomId w)) d \<and> mr_doorsOpen (getRoom_m w (mw_roomId w)) d")
  case True
  then have "snd (fst (tryDoorTransitionByIntent_m d rs w))" using try_success by blast
  then show ?thesis by (simp add: door_try_m_def)
next
  case False
  from try_fail [OF False, of rs] obtain w' where
    e: "tryDoorTransitionByIntent_m d rs w = ((w', False), rs)" and p: "mw_player w' = mw_player w"
    by blast
  show ?thesis unfolding e using assms p by (simp add: door_try_m_def)
qed

lemma door_try_skip:
  assumes "\<not> door_intent_m d (mw_player w) nxp nyp"
  shows "door_try_m d nxp nyp ((w, False), rs) = ((w, False), rs)"
  using assms by (simp add: door_try_m_def)

lemma door_try_call:
  assumes "door_intent_m d (mw_player w) nxp nyp"
  shows "door_try_m d nxp nyp ((w, False), rs) = tryDoorTransitionByIntent_m d rs w"
  using assms by (simp add: door_try_m_def)

lemma door_phase_none:
  assumes "\<And>d. \<not> door_intent_m d (mw_player w) nxp nyp"
  shows "door_phase_m nxp nyp rs w = ((w, False), rs)"
  using assms by (simp add: door_phase_m_def door_try_skip)

lemma door_phase_one:
  assumes "door_intent_m d (mw_player w) nxp nyp"
  shows "door_phase_m nxp nyp rs w = tryDoorTransitionByIntent_m d rs w"
proof -
  have o: "\<And>d'. d' \<noteq> d \<Longrightarrow> \<not> door_intent_m d' (mw_player w) nxp nyp"
    using assms intent_exclusive by blast
  show ?thesis
    using assms o by (cases d) (simp_all add: door_phase_m_def door_try_skip door_try_call door_try_absorb)
qed



subsection \<open>Claims C1 and C2\<close>

text \<open>
  Claim C1, as stated (\<^verbatim>\<open>doorsOpen[d]\<close> is true only if \<^verbatim>\<open>neighbors[d]\<close> is true,
  after room creation and after every change of the door state), fails on the code:
  \<^verbatim>\<open>ensureRoom\<close> creates a room with every door open and no neighbour.
\<close>

theorem C1_counterexample:
  "mw_rooms init_world_m (0, 0) = None
   \<and> mr_doorsOpen (getRoom_m (ensureRoom_m (0, 0) init_world_m) (0, 0)) DirN
   \<and> \<not> mr_neighbors (getRoom_m (ensureRoom_m (0, 0) init_world_m) (0, 0)) DirN"
  by (simp add: init_world_m_def getRoom_m_def ensureRoom_m_def newRoom_m_def)

text \<open>
  Claim C1, amended: \<^verbatim>\<open>doorsOpen\<close> is written for the four directions at once and
  without regard to \<^verbatim>\<open>neighbors\<close>: a room is created with every door open and no
  neighbour, and \<^verbatim>\<open>lockDoors(room, locked)\<close> (first-population locking, clear-condition
  unlocking) sets every \<^verbatim>\<open>doorsOpen[d]\<close> to \<^verbatim>\<open>!locked\<close> and leaves \<^verbatim>\<open>neighbors\<close>
  as it is; the neighbour is checked where the door is used: a transition in direction
  \<open>d\<close> succeeds only if both \<^verbatim>\<open>neighbors[d]\<close> and \<^verbatim>\<open>doorsOpen[d]\<close> are true.
\<close>

theorem C1_doors_set_uniformly_neighbor_checked_on_use:
  "(mw_rooms w i = None \<longrightarrow>
      (\<forall>d. mr_doorsOpen (getRoom_m (ensureRoom_m i w) i) d
           \<and> \<not> mr_neighbors (getRoom_m (ensureRoom_m i w) i) d))
   \<and> (\<forall>d. mr_doorsOpen (lockDoors_m locked r) d = (\<not> locked))
   \<and> mr_neighbors (lockDoors_m locked r) = mr_neighbors r
   \<and> (snd (fst (tryDoorTransitionByIntent_m d' rs w)) \<longrightarrow>
        mr_neighbors (getRoom_m w (mw_roomId w)) d' \<and> mr_doorsOpen (getRoom_m w (mw_roomId w)) d')"
proof -
  have "mw_rooms w i = None \<Longrightarrow> getRoom_m (ensureRoom_m i w) i = newRoom_m i"
    unfolding getRoom_ensureRoom by (simp add: getRoom_m_def)
  then show ?thesis
    using try_fires [of d' rs w] by (simp add: newRoom_m_def lockDoors_open lockDoors_neighbors)
qed

theorem C1_doors_witness:
  "mw_rooms init_world_m (0, 0) = None
   \<and> (\<forall>d. mr_doorsOpen (getRoom_m (ensureRoom_m (0, 0) init_world_m) (0, 0)) d
          \<and> \<not> mr_neighbors (getRoom_m (ensureRoom_m (0, 0) init_world_m) (0, 0)) d)
   \<and> snd (fst (tryDoorTransitionByIntent_m DirN (sconst 0) (example_world_m True (- 190))))
   \<and> mr_neighbors (getRoom_m (example_world_m True (- 190)) (mw_roomId (example_world_m True (- 190)))) DirN
   \<and> mr_doorsOpen (getRoom_m (example_world_m True (- 190)) (mw_roomId (example_world_m True (- 190)))) DirN"
proof -
  have a: "mw_rooms init_world_m (0, 0) = None" by (simp add: init_world_m_def)
  have b: "mr_neighbors (getRoom_m (example_world_m True (- 190)) (mw_roomId (example_world_m True (- 190)))) DirN
     \<and> mr_doorsOpen (getRoom_m (example_world_m True (- 190)) (mw_roomId (example_world_m True (- 190)))) DirN"
    by (simp add: example_world_m_def example_room_m_def init_world_m_def getRoom_m_def)
  then have c: "snd (fst (tryDoorTransitionByIntent_m DirN (sconst 0) (example_world_m True (- 190))))"
    using try_success by blast
  show ?thesis
    using a b c C1_doors_set_uniformly_neighbor_checked_on_use [of init_world_m "(0, 0)" False undefined DirN "sconst 0"]
    by simp
qed

text \<open>
  Claim C2, as stated, fails in its second half: a player standing still in the band of a
  closed door gets no locked-door message, because the door is only tried when the
  velocity points outward and the projected position reaches the wall line.
\<close>

theorem C2_counterexample:
  "door_state_m (getRoom_m (example_world_m False 0) (mw_roomId (example_world_m False 0))) DirN = Closed
   \<and> inDoorBand_m DirN (mp_x (mw_player (example_world_m False 0))) (mp_y (mw_player (example_world_m False 0)))
   \<and> mw_msg (fst (fst (door_phase_m (420 + 0 * (1 / 60)) (20 + 0 * (1 / 60)) (sconst 0) (example_world_m False 0))))
       \<noteq> ''DOOR LOCKED''"
proof -
  have p: "mw_player (example_world_m False 0) = init_player_m\<lparr> mp_x := 420, mp_y := 20, mp_vy := 0 \<rparr>"
    by (simp add: example_world_m_def init_world_m_def)
  have n: "\<not> door_intent_m d (mw_player (example_world_m False 0)) (420 + 0 * (1 / 60)) (20 + 0 * (1 / 60))" for d
    unfolding p by (cases d) (simp_all add: door_intent_m_def init_player_m_def)
  have r: "door_phase_m (420 + 0 * (1 / 60)) (20 + 0 * (1 / 60)) (sconst 0) (example_world_m False 0)
      = ((example_world_m False 0, False), sconst 0)"
    using n by (rule door_phase_none)
  show ?thesis
    unfolding r p
    by (simp add: example_world_m_def example_room_m_def init_world_m_def init_player_m_def getRoom_m_def
        door_state_m_def inDoorBand_m_def ROOM_W_m_def ROOM_H_m_def ROOM_TW_def ROOM_TH_def TILE_m_def
        DOOR_SPAN_m_def DOOR_THICK_m_def)
qed

text \<open>
  Claim C2, amended.  With \<open>(nxp, nyp)\<close> the position projected by the velocity over the
  tick, the door checks of a tick (n.mjs lines 773-779) switch room only in a direction
  \<open>d\<close> whose door is open and for which \<^verbatim>\<open>door_intent\<close> holds: the velocity component
  points outward, the player is in the trigger band of \<open>d\<close>, and the projected position is
  within 2 units of the wall line or beyond it.  If the door in \<open>d\<close> is closed while the
  player is in its band, no room switch occurs; and if the player is moreover pushing
  outward with the projected position at the wall line, the message \<^verbatim>\<open>DOOR LOCKED\<close>
  is emitted.
\<close>

theorem C2_door_transition_by_intent:
  fixes w :: world_m and dt :: real and rs :: rng
  defines "p \<equiv> mw_player w"
    and "room \<equiv> getRoom_m w (mw_roomId w)"
    and "node \<equiv> getNode_m w (mw_roomId w)"
    and "nxp \<equiv> mp_x (mw_player w) + mp_vx (mw_player w) * dt"
    and "nyp \<equiv> mp_y (mw_player w) + mp_vy (mw_player w) * dt"
  defines "res \<equiv> door_phase_m nxp nyp rs w"
  shows "(snd (fst res) \<longrightarrow>
           (\<exists>d. door_intent_m d p nxp nyp \<and> door_state_m room d = Open
                \<and> mw_roomId (fst (fst res)) = roomKey (mn_x node + dir_dx d) (mn_y node + dir_dy d)))
       \<and> (\<forall>d. door_state_m room d = Closed \<and> inDoorBand_m d (mp_x p) (mp_y p) \<longrightarrow>
              \<not> snd (fst res) \<and> mw_roomId (fst (fst res)) = mw_roomId w
              \<and> (door_intent_m d p nxp nyp \<longrightarrow>
                    mw_msg (fst (fst res)) = ''DOOR LOCKED'' \<and> mw_msgT (fst (fst res)) = 0.7))"
proof (cases "\<exists>d. door_intent_m d p nxp nyp")
  case False
  then have r: "res = ((w, False), rs)"
    unfolding res_def p_def by (simp add: door_phase_none)
  show ?thesis using False unfolding r by simp
next
  case True
  then obtain d0 where d0: "door_intent_m d0 p nxp nyp" by blast
  then have r: "res = tryDoorTransitionByIntent_m d0 rs w"
    unfolding res_def p_def by (simp add: door_phase_one)
  have b0: "inDoorBand_m d0 (mp_x p) (mp_y p)" using d0 intent_band by blast
  have fired: "snd (fst res) \<Longrightarrow> door_state_m room d0 = Open
      \<and> mw_roomId (fst (fst res)) = roomKey (mn_x node + dir_dx d0) (mn_y node + dir_dy d0)"
    unfolding r room_def node_def
    using try_fires [of d0 rs w] try_success [of w d0 rs] by (simp add: door_state_m_def)
  have closed: "door_state_m room d = Closed \<and> inDoorBand_m d (mp_x p) (mp_y p) \<Longrightarrow>
      \<not> snd (fst res) \<and> mw_roomId (fst (fst res)) = mw_roomId w
       \<and> (door_intent_m d p nxp nyp \<longrightarrow>
             mw_msg (fst (fst res)) = ''DOOR LOCKED'' \<and> mw_msgT (fst (fst res)) = 0.7)" for d
  proof -
    assume a: "door_state_m room d = Closed \<and> inDoorBand_m d (mp_x p) (mp_y p)"
    then have "d = d0" using b0 band_exclusive by blast
    then have c: "door_state_m (getRoom_m w (mw_roomId w)) d0 = Closed"
      using a unfolding room_def by simp
    show ?thesis
      unfolding r try_closed [OF c] using b0 \<open>d = d0\<close> unfolding p_def by simp
  qed
  show ?thesis using d0 fired closed by blast
qed

theorem C2_door_transition_witness:
  "snd (fst (door_phase_m (420 + 0 * (1 / 30)) (20 + (- 570) * (1 / 30)) (sconst 0) (example_world_m True (- 570))))
   \<and> door_intent_m DirN (mw_player (example_world_m True (- 570))) (420 + 0 * (1 / 30)) (20 + (- 570) * (1 / 30))
   \<and> mw_roomId (fst (fst (door_phase_m (420 + 0 * (1 / 30)) (20 + (- 570) * (1 / 30)) (sconst 0)
        (example_world_m True (- 570))))) = (0, - 1)
   \<and> door_state_m (getRoom_m (example_world_m False (- 570)) (mw_roomId (example_world_m False (- 570)))) DirN = Closed
   \<and> door_intent_m DirN (mw_player (example_world_m False (- 570))) (420 + 0 * (1 / 30)) (20 + (- 570) * (1 / 30))
   \<and> \<not> snd (fst (door_phase_m (420 + 0 * (1 / 30)) (20 + (- 570) * (1 / 30)) (sconst 0) (example_world_m False (- 570))))
   \<and> mw_msg (fst (fst (door_phase_m (420 + 0 * (1 / 30)) (20 + (- 570) * (1 / 30)) (sconst 0)
        (example_world_m False (- 570))))) = ''DOOR LOCKED''"
proof -
  have p: "mw_player (example_world_m b (- 570)) = init_player_m\<lparr> mp_x := 420, mp_y := 20, mp_vy := - 570 \<rparr>" for b
    by (simp add: example_world_m_def init_world_m_def)
  have i: "door_intent_m DirN (mw_player (example_world_m b (- 570))) (420 + 0 * (1 / 30)) (20 + (- 570) * (1 / 30))" for b
    unfolding p
    by (simp add: door_intent_m_def inDoorBand_m_def init_player_m_def ROOM_W_m_def ROOM_H_m_def
        ROOM_TW_def ROOM_TH_def TILE_m_def DOOR_SPAN_m_def DOOR_THICK_m_def)
  have o: "mr_neighbors (getRoom_m (example_world_m True (- 570)) (mw_roomId (example_world_m True (- 570)))) DirN"
    "mr_doorsOpen (getRoom_m (example_world_m True (- 570)) (mw_roomId (example_world_m True (- 570)))) DirN"
    by (simp_all add: example_world_m_def example_room_m_def init_world_m_def getRoom_m_def)
  have f: "snd (fst (door_phase_m (420 + 0 * (1 / 30)) (20 + (- 570) * (1 / 30)) (sconst 0) (example_world_m True (- 570))))"
    unfolding door_phase_one [OF i] using try_success [OF o] by simp
  have c: "door_state_m (getRoom_m (example_world_m False (- 570)) (mw_roomId (example_world_m False (- 570)))) DirN = Closed"
    by (simp add: example_world_m_def example_room_m_def init_world_m_def getRoom_m_def door_state_m_def)
  have b: "inDoorBand_m DirN (mp_x (mw_player (example_world_m False (- 570)))) (mp_y (mw_player (example_world_m False (- 570))))"
    using i intent_band by blast
  have x: "mp_x (mw_player (example_world_m b (- 570))) = 420" "mp_y (mw_player (example_world_m b (- 570))) = 20"
    "mp_vx (mw_player (example_world_m b (- 570))) = 0" "mp_vy (mw_player (example_world_m b (- 570))) = - 570" for b
    unfolding p by (simp_all add: init_player_m_def)
  have n: "getNode_m (example_world_m True (- 570)) (mw_roomId (example_world_m True (- 570))) = newNode_m (0, 0)"
    by (simp add: example_world_m_def init_world_m_def getNode_m_def)
  have t1: "mw_roomId (fst (fst (door_phase_m (420 + 0 * (1 / 30)) (20 + (- 570) * (1 / 30)) (sconst 0)
        (example_world_m True (- 570))))) = (0, - 1)"
    unfolding door_phase_one [OF i] using try_success [OF o, of "sconst 0"]
    by (simp add: n newNode_m_def roomKey_def dir_dx_def dir_dy_def)
  show ?thesis
    using C2_door_transition_by_intent [of "example_world_m False (- 570)" "1 / 30" "sconst 0"] f i t1 c b
    unfolding x by simp
qed


section \<open>The n.mjs variant: first population and the clear check\<close>

text \<open>
  What the simulation never changes: the current room id, and the node and the room
  found under every id.
\<close>

definition static_m :: "world_m \<Rightarrow> room_id \<times> (room_id \<Rightarrow> node_m) \<times> (room_id \<Rightarrow> room_m)" where
  "static_m w = (mw_roomId w, getNode_m w, getRoom_m w)"

lemma static_m_update [simp]:
  "static_m (mw_running_update f1 w) = static_m w"
  "static_m (mw_paused_update f2 w) = static_m w"
  "static_m (mw_shopOpen_update f3 w) = static_m w"
  "static_m (mw_msg_update f4 w) = static_m w"
  "static_m (mw_msgT_update f5 w) = static_m w"
  "static_m (mw_coins_update f6 w) = static_m w"
  "static_m (mw_cam_update f7 w) = static_m w"
  "static_m (mw_enemies_update f8 w) = static_m w"
  "static_m (mw_bullets_update f9 w) = static_m w"
  "static_m (mw_pickups_update f10 w) = static_m w"
  "static_m (mw_fx_update f11 w) = static_m w"
  "static_m (mw_player_update f12 w) = static_m w"
  "static_m (mw_WEAPONS_update f13 w) = static_m w"
  "static_m (mw_VIEW_W_update f14 w) = static_m w"
  "static_m (mw_VIEW_H_update f15 w) = static_m w"
  "static_m (mw_VIEW_OX_update f16 w) = static_m w"
  "static_m (mw_VIEW_OY_update f17 w) = static_m w"
  by (simp_all add: static_m_def)


lemma static_ensureNode [simp]: "static_m (ensureNode_m i w) = static_m w"
  by (simp add: static_m_def fun_eq_iff)

lemma static_ensureRoom [simp]: "static_m (ensureRoom_m i w) = static_m w"
  by (simp add: static_m_def fun_eq_iff)

lemma static_shake [simp]: "static_m (shake_m a t w) = static_m w"
  by (simp add: shake_m_def)

lemma static_hurtPlayer [simp]: "static_m (hurtPlayer_m dmg w) = static_m w"
  by (simp add: hurtPlayer_m_def Let_def)

lemma static_spawnBullet [simp]: "static_m (spawnBullet_m x y vx vy dmg fr k l w) = static_m w"
  by (simp add: spawnBullet_m_def)

lemma static_put_enemy [simp]: "static_m (put_enemy i e w) = static_m w"
  by (simp add: put_enemy_def)

lemma static_unlock_weapon [simp]: "static_m (unlock_weapon i w) = static_m w"
  by (simp add: unlock_weapon_def)

lemma static_unlockRandom [simp]: "static_m (fst (unlockRandomWeapon_m rs w)) = static_m w"
  by (simp add: unlockRandomWeapon_m_def Let_def)

lemma static_dropCoins [simp]: "static_m (fst (dropCoins_m x y n rs w)) = static_m w"
  unfolding dropCoins_m_def
  by (rule fold_inv [where g = "\<lambda>st. static_m (fst st)" and s = "(w, rs)", simplified])
     (simp add: dropCoin_step_def Let_def)

lemma static_fold_bullets [simp]:
  "static_m (fold (\<lambda>i w. spawnBullet_m (x i) (y i) (vx i) (vy i) dmg fr k l w) xs w) = static_m w"
  by (rule fold_inv) simp

lemma static_bossAttack [simp]: "static_m (snd (fst (bossAttack_m dt rs (e, w)))) = static_m w"
proof -
  have f: "static_m (fst (fold (\<lambda>j st. (spawnBullet_m (x st) (y st) (vx st) (vy st) dmg fr k l (fst st), stl (snd st))) xs st))
      = static_m (fst st)" for x y vx vy dmg fr k l xs and st :: "world_m \<times> rng"
    by (rule fold_inv [where g = "\<lambda>st. static_m (fst st)"]) simp
  show ?thesis
    by (simp add: bossAttack_m_def Let_def f)
qed


lemma static_touch [simp]: "static_m (touch_m dmg e w) = static_m w"
  by (simp add: touch_m_def)

lemma static_boss_death [simp]: "static_m (fst (boss_death_m i e rs w)) = static_m w"
  by (simp add: boss_death_m_def Let_def)

lemma static_shooter_ai [simp]: "static_m (snd (fst (shooter_ai_m dt depth dx dy d rs (e, w)))) = static_m w"
  by (simp add: shooter_ai_m_def Let_def)

lemma static_enemy_death [simp]: "static_m (fst (enemy_death_m depth i e rs w)) = static_m w"
  by (simp add: enemy_death_m_def Let_def)

lemma static_pickup_step [simp]: "static_m (pickup_step_m i w) = static_m w"
  by (simp add: pickup_step_m_def Let_def)

lemma static_updatePickups [simp]: "static_m (updatePickups_m dt w) = static_m w"
  unfolding updatePickups_m_def by (simp add: fold_inv)

lemma static_fx_step [simp]: "static_m (fx_step_m dt i w) = static_m w"
  by (simp add: fx_step_m_def Let_def)

lemma static_updateParticles [simp]: "static_m (updateParticles_m dt w) = static_m w"
  unfolding updateParticles_m_def by (simp add: fold_inv)

lemma static_updateCamera [simp]: "static_m (updateCamera_m dt w) = static_m w"
  by (simp add: updateCamera_m_def Let_def)

lemma static_roomId: "static_m w' = static_m w \<Longrightarrow> mw_roomId w' = mw_roomId w"
  by (simp add: static_m_def)

lemma static_getNode: "static_m w' = static_m w \<Longrightarrow> getNode_m w' = getNode_m w"
  by (simp add: static_m_def)

lemma static_getRoom: "static_m w' = static_m w \<Longrightarrow> getRoom_m w' = getRoom_m w"
  by (simp add: static_m_def)

lemma length_splice1_nil [simp]: "splice1 [] i = []"
  by (simp add: splice1_def)

lemma enemies_shake [simp]: "mw_enemies (shake_m a t w) = mw_enemies w"
  by (simp add: shake_m_def)

lemma enemies_hurtPlayer [simp]: "mw_enemies (hurtPlayer_m dmg w) = mw_enemies w"
  by (simp add: hurtPlayer_m_def Let_def)

lemma enemies_ensureRoom [simp]: "mw_enemies (ensureRoom_m i w) = mw_enemies w"
  by (simp add: ensureRoom_m_def split: option.splits)

lemma enemies_pickup_step [simp]: "mw_enemies (pickup_step_m i w) = mw_enemies w"
  by (simp add: pickup_step_m_def Let_def)

lemma enemies_updatePickups [simp]: "mw_enemies (updatePickups_m dt w) = mw_enemies w"
  unfolding updatePickups_m_def by (simp add: fold_inv)

lemma enemies_fx_step [simp]: "mw_enemies (fx_step_m dt i w) = mw_enemies w"
  by (simp add: fx_step_m_def Let_def)

lemma enemies_updateParticles [simp]: "mw_enemies (updateParticles_m dt w) = mw_enemies w"
  unfolding updateParticles_m_def by (simp add: fold_inv)

lemma getRoom_setRoom [simp]:
  "getRoom_m (setRoom_m i f w) j = (if j = i then f (getRoom_m w i) else getRoom_m w j)"
  by (simp add: setRoom_m_def getRoom_m_def)

lemma getNode_setNode [simp]:
  "getNode_m (setNode_m i f w) j = (if j = i then f (getNode_m w i) else getNode_m w j)"
  by (simp add: setNode_m_def getNode_m_def)

lemma getNode_setRoom [simp]: "getNode_m (setRoom_m i f w) = getNode_m w"
  by (simp add: setRoom_m_def)

lemma getRoom_setNode [simp]: "getRoom_m (setNode_m i f w) = getRoom_m w"
  by (simp add: setNode_m_def)

lemma clear_check_clears:
  assumes "mn_kind (getNode_m w (mw_roomId w)) = KCombat" "\<not> mn_cleared (getNode_m w (mw_roomId w))"
    "mw_enemies w = []"
  shows "mw_roomId (clear_check_m w) = mw_roomId w
    \<and> mn_cleared (getNode_m (clear_check_m w) (mw_roomId w))
    \<and> (\<forall>d. mr_doorsOpen (getRoom_m (clear_check_m w) (mw_roomId w)) d)
    \<and> mr_neighbors (getRoom_m (clear_check_m w) (mw_roomId w)) = mr_neighbors (getRoom_m w (mw_roomId w))"
  using assms by (simp add: clear_check_m_def Let_def lockDoors_open lockDoors_neighbors)

lemma static_setRoom_other:
  "getNode_m (setRoom_m i f w) = getNode_m w \<and> mw_roomId (setRoom_m i f w) = mw_roomId w"
  by simp

lemma static_spawnEnemy [simp]: "static_m (spawnEnemy_m ty x y d w) = static_m w"
  by (simp add: spawnEnemy_m_def Let_def)

lemma static_spawn_fold [simp]: "static_m (fst (fold (spawn_step d) xs st)) = static_m (fst st)"
  by (rule fold_inv [where g = "\<lambda>st. static_m (fst st)"]) (simp add: spawn_step_def Let_def)

lemma static_spawnBoss [simp]: "static_m (fst (spawnBoss_m x y d rs w)) = static_m w"
  by (simp add: spawnBoss_m_def Let_def)

lemma static_snap [simp]: "static_m (snapCameraToPlayer_m w) = static_m w"
  by (simp add: snapCameraToPlayer_m_def Let_def)

lemma getRoom_static: "static_m w' = static_m w \<Longrightarrow> getRoom_m w' i = getRoom_m w i"
  by (simp add: static_m_def)

lemma getNode_static: "static_m w' = static_m w \<Longrightarrow> getNode_m w' i = getNode_m w i"
  by (simp add: static_m_def)

lemma assignRoomKind_kind [simp]: "assignRoomKind_m (n\<lparr>mn_kind := k\<rparr>) = assignRoomKind_m n"
  by (simp add: assignRoomKind_m_def)

lemma spawnRoomContents_locks:
  assumes "assignRoomKind_m (getNode_m w i) = KCombat" "\<not> mn_cleared (getNode_m w i)"
  shows "\<not> mr_doorsOpen (getRoom_m (fst (spawnRoomContents_m i rs w)) i) d"
proof -
  have r: "getRoom_m (fst (spawnBoss_m x y dp rs w')) i = getRoom_m w' i" for x y dp w'
    by (rule getRoom_static) simp
  have f: "getRoom_m (fst (fold (spawn_step dp) xs st)) i = getRoom_m (fst st) i" for dp xs st
    by (rule getRoom_static) simp
  show ?thesis
    using assms by (simp add: spawnRoomContents_m_def Let_def lockDoors_open r f)
qed

lemma getNode_link [simp]: "getNode_m (link_m i nx ny a b w) = getNode_m w"
  by (simp add: link_m_def Let_def fun_eq_iff)

lemma getNode_genRoomTiles [simp]: "getNode_m (fst (genRoomTiles_m i rs w)) = getNode_m w"
  by (simp add: genRoomTiles_m_def Let_def fun_eq_iff)

lemma getNode_buildNeighbors:
  "getNode_m (fst (buildNeighborsAround_m i rs w)) i = (getNode_m w i)\<lparr>mn_kind := assignRoomKind_m (getNode_m w i)\<rparr>"
  by (simp add: buildNeighborsAround_m_def Let_def)

lemma loadRoom_locks:
  assumes "assignRoomKind_m (getNode_m w i) = KCombat" "\<not> mn_cleared (getNode_m w i)"
  shows "\<not> mr_doorsOpen (getRoom_m (fst (loadRoom_m i rs w)) i) d"
proof -
  define w1 where "w1 = setNode_m i (\<lambda>n. n\<lparr>mn_kind := assignRoomKind_m n\<rparr>) (ensureNode_m i w)"
  define st3 where "st3 = genRoomTiles_m i (snd (buildNeighborsAround_m i rs w1)) (fst (buildNeighborsAround_m i rs w1))"
  have n: "getNode_m (fst st3) i = (getNode_m w i)\<lparr>mn_kind := assignRoomKind_m (getNode_m w i)\<rparr>"
    unfolding st3_def w1_def by (simp add: getNode_buildNeighbors)
  have a: "assignRoomKind_m (getNode_m (fst st3) i) = KCombat" "\<not> mn_cleared (getNode_m (fst st3) i)"
    using assms unfolding n by simp_all
  have l: "fst (loadRoom_m i rs w) = snapCameraToPlayer_m
      ((setNode_m i (\<lambda>n. n\<lparr>mn_seen := True\<rparr>) (ensureNode_m i (fst (spawnRoomContents_m i (snd st3) (fst st3)))))
        \<lparr>mw_shopOpen := False\<rparr>)"
    unfolding st3_def w1_def by (simp add: loadRoom_m_def Let_def)
  have "getRoom_m (fst (loadRoom_m i rs w)) i = getRoom_m (fst (spawnRoomContents_m i (snd st3) (fst st3))) i"
    unfolding l by (simp add: getRoom_static [of "snapCameraToPlayer_m _"])
  then show ?thesis
    using spawnRoomContents_locks [OF a] by simp
qed


lemma splice1_update [simp]: "splice1 (xs[i := e]) i = splice1 xs i"
  by (simp add: splice1_def)

lemma enemies_put_enemy [simp]: "mw_enemies (put_enemy i e w) = (mw_enemies w)[i := e]"
  by (simp add: put_enemy_def)

lemma enemies_touch [simp]: "mw_enemies (touch_m dmg e w) = mw_enemies w"
  by (simp add: touch_m_def)

lemma enemies_dropCoins [simp]: "mw_enemies (fst (dropCoins_m x y n rs w)) = mw_enemies w"
  unfolding dropCoins_m_def
  by (rule fold_inv [where g = "\<lambda>st. mw_enemies (fst st)" and s = "(w, rs)", simplified])
     (simp add: dropCoin_step_def Let_def)

lemma enemies_enemy_death [simp]:
  "mw_enemies (fst (enemy_death_m depth i e rs w)) = splice1 (mw_enemies w) i"
  by (simp add: enemy_death_m_def Let_def)

lemma enemies_spawnBullet [simp]: "mw_enemies (spawnBullet_m x y vx vy dmg fr k l w) = mw_enemies w"
  by (simp add: spawnBullet_m_def)

lemma enemies_shooter_ai [simp]:
  "mw_enemies (snd (fst (shooter_ai_m dt depth dx dy d rs (e, w)))) = mw_enemies w"
  by (simp add: shooter_ai_m_def Let_def)

lemma hp_shooter_ai [simp]: "me_hp (fst (fst (shooter_ai_m dt depth dx dy d rs (e, w)))) = me_hp e"
  by (simp add: shooter_ai_m_def Let_def)

lemma enemies_ensureNode [simp]: "mw_enemies (ensureNode_m i w) = mw_enemies w"
  by (simp add: ensureNode_m_def split: option.splits)

lemma enemies_updateCamera [simp]: "mw_enemies (updateCamera_m dt w) = mw_enemies w"
  by (simp add: updateCamera_m_def Let_def)

subsection \<open>A tick in a room whose tiles were generated\<close>

text \<open>\<open>returns res P\<close>: the step returned, with a result for which \<open>P\<close> holds.\<close>

definition returns :: "js_error + 'a \<Rightarrow> ('a \<Rightarrow> bool) \<Rightarrow> bool" where
  "returns res P = (case res of Inl err \<Rightarrow> False | Inr x \<Rightarrow> P x)"

lemma returns_simps [simp]:
  "returns (Inr x) P = P x"
  "returns (Inl err) P = False"
  "returns (fst (ok st)) P = P (fst st)"
  by (simp_all add: returns_def ok_def)

lemma returnsD: "returns res P \<Longrightarrow> \<exists>x. res = Inr x \<and> P x"
  by (cases res) simp_all

lemma returns_mono: "returns res P \<Longrightarrow> (\<And>x. P x \<Longrightarrow> Q x) \<Longrightarrow> returns res Q"
  by (cases res) simp_all

lemma returns_conj: "returns res P \<Longrightarrow> returns res Q \<Longrightarrow> returns res (\<lambda>x. P x \<and> Q x)"
  by (cases res) simp_all

text \<open>Every room that \<^verbatim>\<open>loadRoom\<close> has loaded has its tiles.\<close>

lemma grid_genRoomTiles: "mr_g (getRoom_m (fst (genRoomTiles_m i rs w)) i) \<noteq> None"
  by (simp add: genRoomTiles_m_def Let_def)

lemma grid_lockDoors [simp]: "mr_g (lockDoors_m b r) = mr_g r"
  by (simp add: lockDoors_m_def)

lemma grid_spawnRoomContents:
  "mr_g (getRoom_m (fst (spawnRoomContents_m i rs w)) i) = mr_g (getRoom_m w i)"
proof -
  have r: "getRoom_m (fst (spawnBoss_m x y dp rs w')) i = getRoom_m w' i" for x y dp w'
    by (rule getRoom_static) simp
  have f: "getRoom_m (fst (fold (spawn_step dp) xs st)) i = getRoom_m (fst st) i" for dp xs st
    by (rule getRoom_static) simp
  show ?thesis
    by (simp add: spawnRoomContents_m_def Let_def r f)
qed

lemma loadRoom_generates: "mr_g (getRoom_m (fst (loadRoom_m i rs w)) i) \<noteq> None"
proof -
  define w1 where "w1 = setNode_m i (\<lambda>n. n\<lparr>mn_kind := assignRoomKind_m n\<rparr>) (ensureNode_m i w)"
  define st3 where "st3 = genRoomTiles_m i (snd (buildNeighborsAround_m i rs w1)) (fst (buildNeighborsAround_m i rs w1))"
  have l: "fst (loadRoom_m i rs w) = snapCameraToPlayer_m
      ((setNode_m i (\<lambda>n. n\<lparr>mn_seen := True\<rparr>) (ensureNode_m i (fst (spawnRoomContents_m i (snd st3) (fst st3)))))
        \<lparr>mw_shopOpen := False\<rparr>)"
    unfolding st3_def w1_def by (simp add: loadRoom_m_def Let_def)
  have "getRoom_m (fst (loadRoom_m i rs w)) i = getRoom_m (fst (spawnRoomContents_m i (snd st3) (fst st3))) i"
    unfolding l by (simp add: getRoom_static [of "snapCameraToPlayer_m _"])
  then show ?thesis
    using grid_genRoomTiles [of i "snd (buildNeighborsAround_m i rs w1)" "fst (buildNeighborsAround_m i rs w1)"]
    by (simp add: grid_spawnRoomContents st3_def)
qed

lemma spawnRoomContents_node:
  assumes "assignRoomKind_m (getNode_m w i) = KCombat" and "\<not> mn_cleared (getNode_m w i)"
  shows "mn_kind (getNode_m (fst (spawnRoomContents_m i rs w)) i) = KCombat
       \<and> \<not> mn_cleared (getNode_m (fst (spawnRoomContents_m i rs w)) i)"
proof -
  have r: "getNode_m (fst (spawnBoss_m x y dp rs w')) i = getNode_m w' i" for x y dp w'
    by (rule getNode_static) simp
  have f: "getNode_m (fst (fold (spawn_step dp) xs st)) i = getNode_m (fst st) i" for dp xs st
    by (rule getNode_static) simp
  show ?thesis
    using assms by (simp add: spawnRoomContents_m_def Let_def r f)
qed

lemma loadRoom_node:
  assumes "assignRoomKind_m (getNode_m w i) = KCombat" and "\<not> mn_cleared (getNode_m w i)"
  shows "mn_kind (getNode_m (fst (loadRoom_m i rs w)) i) = KCombat
       \<and> \<not> mn_cleared (getNode_m (fst (loadRoom_m i rs w)) i)"
proof -
  define w1 where "w1 = setNode_m i (\<lambda>n. n\<lparr>mn_kind := assignRoomKind_m n\<rparr>) (ensureNode_m i w)"
  define st3 where "st3 = genRoomTiles_m i (snd (buildNeighborsAround_m i rs w1)) (fst (buildNeighborsAround_m i rs w1))"
  have n: "getNode_m (fst st3) i = (getNode_m w i)\<lparr>mn_kind := assignRoomKind_m (getNode_m w i)\<rparr>"
    unfolding st3_def w1_def by (simp add: getNode_buildNeighbors)
  have a: "assignRoomKind_m (getNode_m (fst st3) i) = KCombat" "\<not> mn_cleared (getNode_m (fst st3) i)"
    using assms unfolding n by simp_all
  have l: "fst (loadRoom_m i rs w) = snapCameraToPlayer_m
      ((setNode_m i (\<lambda>n. n\<lparr>mn_seen := True\<rparr>) (ensureNode_m i (fst (spawnRoomContents_m i (snd st3) (fst st3)))))
        \<lparr>mw_shopOpen := False\<rparr>)"
    unfolding st3_def w1_def by (simp add: loadRoom_m_def Let_def)
  have "getNode_m (fst (loadRoom_m i rs w)) i
      = (getNode_m (fst (spawnRoomContents_m i (snd st3) (fst st3))) i)\<lparr>mn_seen := True\<rparr>"
    unfolding l by (simp add: getNode_static [of "snapCameraToPlayer_m _"])
  then show ?thesis
    using spawnRoomContents_node [OF a] by simp
qed

text \<open>With the tiles there, no collision test throws.\<close>

lemma solid_returns: "mr_g room \<noteq> None \<Longrightarrow> isSolidAtPoint_m wx wy room \<noteq> Inl err"
  by (auto simp: isSolidAtPoint_m_def Let_def split: if_splits)

lemma collide_samples_returns:
  "mr_g room \<noteq> None \<Longrightarrow> collide_samples x y r room xs \<noteq> Inl err"
  by (induction xs) (auto simp: Let_def solid_returns split: sum.splits)

lemma collide_returns: "mr_g room \<noteq> None \<Longrightarrow> collideCircle_m x y r room \<noteq> Inl err"
  by (simp add: collideCircle_m_def collide_samples_returns)

lemma move_enemy_hp: "move_enemy_m dt room e = Inr e' \<Longrightarrow> me_hp e' = me_hp e"
  by (auto simp: move_enemy_m_def Let_def split: sum.splits if_splits)

lemma move_enemy_returns: "mr_g room \<noteq> None \<Longrightarrow> move_enemy_m dt room e \<noteq> Inl err"
  by (auto simp: move_enemy_m_def Let_def collide_returns split: sum.splits)

lemma player_move_frame:
  "player_move_m nxp nyp room w = Inr w' \<Longrightarrow> static_m w' = static_m w \<and> mw_enemies w' = mw_enemies w"
  by (auto simp: player_move_m_def Let_def split: sum.splits)

lemma player_move_returns:
  assumes "mr_g room \<noteq> None"
  shows "returns (player_move_m nxp nyp room w) (\<lambda>w'. static_m w' = static_m w \<and> mw_enemies w' = mw_enemies w)"
proof (cases "player_move_m nxp nyp room w")
  case (Inl err)
  then show ?thesis
    using assms by (auto simp: player_move_m_def Let_def collide_returns split: sum.splits)
next
  case (Inr w')
  then show ?thesis using player_move_frame [OF Inr] by simp
qed

lemma boss_step_returns:
  assumes "mr_g room \<noteq> None"
  shows "returns (fst (boss_step_m dt room i e rs w)) (\<lambda>w'. static_m w' = static_m w)"
  using assms
  by (auto simp: boss_step_m_def Let_def move_enemy_returns split: sum.splits)

lemma normal_step_returns:
  assumes "mr_g room \<noteq> None"
  shows "returns (fst (normal_step_m dt room depth i e rs w)) (\<lambda>w'. static_m w' = static_m w)"
    and "me_hp e \<le> 0 \<Longrightarrow>
         returns (fst (normal_step_m dt room depth i e rs w)) (\<lambda>w'. mw_enemies w' = splice1 (mw_enemies w) i)"
proof -
  define ai where "ai = (if me_type e = Chaser then
       (let sp = 105 + real_of_int depth * 2 in
        ((e\<lparr>me_vx := ((mp_x (mw_player w) - me_x e)
               / (if sqrt ((mp_x (mw_player w) - me_x e) * (mp_x (mw_player w) - me_x e)
                        + (mp_y (mw_player w) - me_y e) * (mp_y (mw_player w) - me_y e)) = 0 then 1
                  else sqrt ((mp_x (mw_player w) - me_x e) * (mp_x (mw_player w) - me_x e)
                        + (mp_y (mw_player w) - me_y e) * (mp_y (mw_player w) - me_y e)))) * sp,
             me_vy := ((mp_y (mw_player w) - me_y e)
               / (if sqrt ((mp_x (mw_player w) - me_x e) * (mp_x (mw_player w) - me_x e)
                        + (mp_y (mw_player w) - me_y e) * (mp_y (mw_player w) - me_y e)) = 0 then 1
                  else sqrt ((mp_x (mw_player w) - me_x e) * (mp_x (mw_player w) - me_x e)
                        + (mp_y (mw_player w) - me_y e) * (mp_y (mw_player w) - me_y e)))) * sp\<rparr>, w), rs))
     else shooter_ai_m dt depth (mp_x (mw_player w) - me_x e) (mp_y (mw_player w) - me_y e)
       (if sqrt ((mp_x (mw_player w) - me_x e) * (mp_x (mw_player w) - me_x e)
                        + (mp_y (mw_player w) - me_y e) * (mp_y (mw_player w) - me_y e)) = 0 then 1
                  else sqrt ((mp_x (mw_player w) - me_x e) * (mp_x (mw_player w) - me_x e)
                        + (mp_y (mw_player w) - me_y e) * (mp_y (mw_player w) - me_y e)))
       rs (e, w))"
  have s: "static_m (snd (fst ai)) = static_m w" "mw_enemies (snd (fst ai)) = mw_enemies w"
      "me_hp (fst (fst ai)) = me_hp e"
    by (simp_all add: ai_def Let_def)
  have u: "normal_step_m dt room depth i e rs w =
      (case move_enemy_m dt room (fst (fst ai)) of
          Inl err \<Rightarrow> (Inl err, snd ai)
        | Inr e3 \<Rightarrow>
           (let w4 = touch_m 1 e3 (put_enemy i e3 (snd (fst ai)))
            in if me_hp e3 \<le> 0 then ok (enemy_death_m depth i e3 (snd ai) w4) else (Inr w4, snd ai)))"
    unfolding normal_step_m_def Let_def ai_def ..
  show "returns (fst (normal_step_m dt room depth i e rs w)) (\<lambda>w'. static_m w' = static_m w)"
    unfolding u using assms
    by (auto simp: Let_def s move_enemy_returns split: sum.splits)
  show "returns (fst (normal_step_m dt room depth i e rs w)) (\<lambda>w'. mw_enemies w' = splice1 (mw_enemies w) i)"
    if "me_hp e \<le> 0"
    unfolding u using assms that
    by (auto simp: Let_def s move_enemy_returns split: sum.splits dest: move_enemy_hp)
qed

lemma enemy_step_returns:
  assumes "mr_g room \<noteq> None" and "returns (fst st) (\<lambda>w'. static_m w' = s)"
  shows "returns (fst (enemy_step_m dt room depth i st)) (\<lambda>w'. static_m w' = s)"
proof -
  obtain w where w: "fst st = Inr w" "static_m w = s"
    using returnsD [OF assms(2)] by blast
  show ?thesis
    using boss_step_returns [OF assms(1), of dt i _ "snd st" w]
      normal_step_returns(1) [OF assms(1), of dt depth i _ "snd st" w] w
    by (simp add: enemy_step_m_def Let_def)
qed

lemma updateEnemies_returns:
  assumes "mr_g (getRoom_m w (mw_roomId w)) \<noteq> None"
  shows "returns (fst (updateEnemies_m dt rs w)) (\<lambda>w'. static_m w' = static_m w)"
proof -
  have f: "returns (fst (fold (enemy_step_m dt room depth) xs st)) (\<lambda>w'. static_m w' = s)"
    if "mr_g room \<noteq> None" "returns (fst st) (\<lambda>w'. static_m w' = s)" for room depth xs st s
    using that by (induction xs arbitrary: st) (simp_all add: enemy_step_returns)
  show ?thesis
    unfolding updateEnemies_m_def Let_def
    by (rule f) (simp_all add: assms)
qed

lemma tick_move_returns:
  assumes "mr_g (getRoom_m w (mw_roomId w)) \<noteq> None"
  shows "returns (fst (tick_move_m dt nxp nyp rs w)) (\<lambda>w'. static_m w' = static_m w)"
proof -
  obtain w1 where 1: "player_move_m nxp nyp (getRoom_m w (mw_roomId w)) w = Inr w1"
      and s: "static_m w1 = static_m w"
    using returnsD [OF player_move_returns [OF assms]] by blast
  have g: "mr_g (getRoom_m (updateCamera_m dt w1) (mw_roomId (updateCamera_m dt w1))) \<noteq> None"
    using assms s static_roomId [of "updateCamera_m dt w1" w] static_getRoom [of "updateCamera_m dt w1" w]
    by simp
  show ?thesis
    using updateEnemies_returns [OF g, of dt rs] s by (simp add: tick_move_m_def 1)
qed

lemma bullet_step_returns:
  assumes "mr_g room \<noteq> None" and "returns res (\<lambda>w'. static_m w' = s \<and> (e \<longrightarrow> mw_enemies w' = []))"
  shows "returns (bullet_step_m dt room i res) (\<lambda>w'. static_m w' = s \<and> (e \<longrightarrow> mw_enemies w' = []))"
proof -
  obtain w where w: "res = Inr w" "static_m w = s" "e \<longrightarrow> mw_enemies w = []"
    using returnsD [OF assms(2)] by blast
  have f: "static_m (bullet_flight_m i b nx ny w) = static_m w
      \<and> (mw_enemies w = [] \<longrightarrow> mw_enemies (bullet_flight_m i b nx ny w) = [])" for b nx ny
    by (simp add: bullet_flight_m_def Let_def split: option.splits)
  show ?thesis
    using w f assms(1)
    by (auto simp: bullet_step_m_def Let_def solid_returns split: sum.splits)
qed

lemma updateBullets_returns:
  assumes "mr_g (getRoom_m w (mw_roomId w)) \<noteq> None" and "e \<longrightarrow> mw_enemies w = []"
  shows "returns (updateBullets_m dt w) (\<lambda>w'. static_m w' = static_m w \<and> (e \<longrightarrow> mw_enemies w' = []))"
proof -
  have f: "returns (fold (bullet_step_m dt room) xs res) (\<lambda>w'. static_m w' = s \<and> (e \<longrightarrow> mw_enemies w' = []))"
    if "mr_g room \<noteq> None" "returns res (\<lambda>w'. static_m w' = s \<and> (e \<longrightarrow> mw_enemies w' = []))"
    for room xs res s
    using that by (induction xs arbitrary: res) (simp_all add: bullet_step_returns)
  show ?thesis
    unfolding updateBullets_m_def Let_def
    by (rule f) (simp_all add: assms)
qed

text \<open>
  The tick completes, and once \<^verbatim>\<open>updateEnemies\<close> has left no enemy it ends with the room
  cleared and its doors open.
\<close>

lemma tick_tail_returns:
  assumes "mr_g (getRoom_m w (mw_roomId w)) \<noteq> None"
  shows "returns (fst (tick_tail_m dt nxp nyp rs w)) (\<lambda>w'. True)"
proof -
  obtain w3 where 3: "fst (tick_move_m dt nxp nyp rs w) = Inr w3" and s: "static_m w3 = static_m w"
    using returnsD [OF tick_move_returns [OF assms]] by blast
  have g: "mr_g (getRoom_m w3 (mw_roomId w3)) \<noteq> None"
    using assms s static_roomId [of w3 w] static_getRoom [of w3 w] by simp
  obtain w4 where 4: "updateBullets_m dt w3 = Inr w4"
    using returnsD [OF updateBullets_returns [OF g, of False dt]] by auto
  show ?thesis by (simp add: tick_tail_m_def Let_def 3 4)
qed

lemma tick_tail_clears:
  assumes k: "mn_kind (getNode_m w (mw_roomId w)) = KCombat"
    and c: "\<not> mn_cleared (getNode_m w (mw_roomId w))"
    and g: "mr_g (getRoom_m w (mw_roomId w)) \<noteq> None"
    and e: "returns (fst (tick_move_m dt nxp nyp rs w)) (\<lambda>w3. mw_enemies w3 = [])"
  shows "returns (fst (tick_tail_m dt nxp nyp rs w))
     (\<lambda>w'. mw_roomId w' = mw_roomId w
          \<and> mn_cleared (getNode_m w' (mw_roomId w))
          \<and> (\<forall>d. mr_doorsOpen (getRoom_m w' (mw_roomId w)) d))"
proof -
  obtain w3 where 3: "fst (tick_move_m dt nxp nyp rs w) = Inr w3"
      and s3: "static_m w3 = static_m w" and e3: "mw_enemies w3 = []"
    using returnsD [OF returns_conj [OF tick_move_returns [OF g, of dt nxp nyp rs] e]] by blast
  have g3: "mr_g (getRoom_m w3 (mw_roomId w3)) \<noteq> None"
    using g s3 static_roomId [of w3 w] static_getRoom [of w3 w] by simp
  obtain w4 where 4: "updateBullets_m dt w3 = Inr w4"
      and s4: "static_m w4 = static_m w3" and e4: "mw_enemies w4 = []"
    using returnsD [OF updateBullets_returns [OF g3, of True dt]] e3 by auto
  define w6 where "w6 = updateParticles_m dt (updatePickups_m dt w4)"
  have s: "static_m w6 = static_m w" unfolding w6_def using s3 s4 by simp
  have n: "mw_enemies w6 = []" unfolding w6_def using e4 by simp
  have t: "fst (tick_tail_m dt nxp nyp rs w) = Inr (clear_check_m w6)"
    unfolding w6_def by (simp add: tick_tail_m_def Let_def 3 4)
  have r: "mw_roomId w6 = mw_roomId w" "getNode_m w6 = getNode_m w"
    using s by (simp_all add: static_m_def)
  show ?thesis
    unfolding t using clear_check_clears [of w6] k c n r by auto
qed

lemma last_enemy_removed:
  assumes "mw_enemies w = [e]" and "me_type e \<noteq> BossT" and "me_hp e \<le> 0"
      and g: "mr_g (getRoom_m w (mw_roomId w)) \<noteq> None"
  shows "returns (fst (tick_move_m dt nxp nyp rs w)) (\<lambda>w3. mw_enemies w3 = [])"
proof -
  obtain w1 where 1: "player_move_m nxp nyp (getRoom_m w (mw_roomId w)) w = Inr w1"
      and s: "static_m w1 = static_m w" and e1: "mw_enemies w1 = mw_enemies w"
    using returnsD [OF player_move_returns [OF g]] by blast
  define w0 where "w0 = ensureNode_m (mw_roomId (updateCamera_m dt w1))
      (ensureRoom_m (mw_roomId (updateCamera_m dt w1)) (updateCamera_m dt w1))"
  have s0: "static_m w0 = static_m w" and e0: "mw_enemies w0 = [e]"
    unfolding w0_def using s e1 assms(1) by simp_all
  have g0: "mr_g (getRoom_m w0 (mw_roomId w0)) \<noteq> None"
    using g s0 static_roomId [of w0 w] static_getRoom [of w0 w] by simp
  have "returns (fst (normal_step_m dt (getRoom_m w0 (mw_roomId w0)) depth 0 (e\<lparr>me_t := me_t e + dt\<rparr>) rs w0))
      (\<lambda>w'. mw_enemies w' = splice1 (mw_enemies w0) 0)" for depth
    by (rule normal_step_returns(2) [OF g0]) (simp add: assms(3))
  then show ?thesis
    using assms(2) e0
    by (simp add: tick_move_m_def 1 updateEnemies_m_def w0_def [symmetric] enemy_step_m_def Let_def splice1_def)
qed

text \<open>
  In a room that \<^verbatim>\<open>ensureRoom\<close> made and \<^verbatim>\<open>genRoomTiles\<close> never filled, the tick
  throws at the player's first collision sample that lies inside the room; the enemies are
  not updated and the clear check is not reached.
\<close>

lemma collide_throws:
  assumes "mr_g room = None"
      and "0 \<le> js_int32 ((x + r) / TILE_m)" and "js_int32 ((x + r) / TILE_m) < ROOM_TW"
      and "0 \<le> js_int32 (y / TILE_m)" and "js_int32 (y / TILE_m) < ROOM_TH"
  shows "collideCircle_m x y r room = Inl TypeError"
proof -
  have u: "[0..<14] = 0 # [1..<14]"
    by (simp add: upt_conv_Cons)
  show ?thesis
    unfolding collideCircle_m_def u using assms
    by (simp add: isSolidAtPoint_m_def Let_def)
qed

lemma tick_tail_throws:
  assumes "mr_g (getRoom_m w (mw_roomId w)) = None"
      and "0 \<le> js_int32 ((nxp + mp_r (mw_player w)) / TILE_m)"
      and "js_int32 ((nxp + mp_r (mw_player w)) / TILE_m) < ROOM_TW"
      and "0 \<le> js_int32 (mp_y (mw_player w) / TILE_m)"
      and "js_int32 (mp_y (mw_player w) / TILE_m) < ROOM_TH"
  shows "fst (tick_tail_m dt nxp nyp rs w) = Inl TypeError"
  by (simp add: tick_tail_m_def tick_move_m_def player_move_m_def Let_def collide_throws [OF assms])

lemma unloaded_room_throws:
  "fst (tick_tail_m dt 420 20 rs ((example_world_m False 0)\<lparr>mw_enemies := [e]\<rparr>)) = Inl TypeError"
  by (rule tick_tail_throws)
     (simp_all add: example_world_m_def example_room_m_def init_world_m_def init_player_m_def
        getRoom_m_def TILE_m_def ROOM_TW_def ROOM_TH_def js_int32_def js_trunc_def)

text \<open>
  The room east of the origin as \<^verbatim>\<open>loadRoom\<close> makes it when every draw is 1/2, at the
  end of the fight: one chaser is left, brought to 0 hit points in the tick before (a
  bullet's hit takes the hit points in \<^verbatim>\<open>updateBullets\<close>; the enemy is removed by the
  next \<^verbatim>\<open>updateEnemies\<close>).
\<close>

definition dead_chaser_m :: enemy_m where
  "dead_chaser_m = \<lparr> me_type = Chaser, me_x = 100, me_y = 100, me_r = 19, me_hp = 0,
     me_vx = 0, me_vy = 0, me_t = 2, me_fireCD = 0, me_boss = None \<rparr>"

definition combat_world_m :: world_m where
  "combat_world_m =
     (fst (loadRoom_m (1, 0) (sconst (1 / 2)) (init_world_m\<lparr> mw_roomId := (1, 0) \<rparr>)))
       \<lparr> mw_running := True, mw_enemies := [dead_chaser_m] \<rparr>"

lemma combat_world_facts:
  "mw_roomId combat_world_m = (1, 0)"
  "mn_kind (getNode_m combat_world_m (1, 0)) = KCombat"
  "\<not> mn_cleared (getNode_m combat_world_m (1, 0))"
  "mr_g (getRoom_m combat_world_m (1, 0)) \<noteq> None"
  "mw_enemies combat_world_m = [dead_chaser_m]"
proof -
  let ?w = "init_world_m\<lparr> mw_roomId := (1, 0) \<rparr>"
  let ?l = "fst (loadRoom_m (1, 0) (sconst (1 / 2)) ?w)"
  have s: "static_m combat_world_m = static_m ?l"
    by (simp add: combat_world_m_def)
  show "mw_roomId combat_world_m = (1, 0)"
    using static_roomId [OF s] by (simp add: init_world_m_def)
  have a: "assignRoomKind_m (getNode_m ?w (1, 0)) = KCombat" "\<not> mn_cleared (getNode_m ?w (1, 0))"
    by (simp_all add: init_world_m_def getNode_m_def newNode_m_def assignRoomKind_m_def
        isShopCoord_def js_rem_def)
  show "mn_kind (getNode_m combat_world_m (1, 0)) = KCombat"
      "\<not> mn_cleared (getNode_m combat_world_m (1, 0))"
    using static_getNode [OF s] loadRoom_node [OF a, of "sconst (1 / 2)"] by simp_all
  show "mr_g (getRoom_m combat_world_m (1, 0)) \<noteq> None"
    using static_getRoom [OF s] loadRoom_generates [of "(1, 0)" "sconst (1 / 2)" ?w] by simp
  show "mw_enemies combat_world_m = [dead_chaser_m]"
    by (simp add: combat_world_m_def)
qed

text \<open>
  Claim C3.  A room is populated on entry by \<^verbatim>\<open>loadRoom\<close>, through
  \<^verbatim>\<open>spawnRoomContents\<close>; for a combat room that is not cleared, both leave
  \<^verbatim>\<open>doorsOpen\<close> false in all four directions (n.mjs has the kinds start, shop and
  combat; its boss rooms are combat rooms), and \<^verbatim>\<open>loadRoom\<close> leaves the room with its
  tiles.  In a room that has its tiles, a tick in which no door transition fires runs to
  its end; if the enemy list is empty once \<^verbatim>\<open>updateEnemies\<close> has removed the dead, the
  same tick ends with the node cleared and \<^verbatim>\<open>doorsOpen\<close> true in all four directions.
\<close>

theorem C3_doors_closed_on_population_open_on_clear:
  "(assignRoomKind_m (getNode_m w i) = KCombat \<and> \<not> mn_cleared (getNode_m w i) \<longrightarrow>
      (\<forall>d. \<not> mr_doorsOpen (getRoom_m (fst (spawnRoomContents_m i rs w)) i) d)
      \<and> (\<forall>d. \<not> mr_doorsOpen (getRoom_m (fst (loadRoom_m i rs w)) i) d))
   \<and> mr_g (getRoom_m (fst (loadRoom_m i rs w)) i) \<noteq> None
   \<and> (mr_g (getRoom_m w' (mw_roomId w')) \<noteq> None \<longrightarrow>
      returns (fst (tick_tail_m dt nxp nyp rs' w')) (\<lambda>w3. True))
   \<and> (mn_kind (getNode_m w' (mw_roomId w')) = KCombat \<and> \<not> mn_cleared (getNode_m w' (mw_roomId w'))
       \<and> mr_g (getRoom_m w' (mw_roomId w')) \<noteq> None
       \<and> returns (fst (tick_move_m dt nxp nyp rs' w')) (\<lambda>w3. mw_enemies w3 = []) \<longrightarrow>
      returns (fst (tick_tail_m dt nxp nyp rs' w'))
        (\<lambda>w3. mw_roomId w3 = mw_roomId w'
             \<and> mn_cleared (getNode_m w3 (mw_roomId w'))
             \<and> (\<forall>d. mr_doorsOpen (getRoom_m w3 (mw_roomId w')) d)))"
  using spawnRoomContents_locks [of w i] loadRoom_locks [of w i] loadRoom_generates [of i rs w]
    tick_tail_returns [of w' dt nxp nyp rs'] tick_tail_clears [of w' dt nxp nyp rs']
  by blast

theorem C3_doors_witness:
  "assignRoomKind_m (getNode_m init_world_m (1, 0)) = KCombat
   \<and> \<not> mn_cleared (getNode_m init_world_m (1, 0))
   \<and> (\<forall>d. \<not> mr_doorsOpen (getRoom_m (fst (loadRoom_m (1, 0) (sconst 0) init_world_m)) (1, 0)) d)
   \<and> mr_g (getRoom_m (fst (loadRoom_m (1, 0) (sconst 0) init_world_m)) (1, 0)) \<noteq> None
   \<and> mn_kind (getNode_m combat_world_m (mw_roomId combat_world_m)) = KCombat
   \<and> \<not> mn_cleared (getNode_m combat_world_m (mw_roomId combat_world_m))
   \<and> mr_g (getRoom_m combat_world_m (mw_roomId combat_world_m)) \<noteq> None
   \<and> mw_enemies combat_world_m \<noteq> []
   \<and> returns (fst (tick_move_m (1 / 60) 420 260 (sconst 0) combat_world_m)) (\<lambda>w3. mw_enemies w3 = [])
   \<and> returns (fst (tick_tail_m (1 / 60) 420 260 (sconst 0) combat_world_m))
        (\<lambda>w3. mw_roomId w3 = mw_roomId combat_world_m
             \<and> mn_cleared (getNode_m w3 (mw_roomId combat_world_m))
             \<and> (\<forall>d. mr_doorsOpen (getRoom_m w3 (mw_roomId combat_world_m)) d))"
proof -
  have a: "assignRoomKind_m (getNode_m init_world_m (1, 0)) = KCombat \<and> \<not> mn_cleared (getNode_m init_world_m (1, 0))"
    by (simp add: init_world_m_def getNode_m_def newNode_m_def assignRoomKind_m_def isShopCoord_def js_rem_def)
  note f = combat_world_facts
  have b: "mn_kind (getNode_m combat_world_m (mw_roomId combat_world_m)) = KCombat"
      "\<not> mn_cleared (getNode_m combat_world_m (mw_roomId combat_world_m))"
      "mr_g (getRoom_m combat_world_m (mw_roomId combat_world_m)) \<noteq> None"
    using f by simp_all
  have c: "returns (fst (tick_move_m (1 / 60) 420 260 (sconst 0) combat_world_m)) (\<lambda>w3. mw_enemies w3 = [])"
    by (rule last_enemy_removed [OF f(5) _ _ b(3)]) (simp_all add: dead_chaser_m_def)
  show ?thesis
    using a b c f(5)
      C3_doors_closed_on_population_open_on_clear [of init_world_m "(1, 0)" "sconst 0" combat_world_m
        "1 / 60" 420 260 "sconst 0"]
    by simp
qed


section \<open>FREEDOM (part_001 lines 1-2318): player damage and the bullets loop\<close>

text \<open>
  Only the fields that \<^verbatim>\<open>damagePlayer\<close> and the bullets loop of \<^verbatim>\<open>update\<close> read or
  write are modelled; neither function mentions any other field of \<^verbatim>\<open>state\<close> or
  \<^verbatim>\<open>player\<close>.
\<close>

record fx_f =
  ff_kind :: string
  ff_x :: real
  ff_y :: real
  ff_a :: real
  ff_b :: real
  ff_c :: real
  ff_t :: real

record player_f =
  fp_x :: real
  fp_y :: real
  fp_vx :: real
  fp_vy :: real
  fp_r :: real
  fp_hp :: real
  fp_hpMax :: real
  fp_shield :: real
  fp_shieldMax :: real
  fp_shieldDelay :: real
  fp_invT :: real
  fp_rollIframes :: real

record cam_f =
  fc_x :: real
  fc_y :: real
  fc_shake :: real
  fc_shakeT :: real

record world_f =
  fw_mode :: string
  fw_score :: real
  fw_money :: real
  fw_keys :: int
  fw_msg :: string
  fw_msgT :: real
  fw_bossAlive :: bool
  fw_cam :: cam_f
  fw_fx :: "fx_f list"
  fw_player :: player_f

definition rand_f :: "real \<Rightarrow> real \<Rightarrow> real \<Rightarrow> real" where
  \<comment> \<open>\<^verbatim>\<open>rand(a, b)\<close>, on the value \<open>u\<close> drawn\<close>
  "rand_f a b u = a + u * (b - a)"

definition makeFX :: "string \<Rightarrow> real \<Rightarrow> real \<Rightarrow> real \<Rightarrow> real \<Rightarrow> real \<Rightarrow> fx_f" where
  "makeFX kind x y a b c = \<lparr> ff_kind = kind, ff_x = x, ff_y = y, ff_a = a, ff_b = b, ff_c = c, ff_t = 0 \<rparr>"

definition shake_f :: "real \<Rightarrow> real \<Rightarrow> world_f \<Rightarrow> world_f" where
  "shake_f amount time w =
    w\<lparr>fw_cam := (fw_cam w)\<lparr>fc_shake := max (fc_shake (fw_cam w)) amount,
                              fc_shakeT := max (fc_shakeT (fw_cam w)) time\<rparr>\<rparr>"

definition hitstop_f :: "real \<Rightarrow> world_f \<Rightarrow> world_f" where
  "hitstop_f t w = w\<lparr>fw_fx := fw_fx w @ [makeFX ''hitstop'' 0 0 t 0 0]\<rparr>"

definition spark_step_f :: "nat \<Rightarrow> world_f \<times> rng \<Rightarrow> world_f \<times> rng" where
  "spark_step_f i st =
    (let w = fst st; rs = snd st;
         a = rand_f (- 120) 120 (shd rs);
         b = rand_f (- 120) 120 (shd (stl rs))
     in (w\<lparr>fw_fx := fw_fx w @ [makeFX ''spark'' (fp_x (fw_player w)) (fp_y (fw_player w)) a b 0.22]\<rparr>,
         stl (stl rs)))"

definition openGameOver_f :: "world_f \<Rightarrow> world_f" where
  \<comment> \<open>the modal it shows is outside the simulation\<close>
  "openGameOver_f w = w\<lparr>fw_mode := ''gameover''\<rparr>"

definition damagePlayer_f :: "real \<Rightarrow> (real \<times> real) option \<Rightarrow> rng \<Rightarrow> world_f \<Rightarrow> world_f \<times> rng" where
  "damagePlayer_f dmg src rs w =
    (if fp_invT (fw_player w) > 0 then (w, rs)
     else
      (let p = fw_player w;
           sh = (if fp_shield p > 0
                 then (let take = min (fp_shield p) dmg
                       in (p\<lparr>fp_shield := fp_shield p - take, fp_shieldDelay := 1.8\<rparr>, dmg - take))
                 else (p, dmg));
           p1 = fst sh; remaining = snd sh
       in if remaining > 0 then
            (let p2 = p1\<lparr>fp_hp := fp_hp p1 - remaining, fp_invT := fp_rollIframes p1, fp_shieldDelay := 2.2\<rparr>;
                 p3 = (case src of
                         None \<Rightarrow> p2
                       | Some s \<Rightarrow>
                          (let n = norm_js (fp_x p2 - fst s) (fp_y p2 - snd s)
                           in p2\<lparr>fp_vx := fp_vx p2 + fst n * 120, fp_vy := fp_vy p2 + snd n * 120\<rparr>));
                 w1 = hitstop_f 0.05 (shake_f 5 0.12 (w\<lparr>fw_player := p3\<rparr>));
                 st = fold spark_step_f [0..<10] (w1, rs);
                 w2 = fst st
             in if fp_hp (fw_player w2) \<le> 0
                then (openGameOver_f (w2\<lparr>fw_player := (fw_player w2)\<lparr>fp_hp := 0\<rparr>, fw_mode := ''gameover''\<rparr>),
                      snd st)
                else (w2, snd st))
          else (w\<lparr>fw_player := p1\<rparr>, rs)))"

text \<open>The initial \<^verbatim>\<open>player\<close> and \<^verbatim>\<open>state\<close> of FREEDOM (lines 181-255), while playing.\<close>

definition init_world_f :: world_f where
  "init_world_f = \<lparr> fw_mode = ''play'', fw_score = 0, fw_money = 0, fw_keys = 0, fw_msg = [], fw_msgT = 0,
     fw_bossAlive = False, fw_cam = \<lparr> fc_x = 0, fc_y = 0, fc_shake = 0, fc_shakeT = 0 \<rparr>, fw_fx = [],
     fw_player = \<lparr> fp_x = 17 * 12 * 0.5, fp_y = 13 * 12 * 0.65, fp_vx = 0, fp_vy = 0, fp_r = 5.2,
       fp_hp = 100, fp_hpMax = 100, fp_shield = 35, fp_shieldMax = 35, fp_shieldDelay = 0,
       fp_invT = 0, fp_rollIframes = 0.12 \<rparr> \<rparr>"

text \<open>
  Claim C10.  While the invulnerability timer is positive, the player-damage routine of
  n.mjs (\<^verbatim>\<open>hurtPlayer\<close>) and that of FREEDOM (\<^verbatim>\<open>damagePlayer\<close>) return at once: the whole
  state is as it was, and no random value is drawn.
\<close>

theorem C10_invulnerable_player_state_unchanged:
  "(mp_invT (mw_player w) > 0 \<longrightarrow> hurtPlayer_m dmg w = w)
   \<and> (fp_invT (fw_player v) > 0 \<longrightarrow> damagePlayer_f dmg' src rs v = (v, rs))"
  by (simp add: hurtPlayer_m_def damagePlayer_f_def)

theorem C10_invulnerable_witness:
  "mp_invT (mw_player (init_world_m\<lparr>mw_player := init_player_m\<lparr>mp_invT := 0.5\<rparr>\<rparr>)) > 0
   \<and> hurtPlayer_m 1 (init_world_m\<lparr>mw_player := init_player_m\<lparr>mp_invT := 0.5\<rparr>\<rparr>)
       = init_world_m\<lparr>mw_player := init_player_m\<lparr>mp_invT := 0.5\<rparr>\<rparr>
   \<and> fp_invT (fw_player (init_world_f\<lparr>fw_player := (fw_player init_world_f)\<lparr>fp_invT := 0.1\<rparr>\<rparr>)) > 0
   \<and> damagePlayer_f 12 (Some (10, 10)) (sconst 0)
         (init_world_f\<lparr>fw_player := (fw_player init_world_f)\<lparr>fp_invT := 0.1\<rparr>\<rparr>)
       = (init_world_f\<lparr>fw_player := (fw_player init_world_f)\<lparr>fp_invT := 0.1\<rparr>\<rparr>, sconst 0)
   \<and> hurtPlayer_m 1 init_world_m \<noteq> init_world_m"
  using C10_invulnerable_player_state_unchanged
    [of "init_world_m\<lparr>mw_player := init_player_m\<lparr>mp_invT := 0.5\<rparr>\<rparr>" 1
        "init_world_f\<lparr>fw_player := (fw_player init_world_f)\<lparr>fp_invT := 0.1\<rparr>\<rparr>" 12 "Some (10, 10)" "sconst 0"]
  by (simp add: init_world_m_def init_player_m_def hurtPlayer_m_def shake_m_def)


subsection \<open>The bullets loop (part_001 lines 1824-1906)\<close>

record bullet_f =
  fb_owner :: string  \<comment> \<open>\<^verbatim>\<open>"p"\<close> for the player, \<^verbatim>\<open>"e"\<close> for an enemy\<close>
  fb_x :: real
  fb_y :: real
  fb_vx :: real
  fb_vy :: real
  fb_r :: real
  fb_dmg :: real
  fb_life :: real
  fb_t :: real
  fb_pierce :: int
  fb_bounce :: int
  fb_homing :: real
  fb_chain :: int
  fb_explode :: real
  fb_slow :: real
  fb_shock :: real

text \<open>The fields of an enemy that the loop reads.\<close>

record enemy_f =
  fe_x :: real
  fe_y :: real
  fe_r :: real
  fe_hp :: real
  fe_alive :: bool



definition len_f :: "real \<Rightarrow> real \<Rightarrow> real" where
  "len_f x y = sqrt (x * x + y * y)"

text \<open>
  The homing target: the living enemy nearest to the bullet, the first of them on a tie
  (\<^verbatim>\<open>if (d < bd)\<close> with \<^verbatim>\<open>bd\<close> starting at \<open>10\<^sup>1\<^sup>8\<close>).
\<close>

definition nearest_f :: "bullet_f \<Rightarrow> enemy_f list \<Rightarrow> enemy_f option" where
  "nearest_f b es =
    fst (fold (\<lambda>e st. if \<not> fe_alive e then st
                       else let d = dist2 (fb_x b) (fb_y b) (fe_x e) (fe_y e)
                            in if d < snd st then (Some e, d) else st)
           es (None, 10 ^ 18))"

definition homing_f :: "enemy_f list \<Rightarrow> bullet_f \<Rightarrow> bullet_f" where
  "homing_f es b =
    (if fb_owner b = ''p'' \<and> fb_homing b > 0 then
       (case nearest_f b es of
          None \<Rightarrow> b
        | Some best \<Rightarrow>
           (let a = norm_js (fe_x best - fb_x b) (fe_y best - fb_y b);
                b1 = b\<lparr>fb_vx := lerp (fb_vx b) (fst a * len_f (fb_vx b) (fb_vy b)) (fb_homing b * 0.06)\<rparr>
            in b1\<lparr>fb_vy := lerp (fb_vy b1) (snd a * len_f (fb_vx b1) (fb_vy b1)) (fb_homing b1 * 0.06)\<rparr>))
     else b)"











lemma homing_keeps [simp]:
  "fb_owner (homing_f es b) = fb_owner b" "fb_pierce (homing_f es b) = fb_pierce b"
  "fb_bounce (homing_f es b) = fb_bounce b" "fb_life (homing_f es b) = fb_life b"
  by (simp_all add: homing_f_def Let_def split: option.splits)











section \<open>The part_000 variant: the room cache\<close>

text \<open>
  The fields of \<^verbatim>\<open>state\<close> in \<^verbatim>\<open>src/unnamed/part_000\<close> (lines 93-110).  A room carries
  \<^verbatim>\<open>__cache\<close>, \<^verbatim>\<open>null\<close> until the room is first left.  The entities are flat objects of
  numbers and strings, so the copy \<^verbatim>\<open>shallowClone\<close> makes of one shares nothing with it:
  as values, the copy and the original are equal.
\<close>

record node_c =
  cn_id :: room_id
  cn_x :: int
  cn_y :: int
  cn_depth :: int
  cn_kind :: room_kind
  cn_seen :: bool
  cn_cleared :: bool
  cn_locked :: bool

record enemy_c =
  ce_type :: enemy_type
  ce_x :: real
  ce_y :: real
  ce_r :: real
  ce_hp :: real
  ce_vx :: real
  ce_vy :: real
  ce_t :: real
  ce_fireCD :: real

record pickup_c =
  ck_x :: real
  ck_y :: real
  ck_t :: string
  ck_v :: int
  ck_r :: real

record decal_c =
  cd_x :: real
  cd_y :: real
  cd_r :: real
  cd_t :: real
  cd_kind :: string

record fx_c =
  cf_x :: real
  cf_y :: real
  cf_vx :: real
  cf_vy :: real
  cf_t :: real
  cf_c :: int

record cache_c =
  cc_enemies :: "enemy_c list"
  cc_pickups :: "pickup_c list"
  cc_decals :: "decal_c list"

record room_c =
  cr_id :: room_id
  cr_g :: "int list"
  cr_doorsOpen :: "dir \<Rightarrow> bool"
  cr_neighbors :: "dir \<Rightarrow> bool"
  cr_cache :: "cache_c option"

record world_c =
  cw_running :: bool
  cw_paused :: bool
  cw_shopOpen :: bool
  cw_msg :: string
  cw_msgT :: real
  cw_keys :: int
  cw_coins :: int
  cw_roomId :: room_id
  cw_cam :: cam_m
  cw_map :: "room_id \<rightharpoonup> node_c"
  cw_rooms :: "room_id \<rightharpoonup> room_c"
  cw_enemies :: "enemy_c list"
  cw_bullets :: "bullet_m list"
  cw_pickups :: "pickup_c list"
  cw_fx :: "fx_c list"
  cw_decals :: "decal_c list"

definition TILE_c :: real where "TILE_c = 24"
definition ROOM_W_c :: real where "ROOM_W_c = real_of_int ROOM_TW * TILE_c"
definition ROOM_H_c :: real where "ROOM_H_c = real_of_int ROOM_TH * TILE_c"
definition MAX_DEPTH_c :: int where "MAX_DEPTH_c = 10"

definition newNode_c :: "room_id \<Rightarrow> node_c" where
  "newNode_c i = \<lparr> cn_id = i, cn_x = fst i, cn_y = snd i, cn_depth = \<bar>fst i\<bar> + \<bar>snd i\<bar>,
     cn_kind = KCombat, cn_seen = False, cn_cleared = False, cn_locked = False \<rparr>"

definition ensureNode_c :: "room_id \<Rightarrow> world_c \<Rightarrow> world_c" where
  "ensureNode_c i w =
    (case cw_map w i of None \<Rightarrow> w\<lparr>cw_map := (cw_map w)(i \<mapsto> newNode_c i)\<rparr> | Some n \<Rightarrow> w)"

definition getNode_c :: "world_c \<Rightarrow> room_id \<Rightarrow> node_c" where
  "getNode_c w i = (case cw_map w i of None \<Rightarrow> newNode_c i | Some n \<Rightarrow> n)"

definition setNode_c :: "room_id \<Rightarrow> (node_c \<Rightarrow> node_c) \<Rightarrow> world_c \<Rightarrow> world_c" where
  "setNode_c i f w = w\<lparr>cw_map := (cw_map w)(i \<mapsto> f (getNode_c w i))\<rparr>"

definition newRoom_c :: "room_id \<Rightarrow> room_c" where
  "newRoom_c i = \<lparr> cr_id = i, cr_g = [], cr_doorsOpen = (\<lambda>d. True), cr_neighbors = (\<lambda>d. False),
     cr_cache = None \<rparr>"

definition ensureRoom_c :: "room_id \<Rightarrow> world_c \<Rightarrow> world_c" where
  "ensureRoom_c i w =
    (case cw_rooms w i of None \<Rightarrow> w\<lparr>cw_rooms := (cw_rooms w)(i \<mapsto> newRoom_c i)\<rparr> | Some r \<Rightarrow> w)"

definition getRoom_c :: "world_c \<Rightarrow> room_id \<Rightarrow> room_c" where
  "getRoom_c w i = (case cw_rooms w i of None \<Rightarrow> newRoom_c i | Some r \<Rightarrow> r)"

definition setRoom_c :: "room_id \<Rightarrow> (room_c \<Rightarrow> room_c) \<Rightarrow> world_c \<Rightarrow> world_c" where
  "setRoom_c i f w = w\<lparr>cw_rooms := (cw_rooms w)(i \<mapsto> f (getRoom_c w i))\<rparr>"

text \<open>
  \<^verbatim>\<open>genRoomTiles\<close> (lines 191-247).  The centre loops
  \<^verbatim>\<open>for (y = (ROOM_TH / 2 - 1) | 0; y <= (ROOM_TH / 2 + 1) | 0; y++)\<close> parse as
  \<^verbatim>\<open>(y <= ROOM_TH / 2 + 1) | 0\<close> and so run while \<open>y \<le> ROOM_TH / 2 + 1\<close>.
\<close>

definition clear_center_c :: "int list \<Rightarrow> int list" where
  "clear_center_c g =
    (let y0 = js_int32 (real_of_int ROOM_TH / 2 - 1); y1 = \<lfloor>real_of_int ROOM_TH / 2 + 1\<rfloor>;
         x0 = js_int32 (real_of_int ROOM_TW / 2 - 1); x1 = \<lfloor>real_of_int ROOM_TW / 2 + 1\<rfloor>
     in fold (\<lambda>y g. fold (\<lambda>x g. grid_set g x y 1) [x0..x1] g) [y0..y1] g)"

definition genRoomTiles_c :: "room_id \<Rightarrow> rng \<Rightarrow> world_c \<Rightarrow> world_c \<times> rng" where
  "genRoomTiles_c i rs w =
    (let node = getNode_c w i;
         w1 = ensureRoom_c i w;
         room = getRoom_c w1 i;
         st1 = (if cn_kind node = KShop then (fill_grid, rs)
                else if cn_kind node = KCombat
                then fold (scatter_step 0.25 2) [0..<26] (fill_grid, rs)
                else (fill_grid, rs));
         density = (if cn_kind node = KCombat then 0.055 else 0.03);
         st2 = fold (\<lambda>y st. fold (pillar_step density y) [2..ROOM_TW - 3] st) [2..ROOM_TH - 3] st1;
         g = carve_doors (cr_neighbors room) (clear_center_c (fst st2))
     in (setRoom_c i (\<lambda>r. r\<lparr>cr_g := g\<rparr>) w1, snd st2))"

definition link_c :: "room_id \<Rightarrow> int \<Rightarrow> int \<Rightarrow> dir \<Rightarrow> dir \<Rightarrow> world_c \<Rightarrow> world_c" where
  "link_c i nx ny dirA dirB w =
    (if \<bar>nx\<bar> + \<bar>ny\<bar> > MAX_DEPTH_c then w
     else let w1 = setRoom_c i (\<lambda>r. r\<lparr>cr_neighbors := (cr_neighbors r)(dirA := True)\<rparr>) w;
              nid = roomKey nx ny;
              w2 = ensureRoom_c nid (ensureNode_c nid w1)
          in setRoom_c nid (\<lambda>r. r\<lparr>cr_neighbors := (cr_neighbors r)(dirB := True)\<rparr>) w2)"

definition buildNeighborsAround_c :: "room_id \<Rightarrow> rng \<Rightarrow> world_c \<Rightarrow> world_c \<times> rng" where
  "buildNeighborsAround_c i rs w =
    (let w0 = ensureRoom_c i (ensureNode_c i w);
         node = getNode_c w0 i;
         x = cn_x node; y = cn_y node;
         w1 = link_c i x (y - 1) DirN DirS w0;
         w2 = link_c i x (y + 1) DirS DirN w1;
         w3 = link_c i (x - 1) y DirW DirE w2;
         w4 = link_c i (x + 1) y DirE DirW w3
     in genRoomTiles_c i rs w4)"

definition lockDoors_c :: "bool \<Rightarrow> room_c \<Rightarrow> room_c" where
  "lockDoors_c locked room =
    room\<lparr>cr_doorsOpen := (((((cr_doorsOpen room)(DirN := \<not> locked))(DirS := \<not> locked))
        (DirW := \<not> locked))(DirE := \<not> locked))\<rparr>"

definition spawnEnemy_c :: "enemy_type \<Rightarrow> real \<Rightarrow> real \<Rightarrow> int \<Rightarrow> world_c \<Rightarrow> world_c" where
  "spawnEnemy_c ty x y depth w =
    (let hpBase = (if ty = Shooter then 6 else 5);
         e = \<lparr> ce_type = ty, ce_x = x, ce_y = y, ce_r = 10,
               ce_hp = hpBase + real_of_int (js_int32 (real_of_int depth / 3)),
               ce_vx = 0, ce_vy = 0, ce_t = 0, ce_fireCD = 0 \<rparr>
     in w\<lparr>cw_enemies := cw_enemies w @ [e]\<rparr>)"

definition spawn_step_c :: "int \<Rightarrow> nat \<Rightarrow> world_c \<times> rng \<Rightarrow> world_c \<times> rng" where
  "spawn_step_c depth i st =
    (let w = fst st; rs = snd st;
         px = 60 + shd rs * (ROOM_W_c - 120); rs1 = stl rs;
         py = 60 + shd rs1 * (ROOM_H_c - 120); rs2 = stl rs1;
         ty = (if chance 0.25 (shd rs2) then Shooter else Chaser); rs3 = stl rs2
     in (spawnEnemy_c ty px py depth w, rs3))"

definition room_kind_c :: "room_id \<Rightarrow> node_c \<Rightarrow> room_kind" where
  \<comment> \<open>lines 312-314; \<^verbatim>\<open>roomId === "0,0"\<close>\<close>
  "room_kind_c i node =
    (if i = (0, 0) then KStart else if isShopCoord (cn_x node) (cn_y node) then KShop else KCombat)"

definition spawnRoomContents_c :: "room_id \<Rightarrow> rng \<Rightarrow> world_c \<Rightarrow> world_c \<times> rng" where
  "spawnRoomContents_c i rs w =
    (let w0 = ensureRoom_c i (ensureNode_c i w);
         w1 = setNode_c i (\<lambda>n. n\<lparr>cn_kind := room_kind_c i n\<rparr>) w0;
         w2 = w1\<lparr>cw_enemies := [], cw_bullets := [], cw_pickups := [], cw_fx := [], cw_decals := []\<rparr>;
         node = getNode_c w2 i
     in if cn_kind node = KShop \<or> cn_kind node = KStart then
          (let w3 = setNode_c i (\<lambda>n. n\<lparr>cn_cleared := True\<rparr>) w2;
               w4 = setRoom_c i (lockDoors_c False) w3
           in (if cn_kind node = KStart
               then w4\<lparr>cw_pickups := cw_pickups w4 @
                      [\<lparr> ck_x = ROOM_W_c / 2 + 44, ck_y = ROOM_H_c / 2, ck_t = ''coin'', ck_v = 3, ck_r = 7 \<rparr>]\<rparr>
               else w4, rs))
        else if \<not> cn_cleared node then
          (let n = 4 + randi 4 (shd rs) + (if cn_depth node > 4 then 1 else 0);
               st = fold (spawn_step_c (cn_depth node)) [0..<nat n] (w2, stl rs)
           in (setRoom_c i (lockDoors_c True) (fst st), snd st))
        else (setRoom_c i (lockDoors_c False) w2, rs))"

definition shallowClone :: "'a \<Rightarrow> 'a" where
  "shallowClone ob = ob"

definition cloneArray :: "'a list \<Rightarrow> 'a list" where
  "cloneArray arr = map shallowClone arr"

definition stashRoom_c :: "room_id \<Rightarrow> world_c \<Rightarrow> world_c" where
  \<comment> \<open>lines 371-379; \<^verbatim>\<open>getRoom\<close> is \<^verbatim>\<open>state.rooms[id] || null\<close>\<close>
  "stashRoom_c i w =
    (case cw_rooms w i of
       None \<Rightarrow> w
     | Some r \<Rightarrow>
        w\<lparr>cw_rooms := (cw_rooms w)(i \<mapsto> r\<lparr>cr_cache := Some
            \<lparr> cc_enemies = cloneArray (cw_enemies w), cc_pickups = cloneArray (cw_pickups w),
              cc_decals = cloneArray (cw_decals w) \<rparr>\<rparr>)\<rparr>)"

definition loadRoom_c :: "room_id \<Rightarrow> rng \<Rightarrow> world_c \<Rightarrow> world_c \<times> rng" where
  "loadRoom_c i rs w =
    (let w0 = ensureNode_c i (ensureRoom_c i w);
         w1 = setNode_c i (\<lambda>n. n\<lparr>cn_kind := (if i = (0, 0) then KStart
                  else if isShopCoord (cn_x n) (cn_y n) then KShop else cn_kind n)\<rparr>) w0;
         st2 = buildNeighborsAround_c i rs w1;
         st3 = genRoomTiles_c i (snd st2) (fst st2);
         w4 = (fst st3)\<lparr>cw_enemies := [], cw_bullets := [], cw_pickups := [], cw_fx := [], cw_decals := []\<rparr>;
         st5 = (case cr_cache (getRoom_c w4 i) of
                  Some c \<Rightarrow> (w4\<lparr>cw_enemies := cloneArray (cc_enemies c),
                                 cw_pickups := cloneArray (cc_pickups c),
                                 cw_decals := cloneArray (cc_decals c)\<rparr>, snd st3)
                | None \<Rightarrow> spawnRoomContents_c i (snd st3) w4);
         node = getNode_c (fst st5) i;
         w6 = (if \<not> cn_cleared node \<and> cn_kind node = KCombat
               then setRoom_c i (lockDoors_c True) (fst st5)
               else setRoom_c i (lockDoors_c False) (fst st5));
         w7 = setNode_c i (\<lambda>n. n\<lparr>cn_seen := True\<rparr>) w6
     in (w7\<lparr>cw_shopOpen := False\<rparr>, snd st5))"

subsection \<open>What writes a room's cache\<close>

lemma getRoom_c_update [simp]:
  "getRoom_c (cw_running_update f1 w) = getRoom_c w"
  "getRoom_c (cw_paused_update f2 w) = getRoom_c w"
  "getRoom_c (cw_shopOpen_update f3 w) = getRoom_c w"
  "getRoom_c (cw_msg_update f4 w) = getRoom_c w"
  "getRoom_c (cw_msgT_update f5 w) = getRoom_c w"
  "getRoom_c (cw_keys_update f6 w) = getRoom_c w"
  "getRoom_c (cw_coins_update f7 w) = getRoom_c w"
  "getRoom_c (cw_roomId_update f8 w) = getRoom_c w"
  "getRoom_c (cw_cam_update f9 w) = getRoom_c w"
  "getRoom_c (cw_map_update f10 w) = getRoom_c w"
  "getRoom_c (cw_enemies_update f11 w) = getRoom_c w"
  "getRoom_c (cw_bullets_update f12 w) = getRoom_c w"
  "getRoom_c (cw_pickups_update f13 w) = getRoom_c w"
  "getRoom_c (cw_fx_update f14 w) = getRoom_c w"
  "getRoom_c (cw_decals_update f15 w) = getRoom_c w"
  by (simp_all add: getRoom_c_def fun_eq_iff)

lemma getNode_c_update [simp]:
  "getNode_c (cw_running_update f1 w) = getNode_c w"
  "getNode_c (cw_paused_update f2 w) = getNode_c w"
  "getNode_c (cw_shopOpen_update f3 w) = getNode_c w"
  "getNode_c (cw_msg_update f4 w) = getNode_c w"
  "getNode_c (cw_msgT_update f5 w) = getNode_c w"
  "getNode_c (cw_keys_update f6 w) = getNode_c w"
  "getNode_c (cw_coins_update f7 w) = getNode_c w"
  "getNode_c (cw_roomId_update f8 w) = getNode_c w"
  "getNode_c (cw_cam_update f9 w) = getNode_c w"
  "getNode_c (cw_rooms_update f10 w) = getNode_c w"
  "getNode_c (cw_enemies_update f11 w) = getNode_c w"
  "getNode_c (cw_bullets_update f12 w) = getNode_c w"
  "getNode_c (cw_pickups_update f13 w) = getNode_c w"
  "getNode_c (cw_fx_update f14 w) = getNode_c w"
  "getNode_c (cw_decals_update f15 w) = getNode_c w"
  by (simp_all add: getNode_c_def fun_eq_iff)


lemma getRoom_c_ensureRoom [simp]: "getRoom_c (ensureRoom_c i w) = getRoom_c w"
  by (simp add: getRoom_c_def ensureRoom_c_def fun_eq_iff split: option.splits)

lemma getRoom_c_ensureNode [simp]: "getRoom_c (ensureNode_c i w) = getRoom_c w"
  by (simp add: getRoom_c_def ensureNode_c_def fun_eq_iff split: option.splits)

lemma getNode_c_ensureNode [simp]: "getNode_c (ensureNode_c i w) = getNode_c w"
  by (simp add: getNode_c_def ensureNode_c_def fun_eq_iff split: option.splits)

lemma getNode_c_ensureRoom [simp]: "getNode_c (ensureRoom_c i w) = getNode_c w"
  by (simp add: getNode_c_def ensureRoom_c_def fun_eq_iff split: option.splits)

lemma getRoom_c_setRoom [simp]:
  "getRoom_c (setRoom_c i f w) j = (if j = i then f (getRoom_c w i) else getRoom_c w j)"
  by (simp add: setRoom_c_def getRoom_c_def)

lemma getRoom_c_setNode [simp]: "getRoom_c (setNode_c i f w) = getRoom_c w"
  by (simp add: setNode_c_def)

lemma cloneArray_id [simp]: "cloneArray xs = xs"
  by (induction xs) (simp_all add: cloneArray_def shallowClone_def)

text \<open>The cache of room \<open>i\<close>.\<close>

definition cache_of_c :: "world_c \<Rightarrow> room_id \<Rightarrow> cache_c option" where
  "cache_of_c w i = cr_cache (getRoom_c w i)"

lemma cache_setRoom:
  assumes "\<And>r. cr_cache (f r) = cr_cache r"
  shows "cache_of_c (setRoom_c j f w) i = cache_of_c w i"
  using assms by (simp add: cache_of_c_def)

lemma cache_simple [simp]:
  "cache_of_c (ensureRoom_c j w) i = cache_of_c w i"
  "cache_of_c (ensureNode_c j w) i = cache_of_c w i"
  "cache_of_c (setNode_c j g w) i = cache_of_c w i"
  by (simp_all add: cache_of_c_def)

lemma cache_link [simp]: "cache_of_c (link_c j nx ny a b w) i = cache_of_c w i"
  by (simp add: link_c_def Let_def cache_setRoom)

lemma cache_genRoomTiles [simp]: "cache_of_c (fst (genRoomTiles_c j rs w)) i = cache_of_c w i"
  by (simp add: genRoomTiles_c_def Let_def cache_setRoom)

lemma cache_buildNeighbors [simp]: "cache_of_c (fst (buildNeighborsAround_c j rs w)) i = cache_of_c w i"
  by (simp add: buildNeighborsAround_c_def Let_def)

lemma cache_lists [simp]:
  "cache_of_c (w\<lparr>cw_enemies := es\<rparr>) i = cache_of_c w i"
  "cache_of_c (w\<lparr>cw_bullets := bs\<rparr>) i = cache_of_c w i"
  "cache_of_c (w\<lparr>cw_pickups := ps\<rparr>) i = cache_of_c w i"
  "cache_of_c (w\<lparr>cw_fx := fs\<rparr>) i = cache_of_c w i"
  "cache_of_c (w\<lparr>cw_decals := ds\<rparr>) i = cache_of_c w i"
  "cache_of_c (w\<lparr>cw_shopOpen := b\<rparr>) i = cache_of_c w i"
  by (simp_all add: cache_of_c_def)

lemma cache_spawn_fold [simp]: "cache_of_c (fst (fold (spawn_step_c d) xs st)) i = cache_of_c (fst st) i"
  by (rule fold_inv [where g = "\<lambda>st. cache_of_c (fst st) i"])
     (simp add: spawn_step_c_def spawnEnemy_c_def Let_def)

lemma cache_lockDoors [simp]: "cr_cache (lockDoors_c b r) = cr_cache r"
  by (simp add: lockDoors_c_def)

lemma cache_spawnRoomContents [simp]: "cache_of_c (fst (spawnRoomContents_c j rs w)) i = cache_of_c w i"
  by (simp add: spawnRoomContents_c_def Let_def cache_setRoom)

lemma cache_loadRoom [simp]: "cache_of_c (fst (loadRoom_c j rs w)) i = cache_of_c w i"
  by (simp add: loadRoom_c_def Let_def cache_setRoom split: option.splits)

lemma cache_stash_other: "j \<noteq> i \<Longrightarrow> cache_of_c (stashRoom_c j w) i = cache_of_c w i"
  by (simp add: stashRoom_c_def cache_of_c_def getRoom_c_def split: option.splits)

lemma cache_stash_self:
  "cw_rooms w i \<noteq> None \<Longrightarrow>
   cache_of_c (stashRoom_c i w) i = Some \<lparr> cc_enemies = cw_enemies w, cc_pickups = cw_pickups w, cc_decals = cw_decals w \<rparr>"
  by (auto simp: stashRoom_c_def cache_of_c_def getRoom_c_def)

lemma loadRoom_restores:
  assumes "cache_of_c w i = Some c"
  shows "cw_enemies (fst (loadRoom_c i rs w)) = cc_enemies c
       \<and> cw_pickups (fst (loadRoom_c i rs w)) = cc_pickups c
       \<and> cw_decals (fst (loadRoom_c i rs w)) = cc_decals c"
proof -
  define st3 where "st3 = genRoomTiles_c i (snd (buildNeighborsAround_c i rs
      (setNode_c i (\<lambda>n. n\<lparr>cn_kind := (if i = (0, 0) then KStart
                  else if isShopCoord (cn_x n) (cn_y n) then KShop else cn_kind n)\<rparr>) (ensureNode_c i (ensureRoom_c i w)))))
     (fst (buildNeighborsAround_c i rs
      (setNode_c i (\<lambda>n. n\<lparr>cn_kind := (if i = (0, 0) then KStart
                  else if isShopCoord (cn_x n) (cn_y n) then KShop else cn_kind n)\<rparr>) (ensureNode_c i (ensureRoom_c i w)))))"
  have "cache_of_c (fst st3) i = Some c" unfolding st3_def using assms by simp
  then have c: "cr_cache (getRoom_c ((fst st3)\<lparr>cw_enemies := [], cw_bullets := [], cw_pickups := [], cw_fx := [], cw_decals := []\<rparr>) i) = Some c"
    by (simp add: cache_of_c_def)
  show ?thesis
    unfolding loadRoom_c_def Let_def st3_def [symmetric] c
    by (simp add: setRoom_c_def setNode_c_def)
qed

subsection \<open>Leaving a room and coming back\<close>

text \<open>
  What can happen between leaving room \<open>i\<close> and coming back to it, while some other room is
  the active one: that room is simulated (the live lists change), it is cleared (its node and
  its doors change), it is left (\<^verbatim>\<open>stashRoom\<close>), another room is entered (\<^verbatim>\<open>loadRoom\<close>).
\<close>

datatype away_c =
    Simulated "enemy_c list" "bullet_m list" "pickup_c list" "fx_c list" "decal_c list"
  | RoomCleared room_id
  | RoomLeft room_id
  | RoomEntered room_id

fun away_step_c :: "away_c \<Rightarrow> world_c \<times> rng \<Rightarrow> world_c \<times> rng" where
  "away_step_c (Simulated es bs ps fs ds) (w, rs) =
     (w\<lparr>cw_enemies := es, cw_bullets := bs, cw_pickups := ps, cw_fx := fs, cw_decals := ds\<rparr>, rs)"
| "away_step_c (RoomCleared j) (w, rs) =
     (setRoom_c j (lockDoors_c False) (setNode_c j (\<lambda>n. n\<lparr>cn_cleared := True\<rparr>) w), rs)"
| "away_step_c (RoomLeft j) (w, rs) = (stashRoom_c j w, rs)"
| "away_step_c (RoomEntered j) (w, rs) = loadRoom_c j rs (w\<lparr>cw_roomId := j\<rparr>)"

fun away_room_c :: "away_c \<Rightarrow> room_id set" where
  "away_room_c (Simulated es bs ps fs ds) = {}"
| "away_room_c (RoomCleared j) = {j}"
| "away_room_c (RoomLeft j) = {j}"
| "away_room_c (RoomEntered j) = {j}"

definition away_c :: "away_c list \<Rightarrow> world_c \<times> rng \<Rightarrow> world_c \<times> rng" where
  "away_c ops st = fold away_step_c ops st"

text \<open>The \<^verbatim>\<open>state\<close> literal (lines 93-110), and a world in which the start room holds a chaser,
  a coin and a splat when the player walks north, fights there and walks back.\<close>

definition init_world_c :: world_c where
  "init_world_c = \<lparr> cw_running = False, cw_paused = False, cw_shopOpen = False, cw_msg = [],
     cw_msgT = 0, cw_keys = 0, cw_coins = 0, cw_roomId = (0, 0),
     cw_cam = \<lparr> mc_x = 0, mc_y = 0, mc_shake = 0, mc_shakeT = 0 \<rparr>,
     cw_map = Map.empty, cw_rooms = Map.empty, cw_enemies = [], cw_bullets = [], cw_pickups = [],
     cw_fx = [], cw_decals = [] \<rparr>"

definition room_left_c :: world_c where
  "room_left_c = (ensureRoom_c (0, 0) (ensureNode_c (0, 0) init_world_c))
     \<lparr> cw_running := True,
       cw_enemies := [\<lparr> ce_type = Chaser, ce_x = 100, ce_y = 80, ce_r = 10, ce_hp = 3, ce_vx = 0,
                        ce_vy = 0, ce_t = 0, ce_fireCD = 0 \<rparr>],
       cw_pickups := [\<lparr> ck_x = 252, ck_y = 156, ck_t = ''coin'', ck_v = 3, ck_r = 7 \<rparr>],
       cw_decals := [\<lparr> cd_x = 60, cd_y = 60, cd_r = 20, cd_t = 999, cd_kind = ''spl'' \<rparr>] \<rparr>"

definition trip_c :: "away_c list" where
  "trip_c = [RoomEntered (0, -1), Simulated [] [] [] [] [], RoomCleared (0, -1), RoomLeft (0, -1)]"

lemma cache_roomId [simp]: "cache_of_c (w\<lparr>cw_roomId := j\<rparr>) i = cache_of_c w i"
  by (simp add: cache_of_c_def)

lemma cache_away_step:
  "i \<notin> away_room_c ev \<Longrightarrow> cache_of_c (fst (away_step_c ev st)) i = cache_of_c (fst st) i"
  by (cases ev; cases st) (simp_all add: cache_setRoom cache_stash_other)

lemma cache_away:
  "\<forall>ev \<in> set ops. i \<notin> away_room_c ev \<Longrightarrow> cache_of_c (fst (away_c ops st)) i = cache_of_c (fst st) i"
  unfolding away_c_def
  by (induction ops arbitrary: st) (simp_all add: cache_away_step)

text \<open>
  Claim C4.  Room \<open>i\<close> exists and is left with live enemies, pickups and decals
  (\<^verbatim>\<open>stashRoom\<close>).  While the player is away, other rooms are entered, simulated, cleared and
  left in any order, any number of times, with any random draws; no such event concerns
  room \<open>i\<close> itself.  When room \<open>i\<close> is entered again (\<^verbatim>\<open>loadRoom\<close>), the live enemies,
  pickups and decals are the ones it was left with.
\<close>

theorem C4_cache_round_trip:
  assumes "cw_rooms w i \<noteq> None"
      and "\<forall>ev \<in> set ops. i \<notin> away_room_c ev"
  shows "cw_enemies (fst (loadRoom_c i (snd (away_c ops (stashRoom_c i w, rs)))
                                       (fst (away_c ops (stashRoom_c i w, rs))))) = cw_enemies w
       \<and> cw_pickups (fst (loadRoom_c i (snd (away_c ops (stashRoom_c i w, rs)))
                                       (fst (away_c ops (stashRoom_c i w, rs))))) = cw_pickups w
       \<and> cw_decals (fst (loadRoom_c i (snd (away_c ops (stashRoom_c i w, rs)))
                                       (fst (away_c ops (stashRoom_c i w, rs))))) = cw_decals w"
proof -
  let ?c = "\<lparr> cc_enemies = cw_enemies w, cc_pickups = cw_pickups w, cc_decals = cw_decals w \<rparr>"
  have "cache_of_c (fst (away_c ops (stashRoom_c i w, rs))) i = Some ?c"
    using cache_away [OF assms(2)] cache_stash_self [OF assms(1)] by simp
  from loadRoom_restores [OF this] show ?thesis by simp
qed

theorem C4_cache_witness:
  "cw_rooms room_left_c (0, 0) \<noteq> None
   \<and> (0, 0) \<notin> \<Union> (away_room_c ` set trip_c)
   \<and> cw_enemies room_left_c \<noteq> []
   \<and> cw_enemies (fst (loadRoom_c (0, 0) (snd (away_c trip_c (stashRoom_c (0, 0) room_left_c, sconst 0)))
                                       (fst (away_c trip_c (stashRoom_c (0, 0) room_left_c, sconst 0))))) = cw_enemies room_left_c
   \<and> cw_pickups (fst (loadRoom_c (0, 0) (snd (away_c trip_c (stashRoom_c (0, 0) room_left_c, sconst 0)))
                                       (fst (away_c trip_c (stashRoom_c (0, 0) room_left_c, sconst 0))))) = cw_pickups room_left_c
   \<and> cw_decals (fst (loadRoom_c (0, 0) (snd (away_c trip_c (stashRoom_c (0, 0) room_left_c, sconst 0)))
                                       (fst (away_c trip_c (stashRoom_c (0, 0) room_left_c, sconst 0))))) = cw_decals room_left_c"
proof -
  have a: "cw_rooms room_left_c (0, 0) \<noteq> None"
    by (simp add: room_left_c_def init_world_c_def ensureRoom_c_def ensureNode_c_def)
  have b: "\<forall>ev \<in> set trip_c. (0, 0) \<notin> away_room_c ev"
    by (simp add: trip_c_def)
  have c: "cw_enemies room_left_c \<noteq> []"
    by (simp add: room_left_c_def)
  show ?thesis
    using a b c C4_cache_round_trip [of room_left_c "(0, 0)" trip_c "sconst 0"]
    by simp
qed

section \<open>The n.js variant: keys and locked treasure rooms\<close>

text \<open>
  \<^verbatim>\<open>src/n.js\<close> keeps the player in a global of its own; here it is a field of the world.
  A node has no depth field; its kind is one of \<^verbatim>\<open>"start"\<close>, \<^verbatim>\<open>"combat"\<close>, \<^verbatim>\<open>"treasure"\<close>,
  \<^verbatim>\<open>"boss"\<close>.
\<close>

record node_j =
  jn_id :: room_id
  jn_x :: int
  jn_y :: int
  jn_kind :: room_kind
  jn_seen :: bool
  jn_cleared :: bool
  jn_locked :: bool

record enemy_j =
  je_type :: enemy_type
  je_x :: real
  je_y :: real
  je_r :: real
  je_hp :: real
  je_vx :: real
  je_vy :: real
  je_t :: real
  je_fireCD :: real

record pickup_j =
  jk_x :: real
  jk_y :: real
  jk_t :: string
  jk_v :: int
  jk_r :: real

record decal_j =
  jd_x :: real
  jd_y :: real
  jd_r :: real
  jd_t :: real

record fx_j =
  jf_x :: real
  jf_y :: real
  jf_vx :: real
  jf_vy :: real
  jf_t :: real

record bullet_j =
  jb_x :: real
  jb_y :: real
  jb_vx :: real
  jb_vy :: real
  jb_r :: real
  jb_t :: real
  jb_dmg :: real
  jb_kind :: string
  jb_from :: owner

record cache_j =
  jc_enemies :: "enemy_j list"
  jc_pickups :: "pickup_j list"
  jc_decals :: "decal_j list"

record room_j =
  jr_id :: room_id
  jr_g :: "int list"
  jr_doorsOpen :: "dir \<Rightarrow> bool"
  jr_neighbors :: "dir \<Rightarrow> bool"
  jr_cache :: "cache_j option"

record player_j =
  jp_x :: real
  jp_y :: real
  jp_r :: real
  jp_hp :: real
  jp_hpMax :: real
  jp_invT :: real
  jp_dashT :: real
  jp_dashCD :: real
  jp_vx :: real
  jp_vy :: real
  jp_speed :: real
  jp_weapon :: int
  jp_fireCD :: real

record world_j =
  js_running :: bool
  js_paused :: bool
  js_msg :: string
  js_msgT :: real
  js_keys :: int
  js_roomId :: room_id
  js_cam :: cam_m
  js_map :: "room_id \<rightharpoonup> node_j"
  js_rooms :: "room_id \<rightharpoonup> room_j"
  js_enemies :: "enemy_j list"
  js_bullets :: "bullet_j list"
  js_pickups :: "pickup_j list"
  js_fx :: "fx_j list"
  js_decals :: "decal_j list"
  js_player :: player_j

definition TILE_j :: real where "TILE_j = 24"
definition ROOM_W_j :: real where "ROOM_W_j = real_of_int ROOM_TW * TILE_j"
definition ROOM_H_j :: real where "ROOM_H_j = real_of_int ROOM_TH * TILE_j"
definition VIEW_W_j :: real where "VIEW_W_j = 960"
definition VIEW_H_j :: real where "VIEW_H_j = 540"

definition newNode_j :: "room_id \<Rightarrow> node_j" where
  "newNode_j i = \<lparr> jn_id = i, jn_x = fst i, jn_y = snd i, jn_kind = KCombat, jn_seen = False,
     jn_cleared = False, jn_locked = False \<rparr>"

definition ensureNode_j :: "room_id \<Rightarrow> world_j \<Rightarrow> world_j" where
  "ensureNode_j i w =
    (case js_map w i of None \<Rightarrow> w\<lparr>js_map := (js_map w)(i \<mapsto> newNode_j i)\<rparr> | Some n \<Rightarrow> w)"

definition getNode_j :: "world_j \<Rightarrow> room_id \<Rightarrow> node_j" where
  "getNode_j w i = (case js_map w i of None \<Rightarrow> newNode_j i | Some n \<Rightarrow> n)"

definition setNode_j :: "room_id \<Rightarrow> (node_j \<Rightarrow> node_j) \<Rightarrow> world_j \<Rightarrow> world_j" where
  "setNode_j i f w = w\<lparr>js_map := (js_map w)(i \<mapsto> f (getNode_j w i))\<rparr>"

definition newRoom_j :: "room_id \<Rightarrow> room_j" where
  "newRoom_j i = \<lparr> jr_id = i, jr_g = [], jr_doorsOpen = (\<lambda>d. True), jr_neighbors = (\<lambda>d. False),
     jr_cache = None \<rparr>"

definition ensureRoom_j :: "room_id \<Rightarrow> world_j \<Rightarrow> world_j" where
  "ensureRoom_j i w =
    (case js_rooms w i of None \<Rightarrow> w\<lparr>js_rooms := (js_rooms w)(i \<mapsto> newRoom_j i)\<rparr> | Some r \<Rightarrow> w)"

definition getRoom_j :: "world_j \<Rightarrow> room_id \<Rightarrow> room_j" where
  "getRoom_j w i = (case js_rooms w i of None \<Rightarrow> newRoom_j i | Some r \<Rightarrow> r)"

definition setRoom_j :: "room_id \<Rightarrow> (room_j \<Rightarrow> room_j) \<Rightarrow> world_j \<Rightarrow> world_j" where
  "setRoom_j i f w = w\<lparr>js_rooms := (js_rooms w)(i \<mapsto> f (getRoom_j w i))\<rparr>"

text \<open>\<^verbatim>\<open>genRoomTiles(kind, node)\<close> (lines 157-222): 30 pit rounds in a combat room, then pillars,
  the cleared centre and the doors.\<close>

definition genRoomTiles_j :: "room_kind \<Rightarrow> room_id \<Rightarrow> rng \<Rightarrow> world_j \<Rightarrow> world_j \<times> rng" where
  "genRoomTiles_j kind i rs w =
    (let w1 = ensureRoom_j i w;
         room = getRoom_j w1 i;
         st1 = (if kind = KCombat then fold (scatter_step 0.25 2) [0..<30] (fill_grid, rs)
                else (fill_grid, rs));
         density = (if kind = KCombat then 0.06 else 0.03);
         st2 = fold (\<lambda>y st. fold (pillar_step density y) [2..ROOM_TW - 3] st) [2..ROOM_TH - 3] st1;
         g = carve_doors (jr_neighbors room) (clear_center_c (fst st2))
     in (setRoom_j i (\<lambda>r. r\<lparr>jr_g := g\<rparr>) w1, snd st2))"

definition lockDoors_j :: "bool \<Rightarrow> room_j \<Rightarrow> room_j" where
  "lockDoors_j locked room =
    room\<lparr>jr_doorsOpen := (((((jr_doorsOpen room)(DirN := \<not> locked))(DirS := \<not> locked))
        (DirW := \<not> locked))(DirE := \<not> locked))\<rparr>"

definition spawnEnemy_j :: "enemy_type \<Rightarrow> real \<Rightarrow> real \<Rightarrow> world_j \<Rightarrow> world_j" where
  "spawnEnemy_j ty x y w =
    (let e = \<lparr> je_type = ty, je_x = x, je_y = y, je_r = (if ty = BossT then 18 else 10),
               je_hp = (if ty = BossT then 30 else if ty = Shooter then 6 else 5),
               je_vx = 0, je_vy = 0, je_t = 0, je_fireCD = 0 \<rparr>
     in w\<lparr>js_enemies := js_enemies w @ [e]\<rparr>)"

definition spawn_step_j :: "nat \<Rightarrow> world_j \<times> rng \<Rightarrow> world_j \<times> rng" where
  "spawn_step_j i st =
    (let w = fst st; rs = snd st;
         px = 60 + shd rs * (ROOM_W_j - 120); rs1 = stl rs;
         py = 60 + shd rs1 * (ROOM_H_j - 120); rs2 = stl rs1;
         ty = (if chance 0.25 (shd rs2) then Shooter else Chaser); rs3 = stl rs2
     in (spawnEnemy_j ty px py w, rs3))"

text \<open>
  The kind of a room is decided when its contents are first spawned (lines 264-272):
  \<^verbatim>\<open>d >= 4 && chance(0.10)\<close> draws only when \<open>d \<ge> 4\<close>, and \<^verbatim>\<open>d >= 6 && chance(0.06)\<close> only
  when the first test failed and \<open>d \<ge> 6\<close>.
\<close>

definition decide_kind_j :: "room_id \<Rightarrow> node_j \<Rightarrow> rng \<Rightarrow> room_kind \<times> rng" where
  "decide_kind_j i node rs =
    (if i = (0, 0) then (KStart, rs)
     else let d = \<bar>jn_x node\<bar> + \<bar>jn_y node\<bar> in
       if jn_kind node = KCombat then
         (if d \<ge> 4 then
            (if chance 0.10 (shd rs) then (KTreasure, stl rs)
             else if d \<ge> 6 then
               (if chance 0.06 (shd (stl rs)) then (KBoss, stl (stl rs)) else (KCombat, stl (stl rs)))
             else (KCombat, stl rs))
          else (KCombat, rs))
       else (jn_kind node, rs))"

definition spawnRoomContents_j :: "room_id \<Rightarrow> rng \<Rightarrow> world_j \<Rightarrow> world_j \<times> rng" where
  "spawnRoomContents_j i rs w =
    (let w0 = ensureRoom_j i (ensureNode_j i w);
         dk = decide_kind_j i (getNode_j w0 i) rs;
         w1 = setNode_j i (\<lambda>n. n\<lparr>jn_kind := fst dk\<rparr>) w0;
         rs1 = snd dk;
         lock = (jn_kind (getNode_j w1 i) = KTreasure \<and> \<not> jn_cleared (getNode_j w1 i));
         w2 = (if lock then setNode_j i (\<lambda>n. n\<lparr>jn_locked := chance 0.45 (shd rs1)\<rparr>) w1 else w1);
         rs2 = (if lock then stl rs1 else rs1);
         w3 = w2\<lparr>js_enemies := [], js_bullets := [], js_pickups := [], js_fx := [], js_decals := []\<rparr>;
         node = getNode_j w3 i
     in if jn_kind node = KStart then
          (setNode_j i (\<lambda>n. n\<lparr>jn_cleared := True\<rparr>)
             (w3\<lparr>js_pickups := js_pickups w3 @
                [\<lparr> jk_x = ROOM_W_j / 2 + 40, jk_y = ROOM_H_j / 2, jk_t = ''heart'', jk_v = 1, jk_r = 7 \<rparr>]\<rparr>), rs2)
        else if jn_kind node = KTreasure then
          (setNode_j i (\<lambda>n. n\<lparr>jn_cleared := True\<rparr>)
             (w3\<lparr>js_pickups := js_pickups w3 @
                [\<lparr> jk_x = ROOM_W_j / 2, jk_y = ROOM_H_j / 2, jk_t = ''key'', jk_v = 1, jk_r = 7 \<rparr>,
                 \<lparr> jk_x = ROOM_W_j / 2 + 28, jk_y = ROOM_H_j / 2, jk_t = ''heart'', jk_v = 2, jk_r = 7 \<rparr>]\<rparr>), rs2)
        else if jn_kind node = KBoss then
          (if \<not> jn_cleared node
           then (setRoom_j i (lockDoors_j True) (spawnEnemy_j BossT (ROOM_W_j / 2) (ROOM_H_j / 2 - 50) w3), rs2)
           else (w3, rs2))
        else
          (if \<not> jn_cleared node
           then (let n = 4 + randi 4 (shd rs2);
                     st = fold spawn_step_j [0..<nat n] (w3, stl rs2)
                 in (setRoom_j i (lockDoors_j True) (fst st), snd st))
           else (w3, rs2)))"

text \<open>\<^verbatim>\<open>maybeMake\<close> (lines 343-354): \<^verbatim>\<open>chance(p) || id === "0,0"\<close> draws first.\<close>

definition maybeMake_j :: "room_id \<Rightarrow> int \<Rightarrow> int \<Rightarrow> dir \<Rightarrow> dir \<Rightarrow> real \<Rightarrow> world_j \<times> rng \<Rightarrow> world_j \<times> rng" where
  "maybeMake_j i nx ny dirA dirB p st =
    (let w = fst st; rs = snd st in
     if \<bar>nx\<bar> + \<bar>ny\<bar> > 8 then (w, rs)
     else if jr_neighbors (getRoom_j w i) dirA then (w, rs)
     else if chance p (shd rs) \<or> i = (0, 0) then
       (let w1 = setRoom_j i (\<lambda>r. r\<lparr>jr_neighbors := (jr_neighbors r)(dirA := True)\<rparr>) w;
            nid = roomKey nx ny;
            w2 = ensureRoom_j nid (ensureNode_j nid w1)
        in (setRoom_j nid (\<lambda>r. r\<lparr>jr_neighbors := (jr_neighbors r)(dirB := True)\<rparr>) w2, stl rs))
     else (w, stl rs))"

definition buildNeighborsAround_j :: "room_id \<Rightarrow> rng \<Rightarrow> world_j \<Rightarrow> world_j \<times> rng" where
  "buildNeighborsAround_j i rs w =
    (let w0 = ensureRoom_j i (ensureNode_j i w);
         node = getNode_j w0 i;
         x = jn_x node; y = jn_y node;
         baseP = (if i = (0, 0) then 0.9 else 0.55);
         st1 = maybeMake_j i x (y - 1) DirN DirS baseP (w0, rs);
         st2 = maybeMake_j i x (y + 1) DirS DirN baseP st1;
         st3 = maybeMake_j i (x - 1) y DirW DirE baseP st2;
         st4 = maybeMake_j i (x + 1) y DirE DirW baseP st3
     in genRoomTiles_j (jn_kind node) i (snd st4) (fst st4))"

definition stashRoom_j :: "room_id \<Rightarrow> world_j \<Rightarrow> world_j" where
  "stashRoom_j i w =
    (case js_rooms w i of
       None \<Rightarrow> w
     | Some r \<Rightarrow>
        w\<lparr>js_rooms := (js_rooms w)(i \<mapsto> r\<lparr>jr_cache := Some
            \<lparr> jc_enemies = cloneArray (js_enemies w), jc_pickups = cloneArray (js_pickups w),
              jc_decals = cloneArray (js_decals w) \<rparr>\<rparr>)\<rparr>)"

definition loadRoom_j :: "room_id \<Rightarrow> rng \<Rightarrow> world_j \<Rightarrow> world_j \<times> rng" where
  "loadRoom_j i rs w =
    (let w0 = ensureNode_j i (ensureRoom_j i w);
         st1 = buildNeighborsAround_j i rs w0;
         st2 = genRoomTiles_j (jn_kind (getNode_j (fst st1) i)) i (snd st1) (fst st1);
         w3 = (fst st2)\<lparr>js_enemies := [], js_bullets := [], js_pickups := [], js_fx := [], js_decals := []\<rparr>;
         st4 = (case jr_cache (getRoom_j w3 i) of
                  Some c \<Rightarrow> (w3\<lparr>js_enemies := cloneArray (jc_enemies c),
                                 js_pickups := cloneArray (jc_pickups c),
                                 js_decals := cloneArray (jc_decals c)\<rparr>, snd st2)
                | None \<Rightarrow> spawnRoomContents_j i (snd st2) w3);
         node = getNode_j (fst st4) i;
         w5 = (if \<not> jn_cleared node \<and> (jn_kind node = KCombat \<or> jn_kind node = KBoss)
               then setRoom_j i (lockDoors_j True) (fst st4)
               else setRoom_j i (lockDoors_j False) (fst st4))
     in (setNode_j i (\<lambda>n. n\<lparr>jn_seen := True\<rparr>) w5, snd st4))"

subsection \<open>The door transition (n.js lines 430-512)\<close>

definition canGo_j :: "room_j \<Rightarrow> dir \<Rightarrow> bool" where
  "canGo_j room d = (if \<not> jr_neighbors room d then False else if \<not> jr_doorsOpen room d then False else True)"

definition bounceInside_j :: "dir \<Rightarrow> world_j \<Rightarrow> world_j" where
  "bounceInside_j d w =
    (case d of
       DirN \<Rightarrow> w\<lparr>js_player := (js_player w)\<lparr>jp_y := 2\<rparr>\<rparr>
     | DirS \<Rightarrow> w\<lparr>js_player := (js_player w)\<lparr>jp_y := ROOM_H_j - 2\<rparr>\<rparr>
     | DirW \<Rightarrow> w\<lparr>js_player := (js_player w)\<lparr>jp_x := 2\<rparr>\<rparr>
     | DirE \<Rightarrow> w\<lparr>js_player := (js_player w)\<lparr>jp_x := ROOM_W_j - 2\<rparr>\<rparr>)"

definition place_player_j :: "dir \<Rightarrow> player_j \<Rightarrow> player_j" where
  "place_player_j d p =
    (case d of
       DirN \<Rightarrow> p\<lparr>jp_y := ROOM_H_j - 14, jp_x := clamp (jp_x p) 14 (ROOM_W_j - 14)\<rparr>
     | DirS \<Rightarrow> p\<lparr>jp_y := 14, jp_x := clamp (jp_x p) 14 (ROOM_W_j - 14)\<rparr>
     | DirW \<Rightarrow> p\<lparr>jp_x := ROOM_W_j - 14, jp_y := clamp (jp_y p) 14 (ROOM_H_j - 14)\<rparr>
     | DirE \<Rightarrow> p\<lparr>jp_x := 14, jp_y := clamp (jp_y p) 14 (ROOM_H_j - 14)\<rparr>)"

definition snap_camera_j :: "world_j \<Rightarrow> world_j" where
  "snap_camera_j w =
    w\<lparr>js_cam := \<lparr> mc_x = clamp (jp_x (js_player w) - VIEW_W_j / 2) 0 (ROOM_W_j - VIEW_W_j),
                   mc_y = clamp (jp_y (js_player w) - VIEW_H_j / 2) 0 (ROOM_H_j - VIEW_H_j),
                   mc_shake = 0, mc_shakeT = 0 \<rparr>\<rparr>"

text \<open>
  The key gate of \<^verbatim>\<open>go\<close> (lines 474-487): \<open>None\<close> when the player is turned back, else the
  world in which the transition goes on.
\<close>

definition key_gate_j :: "room_id \<Rightarrow> world_j \<Rightarrow> world_j option" where
  "key_gate_j nid w =
    (let nextNode = getNode_j w nid in
     if jn_kind nextNode = KTreasure \<and> jn_locked nextNode \<and> \<not> jn_cleared nextNode then
       (if js_keys w \<le> 0 then None
        else Some ((setNode_j nid (\<lambda>n. n\<lparr>jn_locked := False\<rparr>) w)
                     \<lparr>js_keys := js_keys w - 1, js_msg := ''LOCK UNSEALED'', js_msgT := 1.0\<rparr>))
     else Some w)"

definition go_j :: "node_j \<Rightarrow> int \<Rightarrow> int \<Rightarrow> dir \<Rightarrow> rng \<Rightarrow> world_j \<Rightarrow> world_j \<times> rng" where
  "go_j node dx dy d rs w =
    (let nid = roomKey (jn_x node + dx) (jn_y node + dy);
         w1 = ensureRoom_j nid (ensureNode_j nid w)
     in if \<not> canGo_j (getRoom_j w1 (js_roomId w1)) d then (bounceInside_j d w1, rs)
        else case key_gate_j nid w1 of
               None \<Rightarrow>
                 (bounceInside_j d
                    (w1\<lparr>js_msg := ''TREASURE LOCKED '' @ EM_DASH @ '' NEED KEY'', js_msgT := 1.2\<rparr>), rs)
             | Some w2 \<Rightarrow>
                 (let w3 = stashRoom_j (js_roomId w2) w2;
                      st4 = loadRoom_j nid rs (w3\<lparr>js_roomId := nid\<rparr>);
                      w5 = (fst st4)\<lparr>js_player := place_player_j d (js_player (fst st4))\<rparr>
                  in (snap_camera_j w5, snd st4)))"

definition tryDoorTransition_j :: "rng \<Rightarrow> world_j \<Rightarrow> world_j \<times> rng" where
  "tryDoorTransition_j rs w =
    (case js_map w (js_roomId w) of
       None \<Rightarrow> (w, rs)
     | Some node \<Rightarrow>
        (let w0 = ensureRoom_j (js_roomId w) w;
             p = js_player w0;
             doorSpan = 22;
             inTopDoor = (\<bar>jp_x p - ROOM_W_j * 0.5\<bar> < doorSpan);
             inLeftDoor = (\<bar>jp_y p - ROOM_H_j * 0.5\<bar> < doorSpan);
             crossTop = (jp_y p < 0 \<and> inTopDoor);
             crossBot = (jp_y p > ROOM_H_j \<and> inTopDoor);
             crossLeft = (jp_x p < 0 \<and> inLeftDoor);
             crossRight = (jp_x p > ROOM_W_j \<and> inLeftDoor)
         in if crossTop then go_j node 0 (- 1) DirN rs w0
            else if crossBot then go_j node 0 1 DirS rs w0
            else if crossLeft then go_j node (- 1) 0 DirW rs w0
            else if crossRight then go_j node 1 0 DirE rs w0
            else (w0, rs)))"

subsection \<open>Keys are never spent\<close>

lemma getRoom_j_update [simp]:
  "getRoom_j (js_running_update f1 w) = getRoom_j w"
  "getRoom_j (js_paused_update f2 w) = getRoom_j w"
  "getRoom_j (js_msg_update f3 w) = getRoom_j w"
  "getRoom_j (js_msgT_update f4 w) = getRoom_j w"
  "getRoom_j (js_keys_update f5 w) = getRoom_j w"
  "getRoom_j (js_roomId_update f6 w) = getRoom_j w"
  "getRoom_j (js_cam_update f7 w) = getRoom_j w"
  "getRoom_j (js_map_update f8 w) = getRoom_j w"
  "getRoom_j (js_enemies_update f9 w) = getRoom_j w"
  "getRoom_j (js_bullets_update f10 w) = getRoom_j w"
  "getRoom_j (js_pickups_update f11 w) = getRoom_j w"
  "getRoom_j (js_fx_update f12 w) = getRoom_j w"
  "getRoom_j (js_decals_update f13 w) = getRoom_j w"
  "getRoom_j (js_player_update f14 w) = getRoom_j w"
  by (simp_all add: getRoom_j_def fun_eq_iff)

lemma getNode_j_update [simp]:
  "getNode_j (js_running_update f1 w) = getNode_j w"
  "getNode_j (js_paused_update f2 w) = getNode_j w"
  "getNode_j (js_msg_update f3 w) = getNode_j w"
  "getNode_j (js_msgT_update f4 w) = getNode_j w"
  "getNode_j (js_keys_update f5 w) = getNode_j w"
  "getNode_j (js_roomId_update f6 w) = getNode_j w"
  "getNode_j (js_cam_update f7 w) = getNode_j w"
  "getNode_j (js_rooms_update f8 w) = getNode_j w"
  "getNode_j (js_enemies_update f9 w) = getNode_j w"
  "getNode_j (js_bullets_update f10 w) = getNode_j w"
  "getNode_j (js_pickups_update f11 w) = getNode_j w"
  "getNode_j (js_fx_update f12 w) = getNode_j w"
  "getNode_j (js_decals_update f13 w) = getNode_j w"
  "getNode_j (js_player_update f14 w) = getNode_j w"
  by (simp_all add: getNode_j_def fun_eq_iff)


lemma getRoom_j_ensureRoom [simp]: "getRoom_j (ensureRoom_j i w) = getRoom_j w"
  by (simp add: getRoom_j_def ensureRoom_j_def fun_eq_iff split: option.splits)

lemma getRoom_j_ensureNode [simp]: "getRoom_j (ensureNode_j i w) = getRoom_j w"
  by (simp add: getRoom_j_def ensureNode_j_def fun_eq_iff split: option.splits)

lemma getNode_j_ensureNode [simp]: "getNode_j (ensureNode_j i w) = getNode_j w"
  by (simp add: getNode_j_def ensureNode_j_def fun_eq_iff split: option.splits)

lemma getNode_j_ensureRoom [simp]: "getNode_j (ensureRoom_j i w) = getNode_j w"
  by (simp add: getNode_j_def ensureRoom_j_def fun_eq_iff split: option.splits)

lemma getRoom_j_setRoom [simp]:
  "getRoom_j (setRoom_j i f w) j = (if j = i then f (getRoom_j w i) else getRoom_j w j)"
  by (simp add: setRoom_j_def getRoom_j_def)

lemma getRoom_j_setNode [simp]: "getRoom_j (setNode_j i f w) = getRoom_j w"
  by (simp add: setNode_j_def)

lemma getNode_j_setNode [simp]:
  "getNode_j (setNode_j i f w) j = (if j = i then f (getNode_j w i) else getNode_j w j)"
  by (simp add: setNode_j_def getNode_j_def)

lemma getNode_j_setRoom [simp]: "getNode_j (setRoom_j i f w) = getNode_j w"
  by (simp add: setRoom_j_def)

text \<open>What the key gate reads and writes besides the nodes: the keys and the message.\<close>

definition purse_j :: "world_j \<Rightarrow> int \<times> string \<times> real" where
  "purse_j w = (js_keys w, js_msg w, js_msgT w)"

lemma purse_simple [simp]:
  "purse_j (ensureRoom_j i w) = purse_j w"
  "purse_j (ensureNode_j i w) = purse_j w"
  "purse_j (setNode_j i g w) = purse_j w"
  "purse_j (setRoom_j i h w) = purse_j w"
  "purse_j (stashRoom_j i w) = purse_j w"
  "purse_j (spawnEnemy_j ty x y w) = purse_j w"
  "purse_j (bounceInside_j d w) = purse_j w"
  "purse_j (snap_camera_j w) = purse_j w"
  by (simp_all add: purse_j_def ensureRoom_j_def ensureNode_j_def setNode_j_def setRoom_j_def
      stashRoom_j_def spawnEnemy_j_def bounceInside_j_def snap_camera_j_def
      split: option.splits dir.splits)

lemma purse_update [simp]:
  "purse_j (js_roomId_update f1 w) = purse_j w"
  "purse_j (js_enemies_update f2 w) = purse_j w"
  "purse_j (js_bullets_update f3 w) = purse_j w"
  "purse_j (js_pickups_update f4 w) = purse_j w"
  "purse_j (js_fx_update f5 w) = purse_j w"
  "purse_j (js_decals_update f6 w) = purse_j w"
  "purse_j (js_player_update f7 w) = purse_j w"
  by (simp_all add: purse_j_def)

lemma purse_genRoomTiles [simp]: "purse_j (fst (genRoomTiles_j k i rs w)) = purse_j w"
  by (simp add: genRoomTiles_j_def Let_def)

lemma purse_maybeMake [simp]: "purse_j (fst (maybeMake_j i nx ny a b p st)) = purse_j (fst st)"
  by (simp add: maybeMake_j_def Let_def)

lemma purse_buildNeighbors [simp]: "purse_j (fst (buildNeighborsAround_j i rs w)) = purse_j w"
  by (simp add: buildNeighborsAround_j_def Let_def)

lemma purse_spawn_fold [simp]: "purse_j (fst (fold spawn_step_j xs st)) = purse_j (fst st)"
  by (rule fold_inv [where g = "\<lambda>st. purse_j (fst st)"]) (simp add: spawn_step_j_def Let_def)

lemma purse_spawnRoomContents [simp]: "purse_j (fst (spawnRoomContents_j i rs w)) = purse_j w"
  by (simp add: spawnRoomContents_j_def Let_def)

lemma purse_loadRoom [simp]: "purse_j (fst (loadRoom_j i rs w)) = purse_j w"
  by (simp add: loadRoom_j_def Let_def split: option.splits)

lemma getNode_j_stash [simp]: "getNode_j (stashRoom_j i w) = getNode_j w"
  by (simp add: stashRoom_j_def split: option.splits)

lemma getNode_j_genRoomTiles [simp]: "getNode_j (fst (genRoomTiles_j k i rs w)) = getNode_j w"
  by (simp add: genRoomTiles_j_def Let_def)

lemma getNode_j_maybeMake [simp]: "getNode_j (fst (maybeMake_j i nx ny a b p st)) = getNode_j (fst st)"
  by (simp add: maybeMake_j_def Let_def)

lemma getNode_j_buildNeighbors [simp]: "getNode_j (fst (buildNeighborsAround_j i rs w)) = getNode_j w"
  by (simp add: buildNeighborsAround_j_def Let_def)

lemma getNode_j_spawnEnemy [simp]: "getNode_j (spawnEnemy_j ty x y w) = getNode_j w"
  by (simp add: spawnEnemy_j_def Let_def)

lemma getNode_j_spawn_fold [simp]: "getNode_j (fst (fold spawn_step_j xs st)) = getNode_j (fst st)"
  by (rule fold_inv [where g = "\<lambda>st. getNode_j (fst st)"]) (simp add: spawn_step_j_def Let_def)

lemma getNode_j_bounce [simp]: "getNode_j (bounceInside_j d w) = getNode_j w"
  by (simp add: bounceInside_j_def split: dir.splits)

lemma getNode_j_snap [simp]: "getNode_j (snap_camera_j w) = getNode_j w"
  by (simp add: snap_camera_j_def)

text \<open>
  In this variant a node becomes a treasure node only in \<^verbatim>\<open>spawnRoomContents\<close>, which marks
  it cleared in the same call: every treasure node is cleared.
\<close>

definition treasure_cleared_j :: "world_j \<Rightarrow> bool" where
  "treasure_cleared_j w = (\<forall>i. jn_kind (getNode_j w i) = KTreasure \<longrightarrow> jn_cleared (getNode_j w i))"

lemma decide_kind_treasure:
  "fst (decide_kind_j i n rs) = KTreasure \<Longrightarrow> jn_kind n = KTreasure \<or> jn_kind n = KCombat"
  by (auto simp: decide_kind_j_def Let_def split: if_splits)

lemma spawn_node_other:
  "j \<noteq> i \<Longrightarrow> getNode_j (fst (spawnRoomContents_j i rs w)) j = getNode_j w j"
  by (simp add: spawnRoomContents_j_def Let_def)

lemma spawn_node_self:
  "jn_kind (getNode_j (fst (spawnRoomContents_j i rs w)) i) = KTreasure
   \<Longrightarrow> jn_cleared (getNode_j (fst (spawnRoomContents_j i rs w)) i)"
  by (simp add: spawnRoomContents_j_def Let_def split: if_splits)

lemma treasure_cleared_spawn:
  "treasure_cleared_j w \<Longrightarrow> treasure_cleared_j (fst (spawnRoomContents_j i rs w))"
  unfolding treasure_cleared_j_def
  by (metis spawn_node_other spawn_node_self)

lemma treasure_cleared_frame:
  "getNode_j w' = getNode_j w \<Longrightarrow> treasure_cleared_j w' = treasure_cleared_j w"
  by (simp add: treasure_cleared_j_def)

lemma treasure_cleared_seen:
  "treasure_cleared_j w \<Longrightarrow> treasure_cleared_j (setNode_j i (\<lambda>n. n\<lparr>jn_seen := True\<rparr>) w)"
  by (simp add: treasure_cleared_j_def del: split_paired_All)

lemma treasure_cleared_loadRoom:
  assumes "treasure_cleared_j w"
  shows "treasure_cleared_j (fst (loadRoom_j i rs w))"
proof -
  define st2 where "st2 = genRoomTiles_j
      (jn_kind (getNode_j (fst (buildNeighborsAround_j i rs (ensureNode_j i (ensureRoom_j i w)))) i)) i
      (snd (buildNeighborsAround_j i rs (ensureNode_j i (ensureRoom_j i w))))
      (fst (buildNeighborsAround_j i rs (ensureNode_j i (ensureRoom_j i w))))"
  define w3 where "w3 = (fst st2)\<lparr>js_enemies := [], js_bullets := [], js_pickups := [], js_fx := [], js_decals := []\<rparr>"
  define st4 where "st4 = (case jr_cache (getRoom_j w3 i) of
                  Some c \<Rightarrow> (w3\<lparr>js_enemies := cloneArray (jc_enemies c),
                                 js_pickups := cloneArray (jc_pickups c),
                                 js_decals := cloneArray (jc_decals c)\<rparr>, snd st2)
                | None \<Rightarrow> spawnRoomContents_j i (snd st2) w3)"
  have "getNode_j w3 = getNode_j w" by (simp add: w3_def st2_def)
  then have 3: "treasure_cleared_j w3" using assms treasure_cleared_frame by blast
  have 4: "treasure_cleared_j (fst st4)"
  proof (cases "jr_cache (getRoom_j w3 i)")
    case None
    then show ?thesis using 3 by (simp add: st4_def treasure_cleared_spawn)
  next
    case (Some c)
    then have "getNode_j (fst st4) = getNode_j w3" by (simp add: st4_def)
    then show ?thesis using 3 treasure_cleared_frame by blast
  qed
  have 5: "treasure_cleared_j (setRoom_j i h (fst st4))" for h
    using 4 treasure_cleared_frame [of "setRoom_j i h (fst st4)" "fst st4"] by simp
  have "fst (loadRoom_j i rs w) =
      setNode_j i (\<lambda>n. n\<lparr>jn_seen := True\<rparr>)
        (if \<not> jn_cleared (getNode_j (fst st4) i) \<and> (jn_kind (getNode_j (fst st4) i) = KCombat \<or> jn_kind (getNode_j (fst st4) i) = KBoss)
         then setRoom_j i (lockDoors_j True) (fst st4) else setRoom_j i (lockDoors_j False) (fst st4))"
    unfolding loadRoom_j_def Let_def st4_def w3_def st2_def by simp
  then show ?thesis using 5 treasure_cleared_seen by simp
qed

lemma key_gate_open:
  assumes "treasure_cleared_j w"
  shows "key_gate_j nid w = Some w"
proof -
  have "\<not> (jn_kind (getNode_j w nid) = KTreasure \<and> jn_locked (getNode_j w nid)
            \<and> \<not> jn_cleared (getNode_j w nid))"
    using assms unfolding treasure_cleared_j_def by blast
  then show ?thesis by (auto simp: key_gate_j_def Let_def)
qed

lemma go_never_spends:
  assumes "treasure_cleared_j w"
  shows "purse_j (fst (go_j node dx dy d rs w)) = purse_j w
       \<and> treasure_cleared_j (fst (go_j node dx dy d rs w))"
proof -
  define nid where "nid = roomKey (jn_x node + dx) (jn_y node + dy)"
  define w1 where "w1 = ensureRoom_j nid (ensureNode_j nid w)"
  have 1: "treasure_cleared_j w1" "purse_j w1 = purse_j w"
    using assms treasure_cleared_frame [of w1 w] by (simp_all add: w1_def)
  have g: "key_gate_j nid w1 = Some w1" using 1 key_gate_open by blast
  have s: "treasure_cleared_j ((stashRoom_j (js_roomId w1) w1)\<lparr>js_roomId := nid\<rparr>)"
    using 1 treasure_cleared_frame [of "(stashRoom_j (js_roomId w1) w1)\<lparr>js_roomId := nid\<rparr>" w1] by simp
  have b: "treasure_cleared_j (bounceInside_j d w1)"
    using 1 treasure_cleared_frame [of "bounceInside_j d w1" w1] by simp
  have l: "treasure_cleared_j (snap_camera_j ((fst st)\<lparr>js_player := pl\<rparr>))"
    if "treasure_cleared_j (fst st)" for st :: "world_j \<times> rng" and pl
    using that treasure_cleared_frame [of "snap_camera_j ((fst st)\<lparr>js_player := pl\<rparr>)" "fst st"] by simp
  show ?thesis
    unfolding go_j_def Let_def nid_def [symmetric] w1_def [symmetric] g
    using 1 b l [OF treasure_cleared_loadRoom [OF s]]
    by simp
qed

lemma tryDoorTransition_never_spends:
  assumes "treasure_cleared_j w"
  shows "purse_j (fst (tryDoorTransition_j rs w)) = purse_j w
       \<and> treasure_cleared_j (fst (tryDoorTransition_j rs w))"
proof (cases "js_map w (js_roomId w)")
  case None
  then show ?thesis using assms by (simp add: tryDoorTransition_j_def)
next
  case (Some node)
  have 0: "treasure_cleared_j (ensureRoom_j (js_roomId w) w)"
    using assms treasure_cleared_frame [of "ensureRoom_j (js_roomId w) w" w] by simp
  show ?thesis
    using go_never_spends [OF 0] 0
    by (simp add: tryDoorTransition_j_def Some Let_def)
qed

subsection \<open>The first visit and the second\<close>

lemma fold_pres:
  assumes "\<And>x s. P s \<Longrightarrow> P (f x s)" and "P s"
  shows "P (fold f xs s)"
  using assms by (induction xs arbitrary: s) simp_all

text \<open>When \<^verbatim>\<open>Math.random()\<close> returns the same number at every call, so it does afterwards.\<close>

lemma rng_scatter: "snd st = sconst c \<Longrightarrow> snd (scatter_step p v i st) = sconst c"
  by (simp add: scatter_step_def Let_def)

lemma rng_pillar: "snd st = sconst c \<Longrightarrow> snd (pillar_step d y x st) = sconst c"
  by (simp add: pillar_step_def Let_def)

lemma rng_scatter_fold: "snd st = sconst c \<Longrightarrow> snd (fold (scatter_step p v) xs st) = sconst c"
  by (rule fold_pres [where P = "\<lambda>st. snd st = sconst c"]) (simp_all add: rng_scatter)

lemma rng_pillar_fold: "snd st = sconst c \<Longrightarrow> snd (fold (pillar_step d y) xs st) = sconst c"
  by (rule fold_pres [where P = "\<lambda>st. snd st = sconst c"]) (simp_all add: rng_pillar)

lemma rng_pillar_rows:
  "snd st = sconst c \<Longrightarrow> snd (fold (\<lambda>y st. fold (pillar_step d y) xs st) ys st) = sconst c"
  by (rule fold_pres [where P = "\<lambda>st. snd st = sconst c"]) (simp_all add: rng_pillar_fold)

lemma rng_genRoomTiles_j [simp]: "snd (genRoomTiles_j k i (sconst c) w) = sconst c"
  by (simp add: genRoomTiles_j_def Let_def rng_pillar_rows rng_scatter_fold)

lemma rng_maybeMake_j: "snd st = sconst c \<Longrightarrow> snd (maybeMake_j i nx ny a b p st) = sconst c"
  by (simp add: maybeMake_j_def Let_def)

lemma rng_buildNeighbors_j [simp]: "snd (buildNeighborsAround_j i (sconst c) w) = sconst c"
proof -
  have "snd (maybeMake_j i x4 y4 a4 b4 p4 (maybeMake_j i x3 y3 a3 b3 p3 (maybeMake_j i x2 y2 a2 b2 p2
          (maybeMake_j i x1 y1 a1 b1 p1 (w0, sconst c))))) = sconst c"
    for x1 y1 a1 b1 p1 x2 y2 a2 b2 p2 x3 y3 a3 b3 p3 x4 y4 a4 b4 p4 w0
    by (intro rng_maybeMake_j) simp
  then show ?thesis
    unfolding buildNeighborsAround_j_def Let_def by simp
qed

text \<open>The cache of a room, and the room the player is in.\<close>

definition cache_of_j :: "world_j \<Rightarrow> room_id \<Rightarrow> cache_j option" where
  "cache_of_j w i = jr_cache (getRoom_j w i)"

lemma cache_j_setRoom:
  assumes "\<And>r. jr_cache (f r) = jr_cache r"
  shows "cache_of_j (setRoom_j j f w) i = cache_of_j w i"
  using assms by (simp add: cache_of_j_def)

lemma cache_j_simple [simp]:
  "cache_of_j (ensureRoom_j j w) i = cache_of_j w i"
  "cache_of_j (ensureNode_j j w) i = cache_of_j w i"
  "cache_of_j (setNode_j j g w) i = cache_of_j w i"
  "cache_of_j (w\<lparr>js_roomId := k\<rparr>) i = cache_of_j w i"
  "cache_of_j (w\<lparr>js_enemies := es\<rparr>) i = cache_of_j w i"
  "cache_of_j (w\<lparr>js_bullets := bs\<rparr>) i = cache_of_j w i"
  "cache_of_j (w\<lparr>js_pickups := ps\<rparr>) i = cache_of_j w i"
  "cache_of_j (w\<lparr>js_fx := fs\<rparr>) i = cache_of_j w i"
  "cache_of_j (w\<lparr>js_decals := ds\<rparr>) i = cache_of_j w i"
  by (simp_all add: cache_of_j_def)

lemma cache_j_genRoomTiles [simp]: "cache_of_j (fst (genRoomTiles_j k j rs w)) i = cache_of_j w i"
  by (simp add: genRoomTiles_j_def Let_def cache_j_setRoom)

lemma cache_j_maybeMake [simp]: "cache_of_j (fst (maybeMake_j j nx ny a b p st)) i = cache_of_j (fst st) i"
  by (simp add: maybeMake_j_def Let_def cache_j_setRoom)

lemma cache_j_buildNeighbors [simp]: "cache_of_j (fst (buildNeighborsAround_j j rs w)) i = cache_of_j w i"
  by (simp add: buildNeighborsAround_j_def Let_def)

lemma cache_j_stash_other: "j \<noteq> i \<Longrightarrow> cache_of_j (stashRoom_j j w) i = cache_of_j w i"
  by (simp add: stashRoom_j_def cache_of_j_def getRoom_j_def split: option.splits)

lemma roomId_j_simple [simp]:
  "js_roomId (ensureRoom_j i w) = js_roomId w"
  "js_roomId (ensureNode_j i w) = js_roomId w"
  "js_roomId (setNode_j i g w) = js_roomId w"
  "js_roomId (setRoom_j i h w) = js_roomId w"
  "js_roomId (stashRoom_j i w) = js_roomId w"
  "js_roomId (spawnEnemy_j ty x y w) = js_roomId w"
  "js_roomId (bounceInside_j d w) = js_roomId w"
  "js_roomId (snap_camera_j w) = js_roomId w"
  by (simp_all add: ensureRoom_j_def ensureNode_j_def setNode_j_def setRoom_j_def
      stashRoom_j_def spawnEnemy_j_def bounceInside_j_def snap_camera_j_def
      split: option.splits dir.splits)

lemma roomId_j_genRoomTiles [simp]: "js_roomId (fst (genRoomTiles_j k i rs w)) = js_roomId w"
  by (simp add: genRoomTiles_j_def Let_def)

lemma roomId_j_maybeMake [simp]: "js_roomId (fst (maybeMake_j i nx ny a b p st)) = js_roomId (fst st)"
  by (simp add: maybeMake_j_def Let_def)

lemma roomId_j_buildNeighbors [simp]: "js_roomId (fst (buildNeighborsAround_j i rs w)) = js_roomId w"
  by (simp add: buildNeighborsAround_j_def Let_def)

lemma roomId_j_spawn_fold [simp]: "js_roomId (fst (fold spawn_step_j xs st)) = js_roomId (fst st)"
  by (rule fold_inv [where g = "\<lambda>st. js_roomId (fst st)"]) (simp add: spawn_step_j_def Let_def)

lemma roomId_j_spawnRoomContents [simp]: "js_roomId (fst (spawnRoomContents_j i rs w)) = js_roomId w"
  by (simp add: spawnRoomContents_j_def Let_def)

lemma roomId_j_loadRoom [simp]: "js_roomId (fst (loadRoom_j i rs w)) = js_roomId w"
  by (simp add: loadRoom_j_def Let_def split: option.splits)

text \<open>Coming back to a room that has a cache changes nothing of its node but \<^verbatim>\<open>seen\<close>.\<close>

lemma loadRoom_j_cached_node:
  assumes "cache_of_j w i = Some c"
  shows "getNode_j (fst (loadRoom_j i rs w)) i = (getNode_j w i)\<lparr>jn_seen := True\<rparr>"
proof -
  define st2 where "st2 = genRoomTiles_j
      (jn_kind (getNode_j (fst (buildNeighborsAround_j i rs (ensureNode_j i (ensureRoom_j i w)))) i)) i
      (snd (buildNeighborsAround_j i rs (ensureNode_j i (ensureRoom_j i w))))
      (fst (buildNeighborsAround_j i rs (ensureNode_j i (ensureRoom_j i w))))"
  define w3 where "w3 = (fst st2)\<lparr>js_enemies := [], js_bullets := [], js_pickups := [], js_fx := [], js_decals := []\<rparr>"
  have n: "getNode_j w3 = getNode_j w" by (simp add: w3_def st2_def)
  have "cache_of_j w3 i = Some c" using assms by (simp add: w3_def st2_def)
  then have c: "jr_cache (getRoom_j w3 i) = Some c" by (simp add: cache_of_j_def)
  show ?thesis
    unfolding loadRoom_j_def Let_def st2_def [symmetric] w3_def [symmetric] c
    by (simp add: n)
qed

text \<open>
  The first visit of a room at distance 4 or more, when every draw is 0: the room becomes a
  treasure room, locked, and cleared.
\<close>

lemma spawn_j_first_visit:
  assumes "getNode_j w i = newNode_j i" and "i \<noteq> (0, 0)" and "\<bar>fst i\<bar> + \<bar>snd i\<bar> \<ge> 4"
  shows "jn_kind (getNode_j (fst (spawnRoomContents_j i (sconst 0) w)) i) = KTreasure
       \<and> jn_locked (getNode_j (fst (spawnRoomContents_j i (sconst 0) w)) i)
       \<and> jn_cleared (getNode_j (fst (spawnRoomContents_j i (sconst 0) w)) i)"
proof -
  have d: "decide_kind_j i (newNode_j i) (sconst 0) = (KTreasure, sconst 0)"
    using assms(2,3) by (simp add: decide_kind_j_def newNode_j_def chance_def)
  show ?thesis
    unfolding spawnRoomContents_j_def Let_def
    by (simp add: assms(1) d) (simp add: newNode_j_def chance_def)
qed

lemma loadRoom_j_first_visit:
  assumes "getNode_j w i = newNode_j i" and "i \<noteq> (0, 0)" and "\<bar>fst i\<bar> + \<bar>snd i\<bar> \<ge> 4"
      and "cache_of_j w i = None"
  shows "jn_kind (getNode_j (fst (loadRoom_j i (sconst 0) w)) i) = KTreasure
       \<and> jn_locked (getNode_j (fst (loadRoom_j i (sconst 0) w)) i)
       \<and> jn_cleared (getNode_j (fst (loadRoom_j i (sconst 0) w)) i)"
proof -
  define st2 where "st2 = genRoomTiles_j
      (jn_kind (getNode_j (fst (buildNeighborsAround_j i (sconst 0) (ensureNode_j i (ensureRoom_j i w)))) i)) i
      (snd (buildNeighborsAround_j i (sconst 0) (ensureNode_j i (ensureRoom_j i w))))
      (fst (buildNeighborsAround_j i (sconst 0) (ensureNode_j i (ensureRoom_j i w))))"
  define w3 where "w3 = (fst st2)\<lparr>js_enemies := [], js_bullets := [], js_pickups := [], js_fx := [], js_decals := []\<rparr>"
  have r: "snd st2 = sconst 0" by (simp add: st2_def)
  have n: "getNode_j w3 i = newNode_j i" using assms(1) by (simp add: w3_def st2_def)
  have "cache_of_j w3 i = None" using assms(4) by (simp add: w3_def st2_def)
  then have c: "jr_cache (getRoom_j w3 i) = None" by (simp add: cache_of_j_def)
  show ?thesis
    unfolding loadRoom_j_def Let_def st2_def [symmetric] w3_def [symmetric] c r
    using spawn_j_first_visit [OF n assms(2,3)] by simp
qed

lemma go_j_enters:
  assumes "canGo_j (getRoom_j w (js_roomId w)) d" and "treasure_cleared_j w"
  shows "js_roomId (fst (go_j node dx dy d rs w)) = roomKey (jn_x node + dx) (jn_y node + dy)"
    and "getNode_j (fst (go_j node dx dy d rs w)) =
         getNode_j (fst (loadRoom_j (roomKey (jn_x node + dx) (jn_y node + dy)) rs
           ((stashRoom_j (js_roomId w) (ensureRoom_j (roomKey (jn_x node + dx) (jn_y node + dy))
               (ensureNode_j (roomKey (jn_x node + dx) (jn_y node + dy)) w)))
             \<lparr>js_roomId := roomKey (jn_x node + dx) (jn_y node + dy)\<rparr>)))"
proof -
  define nid where "nid = roomKey (jn_x node + dx) (jn_y node + dy)"
  define w1 where "w1 = ensureRoom_j nid (ensureNode_j nid w)"
  have 1: "treasure_cleared_j w1"
    using assms(2) treasure_cleared_frame [of w1 w] by (simp add: w1_def)
  have g: "key_gate_j nid w1 = Some w1" using 1 key_gate_open by blast
  have c: "canGo_j (getRoom_j w1 (js_roomId w1)) d" using assms(1) by (simp add: w1_def)
  have r: "js_roomId w1 = js_roomId w" by (simp add: w1_def)
  show "js_roomId (fst (go_j node dx dy d rs w)) = roomKey (jn_x node + dx) (jn_y node + dy)"
    unfolding go_j_def Let_def nid_def [symmetric] w1_def [symmetric] g
    using c by simp
  show "getNode_j (fst (go_j node dx dy d rs w)) =
         getNode_j (fst (loadRoom_j (roomKey (jn_x node + dx) (jn_y node + dy)) rs
           ((stashRoom_j (js_roomId w) (ensureRoom_j (roomKey (jn_x node + dx) (jn_y node + dy))
               (ensureNode_j (roomKey (jn_x node + dx) (jn_y node + dy)) w)))
             \<lparr>js_roomId := roomKey (jn_x node + dx) (jn_y node + dy)\<rparr>)))"
    unfolding go_j_def Let_def nid_def [symmetric] w1_def [symmetric] g
    using c by (simp add: r)
qed

lemma tryDoorTransition_j_north:
  assumes "js_map w (js_roomId w) = Some node" and "jp_y (js_player w) < 0"
      and "\<bar>jp_x (js_player w) - ROOM_W_j * 0.5\<bar> < 22"
  shows "tryDoorTransition_j rs w = go_j node 0 (- 1) DirN rs (ensureRoom_j (js_roomId w) w)"
proof -
  have "js_player (ensureRoom_j (js_roomId w) w) = js_player w"
    by (simp add: ensureRoom_j_def split: option.splits)
  then show ?thesis
    using assms by (simp add: tryDoorTransition_j_def Let_def)
qed

text \<open>
  The initial player (lines 101-114).  In \<open>first_world_j\<close> the player holds one key and
  pushes through the north door of the cleared room \<open>(0, -3)\<close>; the room \<open>(0, -4)\<close> behind it
  was made as a neighbour and never entered.  In \<open>revisit_world_j k\<close> the room \<open>(0, -4)\<close>
  has been entered and left: its node is as the first visit left it, its cache holds the pickups.
\<close>

definition init_player_j :: player_j where
  "init_player_j = \<lparr> jp_x = ROOM_W_j / 2, jp_y = ROOM_H_j / 2, jp_r = 8, jp_hp = 6, jp_hpMax = 6,
     jp_invT = 0, jp_dashT = 0, jp_dashCD = 0, jp_vx = 0, jp_vy = 0, jp_speed = 140,
     jp_weapon = 0, jp_fireCD = 0 \<rparr>"

definition first_world_j :: world_j where
  "first_world_j = \<lparr> js_running = True, js_paused = False, js_msg = [], js_msgT = 0, js_keys = 1,
     js_roomId = (0, - 3),
     js_cam = \<lparr> mc_x = 0, mc_y = 0, mc_shake = 0, mc_shakeT = 0 \<rparr>,
     js_map = [(0, - 3) \<mapsto> (newNode_j (0, - 3))\<lparr>jn_seen := True, jn_cleared := True\<rparr>,
               (0, - 4) \<mapsto> newNode_j (0, - 4)],
     js_rooms = [(0, - 3) \<mapsto> (newRoom_j (0, - 3))\<lparr>jr_neighbors := (\<lambda>d. d = DirN \<or> d = DirS)\<rparr>,
                 (0, - 4) \<mapsto> (newRoom_j (0, - 4))\<lparr>jr_neighbors := (\<lambda>d. d = DirS)\<rparr>],
     js_enemies = [], js_bullets = [], js_pickups = [], js_fx = [], js_decals = [],
     js_player = init_player_j\<lparr>jp_x := 252, jp_y := - 4, jp_vy := - 140\<rparr> \<rparr>"

definition revisit_world_j :: "int \<Rightarrow> world_j" where
  "revisit_world_j k = first_world_j
    \<lparr> js_keys := k,
      js_map := (js_map first_world_j)((0, - 4) \<mapsto>
         (newNode_j (0, - 4))\<lparr>jn_kind := KTreasure, jn_seen := True, jn_cleared := True, jn_locked := True\<rparr>),
      js_rooms := (js_rooms first_world_j)((0, - 4) \<mapsto>
         (newRoom_j (0, - 4))\<lparr>jr_neighbors := (\<lambda>d. d = DirS), jr_cache := Some
            \<lparr> jc_enemies = [],
              jc_pickups = [\<lparr> jk_x = ROOM_W_j / 2, jk_y = ROOM_H_j / 2, jk_t = ''key'', jk_v = 1, jk_r = 7 \<rparr>,
                            \<lparr> jk_x = ROOM_W_j / 2 + 28, jk_y = ROOM_H_j / 2, jk_t = ''heart'', jk_v = 2, jk_r = 7 \<rparr>],
              jc_decals = [] \<rparr>\<rparr>) \<rparr>"

lemma first_world_facts:
  "js_map first_world_j (js_roomId first_world_j) = Some ((newNode_j (0, - 3))\<lparr>jn_seen := True, jn_cleared := True\<rparr>)"
  "jp_y (js_player first_world_j) < 0"
  "\<bar>jp_x (js_player first_world_j) - ROOM_W_j * 0.5\<bar> < 22"
  "canGo_j (getRoom_j first_world_j (js_roomId first_world_j)) DirN"
  "treasure_cleared_j first_world_j"
  "getNode_j first_world_j (0, - 4) = newNode_j (0, - 4)"
  "cache_of_j first_world_j (0, - 4) = None"
  "purse_j first_world_j = (1, [], 0)"
  by (simp_all add: first_world_j_def init_player_j_def ROOM_W_j_def TILE_j_def ROOM_TW_def
      canGo_j_def getRoom_j_def getNode_j_def newRoom_j_def newNode_j_def treasure_cleared_j_def
      cache_of_j_def purse_j_def)

lemma revisit_world_facts:
  "js_map (revisit_world_j k) (js_roomId (revisit_world_j k)) = Some ((newNode_j (0, - 3))\<lparr>jn_seen := True, jn_cleared := True\<rparr>)"
  "jp_y (js_player (revisit_world_j k)) < 0"
  "\<bar>jp_x (js_player (revisit_world_j k)) - ROOM_W_j * 0.5\<bar> < 22"
  "canGo_j (getRoom_j (revisit_world_j k) (js_roomId (revisit_world_j k))) DirN"
  "treasure_cleared_j (revisit_world_j k)"
  "jn_kind (getNode_j (revisit_world_j k) (0, - 4)) = KTreasure"
  "jn_locked (getNode_j (revisit_world_j k) (0, - 4))"
  "cache_of_j (revisit_world_j k) (0, - 4) \<noteq> None"
  "purse_j (revisit_world_j k) = (k, [], 0)"
  by (simp_all add: revisit_world_j_def first_world_j_def init_player_j_def ROOM_W_j_def TILE_j_def ROOM_TW_def
      canGo_j_def getRoom_j_def getNode_j_def newRoom_j_def newNode_j_def treasure_cleared_j_def
      cache_of_j_def purse_j_def)

lemma north_crossing:
  assumes "js_map w (js_roomId w) = Some node" and "jp_y (js_player w) < 0"
      and "\<bar>jp_x (js_player w) - ROOM_W_j * 0.5\<bar> < 22"
      and "canGo_j (getRoom_j w (js_roomId w)) DirN" and "treasure_cleared_j w"
      and "nid = roomKey (jn_x node) (jn_y node - 1)" and "nid \<noteq> js_roomId w"
  shows "js_roomId (fst (tryDoorTransition_j rs w)) = nid"
    and "cache_of_j w nid = Some c \<Longrightarrow>
         getNode_j (fst (tryDoorTransition_j rs w)) nid = (getNode_j w nid)\<lparr>jn_seen := True\<rparr>"
    and "rs = sconst 0 \<Longrightarrow> cache_of_j w nid = None \<Longrightarrow> getNode_j w nid = newNode_j nid \<Longrightarrow>
         nid \<noteq> (0, 0) \<Longrightarrow> \<bar>fst nid\<bar> + \<bar>snd nid\<bar> \<ge> 4 \<Longrightarrow>
         jn_kind (getNode_j (fst (tryDoorTransition_j rs w)) nid) = KTreasure
         \<and> jn_locked (getNode_j (fst (tryDoorTransition_j rs w)) nid)
         \<and> jn_cleared (getNode_j (fst (tryDoorTransition_j rs w)) nid)"
proof -
  define w0 where "w0 = ensureRoom_j (js_roomId w) w"
  define w2 where "w2 = (stashRoom_j (js_roomId w0) (ensureRoom_j nid (ensureNode_j nid w0)))\<lparr>js_roomId := nid\<rparr>"
  have t: "tryDoorTransition_j rs w = go_j node 0 (- 1) DirN rs w0"
    unfolding w0_def by (rule tryDoorTransition_j_north [OF assms(1,2,3)])
  have c0: "canGo_j (getRoom_j w0 (js_roomId w0)) DirN" using assms(4) by (simp add: w0_def)
  have i0: "treasure_cleared_j w0"
    using assms(5) treasure_cleared_frame [of w0 w] by (simp add: w0_def)
  have k: "roomKey (jn_x node + 0) (jn_y node + - 1) = nid" using assms(6) by simp
  have r0: "js_roomId w0 = js_roomId w" by (simp add: w0_def)
  show "js_roomId (fst (tryDoorTransition_j rs w)) = nid"
    unfolding t using go_j_enters(1) [OF c0 i0, of node 0 "- 1" rs] k by simp
  have n: "getNode_j (fst (tryDoorTransition_j rs w)) = getNode_j (fst (loadRoom_j nid rs w2))"
    unfolding t w2_def using go_j_enters(2) [OF c0 i0, of node 0 "- 1" rs] k by simp
  have cw: "cache_of_j w2 nid = cache_of_j w nid"
    using assms(7) by (simp add: w2_def r0 cache_j_stash_other) (simp add: w0_def)
  have nw: "getNode_j w2 = getNode_j w" by (simp add: w2_def w0_def)
  show "getNode_j (fst (tryDoorTransition_j rs w)) nid = (getNode_j w nid)\<lparr>jn_seen := True\<rparr>"
    if "cache_of_j w nid = Some c"
    using loadRoom_j_cached_node [of w2 nid c rs] that by (simp add: n cw nw)
  show "jn_kind (getNode_j (fst (tryDoorTransition_j rs w)) nid) = KTreasure
         \<and> jn_locked (getNode_j (fst (tryDoorTransition_j rs w)) nid)
         \<and> jn_cleared (getNode_j (fst (tryDoorTransition_j rs w)) nid)"
    if "rs = sconst 0" "cache_of_j w nid = None" "getNode_j w nid = newNode_j nid"
       "nid \<noteq> (0, 0)" "\<bar>fst nid\<bar> + \<bar>snd nid\<bar> \<ge> 4"
  proof -
    have "jn_kind (getNode_j (fst (loadRoom_j nid (sconst 0) w2)) nid) = KTreasure
         \<and> jn_locked (getNode_j (fst (loadRoom_j nid (sconst 0) w2)) nid)
         \<and> jn_cleared (getNode_j (fst (loadRoom_j nid (sconst 0) w2)) nid)"
      using loadRoom_j_first_visit [of w2 nid] that by (simp add: cw nw)
    moreover have "getNode_j (fst (tryDoorTransition_j (sconst 0) w)) = getNode_j (fst (loadRoom_j nid (sconst 0) w2))"
      using n that(1) by simp
    ultimately show ?thesis using that(1) by simp
  qed
qed

text \<open>
  Claim C6, in \<^verbatim>\<open>src/n.js\<close>.  The player holds one key and pushes through the open north door
  of room \<open>(0, -3)\<close>.  First visit, every draw 0: the player is let into \<open>(0, -4)\<close>, which
  then becomes a locked treasure room, marked cleared; the key is kept and no message is
  shown.  Later visit, any draws: the node is a locked treasure node; with one key the player
  enters, still holds the key, and the node is still locked; with no key the player enters
  as well, and no message is shown.
\<close>

theorem C6_locked_treasure_entered_without_key:
  "js_roomId (fst (tryDoorTransition_j (sconst 0) first_world_j)) = (0, - 4)
   \<and> jn_kind (getNode_j (fst (tryDoorTransition_j (sconst 0) first_world_j)) (0, - 4)) = KTreasure
   \<and> jn_locked (getNode_j (fst (tryDoorTransition_j (sconst 0) first_world_j)) (0, - 4))
   \<and> jn_cleared (getNode_j (fst (tryDoorTransition_j (sconst 0) first_world_j)) (0, - 4))
   \<and> js_keys first_world_j = 1
   \<and> js_keys (fst (tryDoorTransition_j (sconst 0) first_world_j)) = 1
   \<and> js_msg (fst (tryDoorTransition_j (sconst 0) first_world_j)) = []
   \<and> jn_kind (getNode_j (revisit_world_j 1) (0, - 4)) = KTreasure
   \<and> jn_locked (getNode_j (revisit_world_j 1) (0, - 4))
   \<and> js_keys (revisit_world_j 1) = 1
   \<and> js_roomId (fst (tryDoorTransition_j rs (revisit_world_j 1))) = (0, - 4)
   \<and> js_keys (fst (tryDoorTransition_j rs (revisit_world_j 1))) = 1
   \<and> jn_locked (getNode_j (fst (tryDoorTransition_j rs (revisit_world_j 1))) (0, - 4))
   \<and> js_keys (revisit_world_j 0) = 0
   \<and> js_roomId (fst (tryDoorTransition_j rs (revisit_world_j 0))) = (0, - 4)
   \<and> js_msg (fst (tryDoorTransition_j rs (revisit_world_j 0))) = []"
proof -
  let ?n = "(newNode_j (0, - 3))\<lparr>jn_seen := True, jn_cleared := True\<rparr>"
  have k: "(0, - 4) = roomKey (jn_x ?n) (jn_y ?n - 1)"
    by (simp add: newNode_j_def roomKey_def)
  have f: "(0, - 4) \<noteq> js_roomId first_world_j" by (simp add: first_world_j_def)
  have r: "(0, - 4) \<noteq> js_roomId (revisit_world_j q)" for q
    by (simp add: revisit_world_j_def first_world_j_def)
  note F = north_crossing [OF first_world_facts(1,2,3,4,5) k f]
  note R1 = north_crossing [OF revisit_world_facts(1,2,3,4,5) [of 1] k r [of 1]]
  note R0 = north_crossing [OF revisit_world_facts(1,2,3,4,5) [of 0] k r [of 0]]
  have pf: "purse_j (fst (tryDoorTransition_j (sconst 0) first_world_j)) = (1, [], 0)"
    using tryDoorTransition_never_spends [OF first_world_facts(5), where rs = "sconst 0"]
      first_world_facts(8)
    by simp
  have pr: "purse_j (fst (tryDoorTransition_j rs (revisit_world_j q))) = (q, [], 0)" for q
    using tryDoorTransition_never_spends [OF revisit_world_facts(5) [of q], where rs = rs]
      revisit_world_facts(9) [of q]
    by simp
  obtain c where c: "cache_of_j (revisit_world_j 1) (0, - 4) = Some c"
    using revisit_world_facts(8) by blast
  have 1: "jn_kind (getNode_j (fst (tryDoorTransition_j (sconst 0) first_world_j)) (0, - 4)) = KTreasure
   \<and> jn_locked (getNode_j (fst (tryDoorTransition_j (sconst 0) first_world_j)) (0, - 4))
   \<and> jn_cleared (getNode_j (fst (tryDoorTransition_j (sconst 0) first_world_j)) (0, - 4))"
    by (rule F(3) [OF refl first_world_facts(7) first_world_facts(6)]) simp_all
  have 2: "jn_locked (getNode_j (fst (tryDoorTransition_j rs (revisit_world_j 1))) (0, - 4))"
    using R1(2) [OF c, where rs = rs] revisit_world_facts(7) [of 1] by simp
  have 3: "js_keys first_world_j = 1" "js_keys (revisit_world_j q) = q" for q
    using first_world_facts(8) revisit_world_facts(9) [of q] by (simp_all add: purse_j_def)
  show ?thesis
    using F(1) [where rs = "sconst 0"] R1(1) [where rs = rs] R0(1) [where rs = rs] 1 2 3 pf
      pr [of 1] pr [of 0]
      revisit_world_facts(6,7) [of 1]
    by (simp add: purse_j_def)
qed

section \<open>What a tick reads of the random source\<close>

text \<open>
  A computation \<open>f\<close> reads the random source in order and finitely far: for every source
  there is a number \<open>n\<close> of draws such that, on any source that begins with the same \<open>n\<close>
  draws, \<open>f\<close> gives the same result and leaves exactly what follows them.
\<close>

definition reads :: "(rng \<Rightarrow> 'a \<times> rng) \<Rightarrow> bool" where
  "reads f = (\<forall>rs. \<exists>n. \<forall>rs'. f (stake n rs @- rs') = (fst (f rs), rs'))"

lemma readsI:
  assumes "\<And>rs. \<exists>n. \<forall>rs'. f (stake n rs @- rs') = (fst (f rs), rs')"
  shows "reads f"
  using assms by (simp add: reads_def)

lemma reads_ret: "reads (\<lambda>rs. (x, rs))"
  by (rule readsI) (rule exI [of _ 0], simp)

lemma reads_bind:
  assumes f: "reads f" and g: "\<And>s. reads (\<lambda>rs. g (s, rs))"
  shows "reads (\<lambda>rs. g (f rs))"
proof (rule readsI)
  fix rs
  from f have "\<exists>n. \<forall>r. f (stake n rs @- r) = (fst (f rs), r)"
    by (simp only: reads_def)
  then obtain n where n: "\<forall>r. f (stake n rs @- r) = (fst (f rs), r)" ..
  have "f (stake n rs @- sdrop n rs) = (fst (f rs), sdrop n rs)"
    using n by (rule allE)
  then have frs: "f rs = (fst (f rs), sdrop n rs)"
    by (simp only: stake_sdrop)
  from g [of "fst (f rs)"]
  have "\<exists>m. \<forall>r. g (fst (f rs), stake m (sdrop n rs) @- r) = (fst (g (fst (f rs), sdrop n rs)), r)"
    by (simp only: reads_def)
  then obtain m where m: "\<forall>r. g (fst (f rs), stake m (sdrop n rs) @- r) = (fst (g (fst (f rs), sdrop n rs)), r)" ..
  have "g (f (stake (n + m) rs @- r)) = (fst (g (f rs)), r)" for r
  proof -
    have e: "stake (n + m) rs @- r = stake n rs @- (stake m (sdrop n rs) @- r)"
      by (simp only: stake_add [symmetric] shift_append)
    have "g (f (stake (n + m) rs @- r)) = g (f (stake n rs @- (stake m (sdrop n rs) @- r)))"
      by (simp only: e)
    also have "\<dots> = g (fst (f rs), stake m (sdrop n rs) @- r)"
      using n by (simp only:)
    also have "\<dots> = (fst (g (fst (f rs), sdrop n rs)), r)"
      using m by (simp only:)
    also have "\<dots> = (fst (g (f rs)), r)"
      using frs by (simp only:)
    finally show ?thesis .
  qed
  then show "\<exists>k. \<forall>rs'. g (f (stake k rs @- rs')) = (fst (g (f rs)), rs')" by (intro exI allI)
qed

lemma reads_let_st:
  assumes "reads A" and "\<And>s. reads (\<lambda>r. B (s, r))"
  shows "reads (\<lambda>rs. Let (A rs) B)"
  unfolding Let_def using assms by (rule reads_bind)

lemma reads_let_pure:
  assumes "reads (\<lambda>rs. B a rs)"
  shows "reads (\<lambda>rs. Let a (\<lambda>x. B x rs))"
  using assms by (simp add: Let_def)

lemma reads_if:
  assumes "c \<Longrightarrow> reads f" and "\<not> c \<Longrightarrow> reads g"
  shows "reads (\<lambda>rs. if c then f rs else g rs)"
  using assms by (cases c) simp_all

lemma reads_case_option:
  assumes "x = None \<Longrightarrow> reads f" and "\<And>y. x = Some y \<Longrightarrow> reads (g y)"
  shows "reads (\<lambda>rs. case x of None \<Rightarrow> f rs | Some y \<Rightarrow> g y rs)"
  using assms by (cases x) simp_all

lemma reads_draw:
  assumes "\<And>u. reads (\<lambda>rs. G u rs)"
  shows "reads (\<lambda>rs. G (shd rs) (stl rs))"
proof -
  have "reads (\<lambda>rs. (shd rs, stl rs))"
    by (rule readsI) (rule exI [of _ 1], simp)
  from reads_bind [OF this, of "\<lambda>p. G (fst p) (snd p)"] assms show ?thesis by simp
qed

lemma reads_fold:
  assumes "\<And>x s. reads (\<lambda>rs. step x (s, rs))"
  shows "reads (\<lambda>rs. fold step xs (s, rs))"
proof (induction xs arbitrary: s)
  case Nil
  show ?case by (simp add: reads_ret)
next
  case (Cons x xs)
  have "reads (\<lambda>rs. fold step xs (step x (s, rs)))"
    by (rule reads_bind [OF assms]) (rule Cons.IH)
  then show ?case by simp
qed

lemma reads_post:
  assumes "reads f"
  shows "reads (\<lambda>rs. (h (fst (f rs)), snd (f rs)))"
  using reads_bind [OF assms, of "\<lambda>p. (h (fst p), snd p)"] by (simp add: reads_ret)

lemma reads_ok:
  assumes "reads f"
  shows "reads (\<lambda>rs. ok (f rs))"
  unfolding ok_def using assms by (rule reads_post)

lemma reads_case_sum:
  assumes "\<And>err. x = Inl err \<Longrightarrow> reads (f err)" and "\<And>y. x = Inr y \<Longrightarrow> reads (g y)"
  shows "reads (\<lambda>rs. case x of Inl err \<Rightarrow> f err rs | Inr y \<Rightarrow> g y rs)"
  using assms by (cases x) simp_all

subsection \<open>Room generation\<close>

lemma reads_scatter_step: "reads (\<lambda>rs. scatter_step p v i (g, rs))"
  by (rule readsI) (rule exI [of _ 3], simp add: scatter_step_def Let_def numeral_3_eq_3)

lemma reads_pillar_step: "reads (\<lambda>rs. pillar_step d y x (g, rs))"
proof (cases "grid_get g x y \<noteq> 1")
  case True
  then show ?thesis by (simp add: pillar_step_def reads_ret)
next
  case False
  then show ?thesis
    by - (rule readsI, rule exI [of _ 1], simp add: pillar_step_def Let_def)
qed

lemma reads_genRoomTiles_m: "reads (\<lambda>rs. genRoomTiles_m i rs w)"
  unfolding genRoomTiles_m_def
  apply (intro reads_let_pure)
  apply (rule reads_let_st)
   apply (intro reads_if reads_fold reads_scatter_step)
  apply (intro reads_let_pure)
  apply (rule reads_let_st)
   apply (intro reads_fold reads_pillar_step)
  apply (simp add: reads_ret)
  done

lemma reads_buildNeighborsAround_m: "reads (\<lambda>rs. buildNeighborsAround_m i rs w)"
  unfolding buildNeighborsAround_m_def
  by (intro reads_let_pure reads_genRoomTiles_m)

lemma reads_spawnBoss_m: "reads (\<lambda>rs. spawnBoss_m x y depth rs w)"
  by (rule readsI) (rule exI [of _ 2], simp add: spawnBoss_m_def Let_def numeral_2_eq_2)

lemma reads_dropCoin_step: "reads (\<lambda>rs. dropCoin_step x y i (w, rs))"
  by (rule readsI) (rule exI [of _ 2], simp add: dropCoin_step_def Let_def numeral_2_eq_2)

lemma reads_dropCoins_m: "reads (\<lambda>rs. dropCoins_m x y amount rs w)"
  unfolding dropCoins_m_def by (intro reads_fold reads_dropCoin_step)

lemma reads_spawn_step: "reads (\<lambda>rs. spawn_step depth i (w, rs))"
  by (rule readsI) (rule exI [of _ 3], simp add: spawn_step_def Let_def numeral_3_eq_3)

lemma reads_spawnRoomContents_m: "reads (\<lambda>rs. spawnRoomContents_m i rs w)"
  unfolding spawnRoomContents_m_def
  apply (intro reads_let_pure reads_if)
    apply (simp add: reads_ret)
   apply (rule reads_let_st)
    apply (intro reads_if reads_spawnBoss_m)
    apply (simp only: Let_def)
    apply (rule reads_draw [where G = "\<lambda>u r. fold (spawn_step (mn_depth n)) [0..<nat (4 + randi 4 u + k)] (s, r)" for n k s])
    apply (intro reads_fold reads_spawn_step)
   apply (simp add: reads_ret)
  apply (rule reads_ret)
  done

lemma reads_loadRoom_m: "reads (\<lambda>rs. loadRoom_m i rs w)"
  unfolding loadRoom_m_def
  apply (intro reads_let_pure)
  apply (rule reads_let_st, rule reads_buildNeighborsAround_m, simp only: fst_conv snd_conv)
  apply (rule reads_let_st, rule reads_genRoomTiles_m, simp only: fst_conv snd_conv)
  apply (rule reads_let_st, rule reads_spawnRoomContents_m, simp only: fst_conv snd_conv)
  apply (simp add: reads_ret)
  done

lemma reads_tryDoorTransitionByIntent_m: "reads (\<lambda>rs. tryDoorTransitionByIntent_m d rs w)"
  unfolding tryDoorTransitionByIntent_m_def
  apply (intro reads_let_pure reads_if reads_ret)
  apply (rule reads_let_st, rule reads_loadRoom_m, simp only: fst_conv snd_conv)
  apply (simp add: reads_ret)
  done

subsection \<open>Shooting, enemies and the tick\<close>

lemma reads_pellet_step: "reads (\<lambda>rs. pellet_step wp baseA i (w, rs))"
  by (rule readsI) (rule exI [of _ 2], simp add: pellet_step_def Let_def numeral_2_eq_2)

lemma reads_shoot_m: "reads (\<lambda>rs. shoot_m inp rs w)"
  unfolding shoot_m_def
  apply (intro reads_if reads_case_option reads_let_pure reads_ret)
  apply (rule reads_let_st)
   apply (intro reads_fold reads_pellet_step)
  apply (simp add: reads_ret)
  done

lemma reads_updateBurst_m: "reads (\<lambda>rs. updateBurst_m dt inp rs w)"
  unfolding updateBurst_m_def
  apply (intro reads_if reads_case_option reads_let_pure reads_ret)
  apply (rule readsI, rule exI [of _ 1], simp add: Let_def)
  done

lemma reads_bossAttack_m: "reads (\<lambda>rs. bossAttack_m dt rs ew)"
  unfolding bossAttack_m_def
  apply (intro reads_if reads_let_pure reads_ret)
  apply (rule reads_let_st)
   apply (intro reads_if reads_let_pure reads_ret)
   apply (rule reads_let_st)
    apply (rule reads_fold)
    apply (rule readsI, rule exI [of _ 1], simp add: Let_def)
   apply (simp add: reads_ret)
  apply (simp add: reads_ret)
  done

lemma reads_unlockRandomWeapon_m: "reads (\<lambda>rs. unlockRandomWeapon_m rs w)"
  unfolding unlockRandomWeapon_m_def
  apply (intro reads_if reads_let_pure reads_ret)
  apply (rule readsI, rule exI [of _ 1], auto simp: Let_def)
  done

lemma reads_boss_death_m: "reads (\<lambda>rs. boss_death_m i e rs w)"
  unfolding boss_death_m_def
  apply (rule reads_let_st, rule reads_dropCoins_m, simp only: fst_conv snd_conv)
  apply (rule reads_let_st)
   apply (rule reads_draw [where G = "\<lambda>u r. if chance 0.80 u then unlockRandomWeapon_m r s else (s, r)" for s])
   apply (intro reads_if reads_unlockRandomWeapon_m reads_ret)
  apply (simp add: reads_ret)
  done

lemma reads_boss_step_m: "reads (\<lambda>rs. boss_step_m dt room i e rs w)"
  unfolding boss_step_m_def
  apply (intro reads_let_pure reads_case_sum)
   apply (rule reads_ret)
  apply (rule reads_let_st, rule reads_bossAttack_m, simp only: fst_conv snd_conv)
  apply (intro reads_let_pure reads_if reads_ok reads_boss_death_m reads_ret)
  done

lemma reads_shooter_ai_m: "reads (\<lambda>rs. shooter_ai_m dt depth dx dy d rs ew)"
  unfolding shooter_ai_m_def
  apply (intro reads_let_pure)
  apply (rule reads_let_st)
   apply (intro reads_if reads_ret)
   apply (rule readsI, rule exI [of _ 2], simp add: numeral_2_eq_2)
  apply (simp only: Let_def fst_conv snd_conv)
  apply (intro reads_if reads_ret)
  apply (rule readsI, rule exI [of _ 1], simp)
  done

lemma reads_enemy_death_m: "reads (\<lambda>rs. enemy_death_m depth i e rs w)"
proof -
  define k where "k = js_int32 (real_of_int depth / 4)"
  define H where "H = (\<lambda>p :: world_m \<times> rng.
    (let w5 = (if chance 0.10 (shd (snd p))
               then (fst p)\<lparr>mw_pickups := mw_pickups (fst p) @
                      [\<lparr> mk_x = me_x e, mk_y = me_y e, mk_t = ''heart'', mk_v = 2, mk_r = 10 \<rparr>]\<rparr>
               else fst p)
     in (w5\<lparr>mw_enemies := splice1 (mw_enemies w5) i\<rparr>, stl (snd p))))"
  have 1: "reads (\<lambda>rs. dropCoins_m (me_x e) (me_y e) (2 + randi 3 (shd rs) + k) (stl rs) w)"
    by (rule reads_draw [where G = "\<lambda>u r. dropCoins_m (me_x e) (me_y e) (2 + randi 3 u + k) r w"])
       (rule reads_dropCoins_m)
  have 2: "reads (\<lambda>r. H (s, r))" for s
    by (rule readsI, rule exI [of _ 1], simp add: H_def Let_def)
  have "reads (\<lambda>rs. H (dropCoins_m (me_x e) (me_y e) (2 + randi 3 (shd rs) + k) (stl rs) w))"
    by (rule reads_bind [OF 1 2])
  then show ?thesis
    by (simp add: enemy_death_m_def H_def k_def Let_def)
qed

lemma reads_normal_step_m: "reads (\<lambda>rs. normal_step_m dt room depth i e rs w)"
  unfolding normal_step_m_def
  apply (intro reads_let_pure)
  apply (rule reads_let_st)
   apply (intro reads_if reads_let_pure reads_ret reads_shooter_ai_m)
  apply (simp only: fst_conv snd_conv)
  apply (intro reads_case_sum reads_let_pure reads_if reads_ok reads_enemy_death_m reads_ret)
  done

lemma reads_enemy_step_m: "reads (\<lambda>rs. enemy_step_m dt room depth i (s, rs))"
  unfolding enemy_step_m_def
  apply (simp only: Let_def fst_conv snd_conv)
  apply (intro reads_case_sum reads_if reads_ret reads_boss_step_m reads_normal_step_m)
  done

lemma reads_updateEnemies_m: "reads (\<lambda>rs. updateEnemies_m dt rs w)"
  unfolding updateEnemies_m_def
  by (intro reads_let_pure reads_fold reads_enemy_step_m)

lemma reads_resetGame_m: "reads (\<lambda>rs. resetGame_m rs w)"
  unfolding resetGame_m_def
  apply (intro reads_let_pure)
  apply (rule reads_let_st, rule reads_loadRoom_m)
  apply (simp add: reads_ret)
  done

lemma reads_door_try_m: "reads (\<lambda>rs. door_try_m d nxp nyp (s, rs))"
  unfolding door_try_m_def
  apply (simp only: fst_conv snd_conv)
  apply (intro reads_if reads_ret reads_tryDoorTransitionByIntent_m)
  done

lemma reads_door_phase_m: "reads (\<lambda>rs. door_phase_m nxp nyp rs w)"
  unfolding door_phase_m_def
  apply (rule reads_bind [where g = "door_try_m DirE nxp nyp"])
   apply (rule reads_bind [where g = "door_try_m DirW nxp nyp"])
    apply (rule reads_bind [where g = "door_try_m DirS nxp nyp"])
     apply (rule reads_door_try_m)+
  done

lemma reads_tick_move_m: "reads (\<lambda>rs. tick_move_m dt nxp nyp rs w)"
  unfolding tick_move_m_def
  by (intro reads_case_sum reads_ret reads_updateEnemies_m)

lemma reads_tick_tail_m: "reads (\<lambda>rs. tick_tail_m dt nxp nyp rs w)"
  unfolding tick_tail_m_def
  apply (rule reads_let_st, rule reads_tick_move_m)
  apply (simp only: fst_conv snd_conv)
  apply (intro reads_case_sum reads_let_pure reads_ret)
  done

lemma reads_update_m: "reads (\<lambda>rs. update_m dt inp rs w)"
  unfolding update_m_def
  apply (rule reads_if)
   apply (intro reads_let_pure reads_if reads_ok reads_resetGame_m reads_ret)
  apply (rule reads_let_pure)
  apply (rule reads_let_st)
   apply (intro reads_if reads_resetGame_m reads_ret)
  apply (simp only: fst_conv snd_conv)
  apply (intro reads_let_pure)
  apply (rule reads_if)
   apply (rule reads_ret)
  apply (intro reads_let_pure)
  apply (rule reads_let_st)
   apply (intro reads_if reads_shoot_m reads_ret)
  apply (simp only: fst_conv snd_conv)
  apply (rule reads_let_st, rule reads_updateBurst_m)
  apply (simp only: fst_conv snd_conv)
  apply (intro reads_let_pure)
  apply (rule reads_let_st, rule reads_door_phase_m)
  apply (simp only: fst_conv snd_conv)
  apply (intro reads_if reads_ret reads_tick_tail_m)
  done

text \<open>
  Claim C9, as it holds.  The tick draws from \<^verbatim>\<open>Math.random()\<close>, which is no part of the
  world state; its successor state is determined by the world state, the delta-time, the
  inputs and the values drawn during the tick.  A tick draws finitely many values, in order:
  for every execution there is a number \<open>n\<close> such that every execution from the same world
  state, with the same delta-time and inputs, whose first \<open>n\<close> draws are the same, ends in the
  same successor state and leaves the same rest of the random source.
\<close>

theorem C9_tick_determined_by_state_inputs_and_draws:
  "\<exists>n. \<forall>rs'. update_m dt inp (stake n rs @- rs') w = (fst (update_m dt inp rs w), rs')"
  using reads_update_m [of dt inp w] unfolding reads_def by simp

subsection \<open>A tick whose outcome depends on the draws\<close>

lemma rng_genRoomTiles_m [simp]: "snd (genRoomTiles_m i (sconst c) w) = sconst c"
  by (simp add: genRoomTiles_m_def Let_def rng_pillar_rows rng_scatter_fold)

lemma rng_buildNeighbors_m [simp]: "snd (buildNeighborsAround_m i (sconst c) w) = sconst c"
  by (simp add: buildNeighborsAround_m_def Let_def)

lemma enemies_setRoom [simp]: "mw_enemies (setRoom_m i f w) = mw_enemies w"
  by (simp add: setRoom_m_def)

lemma enemies_setNode [simp]: "mw_enemies (setNode_m i f w) = mw_enemies w"
  by (simp add: setNode_m_def)

lemma enemies_snap [simp]: "mw_enemies (snapCameraToPlayer_m w) = mw_enemies w"
  by (simp add: snapCameraToPlayer_m_def Let_def)

lemma length_spawn_fold:
  "length (mw_enemies (fst (fold (spawn_step d) xs st))) = length (mw_enemies (fst st)) + length xs"
  by (induction xs arbitrary: st) (simp_all add: spawn_step_def spawnEnemy_m_def Let_def)

lemma spawnRoomContents_count:
  assumes "assignRoomKind_m (getNode_m w i) = KCombat" and "\<not> mn_cleared (getNode_m w i)"
      and "js_rem (mn_depth (getNode_m w i)) 10 \<noteq> 0"
  shows "length (mw_enemies (fst (spawnRoomContents_m i (sconst c) w)))
       = nat (4 + randi 4 c + js_int32 (real_of_int (mn_depth (getNode_m w i)) / 4))"
  using assms by (simp add: spawnRoomContents_m_def Let_def shouldSpawnBoss_def length_spawn_fold)

lemma loadRoom_count:
  assumes "assignRoomKind_m (getNode_m w i) = KCombat" and "\<not> mn_cleared (getNode_m w i)"
      and "js_rem (mn_depth (getNode_m w i)) 10 \<noteq> 0"
  shows "length (mw_enemies (fst (loadRoom_m i (sconst c) w)))
       = nat (4 + randi 4 c + js_int32 (real_of_int (mn_depth (getNode_m w i)) / 4))"
proof -
  define w1 where "w1 = setNode_m i (\<lambda>n. n\<lparr>mn_kind := assignRoomKind_m n\<rparr>) (ensureNode_m i w)"
  define st3 where "st3 = genRoomTiles_m i (snd (buildNeighborsAround_m i (sconst c) w1)) (fst (buildNeighborsAround_m i (sconst c) w1))"
  have n: "getNode_m (fst st3) i = (getNode_m w i)\<lparr>mn_kind := assignRoomKind_m (getNode_m w i)\<rparr>"
    unfolding st3_def w1_def by (simp add: getNode_buildNeighbors)
  have a: "assignRoomKind_m (getNode_m (fst st3) i) = KCombat" "\<not> mn_cleared (getNode_m (fst st3) i)"
      "js_rem (mn_depth (getNode_m (fst st3) i)) 10 \<noteq> 0"
      "mn_depth (getNode_m (fst st3) i) = mn_depth (getNode_m w i)"
    using assms unfolding n by simp_all
  have r: "snd st3 = sconst c" by (simp add: st3_def)
  show ?thesis
    unfolding loadRoom_m_def Let_def w1_def [symmetric] st3_def [symmetric] r
    using spawnRoomContents_count [OF a(1,2,3), of c] by (simp add: a(4))
qed

lemma try_enemies:
  assumes "mr_neighbors (getRoom_m w (mw_roomId w)) d" and "mr_doorsOpen (getRoom_m w (mw_roomId w)) d"
      and "nid = roomKey (mn_x (getNode_m w (mw_roomId w)) + dir_dx d) (mn_y (getNode_m w (mw_roomId w)) + dir_dy d)"
  shows "mw_enemies (fst (fst (tryDoorTransitionByIntent_m d rs w)))
       = mw_enemies (fst (loadRoom_m nid rs
           ((ensureRoom_m nid (ensureNode_m nid (ensureRoom_m (mw_roomId w) (ensureNode_m (mw_roomId w) w))))
              \<lparr>mw_roomId := nid\<rparr>)))"
  using assms by (simp add: tryDoorTransitionByIntent_m_def Let_def)

lemma static_timers [simp]: "static_m (timers_m dt w) = static_m w"
  by (simp add: timers_m_def Let_def)

lemma static_movement [simp]: "static_m (movement_m dt inp w) = static_m w"
  by (simp add: movement_m_def Let_def)

lemma burstQ_timers [simp]: "mp_burstQ (mw_player (timers_m dt w)) = mp_burstQ (mw_player w)"
  by (simp add: timers_m_def Let_def)

lemma burstQ_movement [simp]: "mp_burstQ (mw_player (movement_m dt inp w)) = mp_burstQ (mw_player w)"
  by (simp add: movement_m_def Let_def)

text \<open>
  A tick of a running game with no key newly pressed, the mouse button up, no burst under
  way and the player outside a shop: timers, movement input, then the doors.
\<close>

lemma update_m_plain:
  assumes "\<not> mw_paused w" and "\<And>k. \<not> in_keysPressed inp k" and "\<not> in_mouse_down inp"
      and "mp_burstQ (mw_player w) \<le> 0" and "mn_kind (getNode_m w (mw_roomId w)) \<noteq> KShop"
  shows "update_m dt inp rs w =
    (let w11 = ensureRoom_m (mw_roomId w) (movement_m dt inp (ensureNode_m (mw_roomId w) (timers_m dt w)));
         nxp = mp_x (mw_player w11) + mp_vx (mw_player w11) * dt;
         nyp = mp_y (mw_player w11) + mp_vy (mw_player w11) * dt;
         dp = door_phase_m nxp nyp rs w11
     in if snd (fst dp) then (Inr (fst (fst dp)), snd dp)
        else tick_tail_m dt nxp nyp (snd dp) (fst (fst dp)))"
proof -
  have r: "mw_roomId (timers_m dt w) = mw_roomId w"
    using static_roomId [of "timers_m dt w" w] by simp
  have n: "getNode_m (timers_m dt w) = getNode_m w"
    using getNode_static [of "timers_m dt w" w] by (simp add: fun_eq_iff)
  have rm: "mw_roomId (movement_m dt inp w') = mw_roomId w'" for w'
    using static_roomId [of "movement_m dt inp w'" w'] by simp
  show ?thesis
    using assms
    by (simp add: update_m_def Let_def wasPressed_def dash_m_def updateBurst_m_def r n rm)
qed

definition push_north_m :: input_m where
  "push_north_m = \<lparr> in_keys = (\<lambda>k. k = KEY_W), in_keysPressed = (\<lambda>k. False),
     in_mouse_x = 0, in_mouse_y = 0, in_mouse_down = False \<rparr>"

definition door_world_m :: world_m where
  "door_world_m = (example_world_m True 0)
     \<lparr> mw_running := True, mw_player := init_player_m\<lparr> mp_x := 420, mp_y := 5 \<rparr> \<rparr>"

definition pushed_world_m :: world_m where
  "pushed_world_m = ensureRoom_m (0, 0) (movement_m (1 / 60) push_north_m
      (ensureNode_m (0, 0) (timers_m (1 / 60) door_world_m)))"

lemma door_world_facts:
  "\<not> mw_paused door_world_m" "\<not> in_keysPressed push_north_m k" "\<not> in_mouse_down push_north_m"
  "mp_burstQ (mw_player door_world_m) \<le> 0"
  "mn_kind (getNode_m door_world_m (mw_roomId door_world_m)) \<noteq> KShop"
  "mw_roomId door_world_m = (0, 0)"
  by (simp_all add: door_world_m_def example_world_m_def init_world_m_def init_player_m_def
      push_north_m_def getNode_m_def newNode_m_def)

lemma pushed_player:
  "mp_x (mw_player pushed_world_m) = 420" "mp_y (mw_player pushed_world_m) = 5"
  "mp_vx (mw_player pushed_world_m) = 0" "mp_vy (mw_player pushed_world_m) = - 190"
  by (simp_all add: pushed_world_m_def movement_m_def timers_m_def Let_def door_world_m_def
      example_world_m_def init_world_m_def init_player_m_def push_north_m_def
      move_axis_x_def move_axis_y_def norm_js_def KEY_W_def KEY_A_def KEY_D_def KEY_S_def
      KEY_LEFT_def KEY_RIGHT_def KEY_UP_def KEY_DOWN_def)

lemma pushed_static:
  "mw_roomId pushed_world_m = (0, 0)"
  "getNode_m pushed_world_m = getNode_m door_world_m"
  "getRoom_m pushed_world_m = getRoom_m door_world_m"
proof -
  have "static_m pushed_world_m = static_m door_world_m"
    by (simp add: pushed_world_m_def)
  then show "mw_roomId pushed_world_m = (0, 0)" "getNode_m pushed_world_m = getNode_m door_world_m"
    "getRoom_m pushed_world_m = getRoom_m door_world_m"
    using door_world_facts(6) by (simp_all add: static_m_def)
qed

lemma door_world_rooms:
  "mr_neighbors (getRoom_m door_world_m (0, 0)) d" "mr_doorsOpen (getRoom_m door_world_m (0, 0)) d"
  "getNode_m door_world_m i = newNode_m i"
  by (simp_all add: door_world_m_def example_world_m_def init_world_m_def example_room_m_def
      getRoom_m_def getNode_m_def)

lemma tick_enters_north:
  "returns (fst (update_m (1 / 60) push_north_m rs door_world_m))
     (\<lambda>w'. mw_enemies w'
       = mw_enemies (fst (loadRoom_m (0, - 1) rs
          ((ensureRoom_m (0, - 1) (ensureNode_m (0, - 1) (ensureRoom_m (0, 0) (ensureNode_m (0, 0) pushed_world_m))))
             \<lparr>mw_roomId := (0, - 1)\<rparr>))))"
proof -
  let ?nyp = "5 + - 190 * (1 / 60) :: real"
  have i: "door_intent_m DirN (mw_player pushed_world_m) 420 ?nyp"
    by (simp add: door_intent_m_def pushed_player inDoorBand_m_def ROOM_W_m_def ROOM_TW_def TILE_m_def
        DOOR_SPAN_m_def DOOR_THICK_m_def)
  have p: "door_phase_m 420 ?nyp rs pushed_world_m = tryDoorTransitionByIntent_m DirN rs pushed_world_m"
    by (rule door_phase_one [OF i])
  have o: "mr_neighbors (getRoom_m pushed_world_m (mw_roomId pushed_world_m)) DirN"
      "mr_doorsOpen (getRoom_m pushed_world_m (mw_roomId pushed_world_m)) DirN"
    by (simp_all add: pushed_static door_world_rooms)
  have f: "snd (fst (tryDoorTransitionByIntent_m DirN rs pushed_world_m))"
    using try_success [OF o] by simp
  have k: "(0, - 1) = roomKey (mn_x (getNode_m pushed_world_m (mw_roomId pushed_world_m)) + dir_dx DirN)
                               (mn_y (getNode_m pushed_world_m (mw_roomId pushed_world_m)) + dir_dy DirN)"
    by (simp add: pushed_static door_world_rooms newNode_m_def roomKey_def dir_dx_def dir_dy_def)
  have u: "update_m (1 / 60) push_north_m rs door_world_m =
      (Inr (fst (fst (tryDoorTransitionByIntent_m DirN rs pushed_world_m))),
       snd (tryDoorTransitionByIntent_m DirN rs pushed_world_m))"
    using update_m_plain [OF door_world_facts(1,2,3,4,5), of "1 / 60" rs] p f
    by (simp add: door_world_facts(6) pushed_world_m_def [symmetric] pushed_player Let_def)
  show ?thesis
    unfolding u using try_enemies [OF o k, of rs] by (simp add: pushed_static)
qed

lemma north_room_count:
  "returns (fst (update_m (1 / 60) push_north_m (sconst c) door_world_m))
     (\<lambda>w'. length (mw_enemies w') = nat (4 + randi 4 c))"
proof -
  let ?w = "(ensureRoom_m (0, - 1) (ensureNode_m (0, - 1) (ensureRoom_m (0, 0) (ensureNode_m (0, 0) pushed_world_m))))
          \<lparr>mw_roomId := (0, - 1)\<rparr>"
  have n: "getNode_m ?w (0, - 1) = newNode_m (0, - 1)"
    by (simp add: pushed_static door_world_rooms)
  have a: "assignRoomKind_m (getNode_m ?w (0, - 1)) = KCombat" "\<not> mn_cleared (getNode_m ?w (0, - 1))"
      "js_rem (mn_depth (getNode_m ?w (0, - 1))) 10 \<noteq> 0"
    unfolding n by (simp_all add: newNode_m_def assignRoomKind_m_def isShopCoord_def js_rem_def)
  have d: "js_int32 (real_of_int (mn_depth (getNode_m ?w (0, - 1))) / 4) = 0"
    unfolding n by (simp add: newNode_m_def js_int32_def js_trunc_def)
  show ?thesis
    using tick_enters_north [of "sconst c"] loadRoom_count [OF a, of c] d
    by (auto simp: returns_def split: sum.splits)
qed

text \<open>
  Claim C9, as stated (equal world states, delta-times and inputs give equal successor
  states), fails.  The player pushes north through the open door of the start room; the tick
  enters the room behind it and fills it, and returns.  When every draw is 0 the room gets
  four enemies; when every draw is 1/2 it gets six.
\<close>

theorem C9_counterexample:
  "returns (fst (update_m (1 / 60) push_north_m (sconst 0) door_world_m))
     (\<lambda>w'. length (mw_enemies w') = 4)
   \<and> returns (fst (update_m (1 / 60) push_north_m (sconst (1 / 2)) door_world_m))
     (\<lambda>w'. length (mw_enemies w') = 6)
   \<and> fst (update_m (1 / 60) push_north_m (sconst 0) door_world_m)
       \<noteq> fst (update_m (1 / 60) push_north_m (sconst (1 / 2)) door_world_m)"
proof -
  have 0: "returns (fst (update_m (1 / 60) push_north_m (sconst 0) door_world_m))
     (\<lambda>w'. length (mw_enemies w') = 4)"
    using north_room_count [of 0] by (simp add: randi_def js_int32_def js_trunc_def)
  have 1: "returns (fst (update_m (1 / 60) push_north_m (sconst (1 / 2)) door_world_m))
     (\<lambda>w'. length (mw_enemies w') = 6)"
    using north_room_count [of "1 / 2"] by (simp add: randi_def js_int32_def js_trunc_def)
  from 0 1 show ?thesis by (auto simp: returns_def split: sum.splits)
qed

end
